theory Spec2Isabelle
  imports Main "HOL-Library.AList" "HOL-Library.Sublist"
begin

section \<open>Data model\<close>

text \<open>
  The application keeps its state in React state cells of the \<open>App\<close> component. The
  model is a record of those cells; every handler is a function from the state in which
  it is called to the state it leaves behind once it has run to completion. A handler
  that awaits the image service is given twice: once as a whole, for the handler that is
  left alone until the service has answered, and once in two parts, before and after
  the \<open>await\<close>, for the runs in which other handlers are called in between.

  JavaScript strings are modelled as \<open>string\<close>; \<open>startsWith\<close> is \<open>prefix\<close> and a
  template literal is concatenation. A value that may be \<open>null\<close> or \<open>undefined\<close>
  is an \<open>option\<close>. The test \<open>if (x)\<close> on such a value is \<open>truthy\<close>: it fails for
  \<open>null\<close>, for \<open>undefined\<close> and for the empty string.

  A \<open>Record<string, string>\<close> is the list of its own properties in insertion order,
  which is the order \<open>Object.keys\<close> and \<open>Object.values\<close> enumerate (every key written
  by the application contains the separator \<open>_\<close>, so none is an array index).
  Reading a property is \<open>map_of\<close>; assigning one is \<open>AList.update\<close>, which replaces the
  value of a key that is present where it stands and appends a new key at the end.
  Properties inherited from \<open>Object.prototype\<close> are not part of the model: a key is
  read as absent unless the layer itself holds it. (A composite key can name an
  inherited property only when pose and emotion are both empty, and the controls never
  submit an empty emotion.)

  The fields \<open>id\<close>, \<open>name\<close> and \<open>url\<close> of \<open>WardrobeItem\<close> are \<open>item_id\<close>,
  \<open>item_name\<close> and \<open>item_url\<close> here, and the \<open>name\<close> of a \<open>File\<close> is \<open>file_name\<close>.
\<close>

record WardrobeItem =
  item_id :: string
  item_name :: string
  item_url :: string

record OutfitLayer =
  garment :: "WardrobeItem option"
  generatedImages :: "(string \<times> string) list"

datatype File = File (file_name: string)

record app_state =
  modelImageUrl :: "string option"
  outfitHistory :: "OutfitLayer list"
  currentOutfitIndex :: nat
  isLoading :: bool
  loadingMessage :: string
  error :: "string option"
  currentPoseInstruction :: string
  currentEmotionInstruction :: string
  currentBackgroundInstruction :: string
  currentColorInstruction :: string
  isSheetCollapsed :: bool
  wardrobe :: "WardrobeItem list"

text \<open>
  The image service (\<open>services/geminiService\<close>) is outside the program. A call to it is
  a value of \<open>api_call\<close>; the service is a function from the call to what the awaited
  promise gives: \<open>Inr\<close> the image URL, or \<open>Inl\<close> the thrown value. Every handler returns
  the calls it made next to the state.
\<close>

datatype api_call =
    generateVirtualTryOnImage string File
  | generatePoseVariation string string
  | generateEmotionVariation string string
  | generateBackgroundVariation string string
  | generateColorVariation string string
  | generateUploadedBackgroundVariation string File

type_synonym image_api = "api_call \<Rightarrow> string + string"

text \<open>
  Reading \<open>generatedImages\<close> of a layer that is \<open>undefined\<close> throws a \<open>TypeError\<close>,
  which nothing catches: the handler stops before it has set any state.
\<close>

datatype js_error = TypeError

type_synonym handler_result = "js_error + (api_call list \<times> app_state)"

section \<open>Constants and helpers\<close>

definition POSE_INSTRUCTIONS :: "string list" where
  "POSE_INSTRUCTIONS =
    [''Full frontal view, hands on hips'',
     ''Slightly turned, 3/4 view'',
     ''Side profile view'',
     ''Jumping in the air, mid-action shot'',
     ''Walking towards camera'',
     ''Leaning against a wall'']"

definition EMOTION_INSTRUCTIONS :: "string list" where
  "EMOTION_INSTRUCTIONS = [''Neutral'', ''Happy'', ''Sad'', ''Serious'']"

definition BACKGROUND_INSTRUCTIONS :: "string list" where
  "BACKGROUND_INSTRUCTIONS =
    [''Neutral studio backdrop'', ''City street at night'', ''Serene beach at sunset'',
     ''Lush green forest'', ''Modern art gallery'']"

definition COLOR_INSTRUCTIONS :: "string list" where
  "COLOR_INSTRUCTIONS =
    [''Original'', ''Vibrant Red'', ''Deep Blue'', ''Forest Green'', ''Classic Black'',
     ''Pure White'', ''Sunny Yellow'', ''Hot Pink'']"

fun truthy :: "string option \<Rightarrow> bool" where
  "truthy None = False"
| "truthy (Some v) = (v \<noteq> [])"

text \<open>The template \<open>`${pose}_${emotion}_${background}_${color}`\<close>.\<close>

definition compositeKey :: "string \<Rightarrow> string \<Rightarrow> string \<Rightarrow> string \<Rightarrow> string" where
  "compositeKey p e b c = p @ ''_'' @ e @ ''_'' @ b @ ''_'' @ c"

definition initialKey :: string where
  "initialKey =
     compositeKey (POSE_INSTRUCTIONS ! 0) (EMOTION_INSTRUCTIONS ! 0)
       (BACKGROUND_INSTRUCTIONS ! 0) (COLOR_INSTRUCTIONS ! 0)"

section \<open>The displayed image\<close>

definition displayImageUrl :: "app_state \<Rightarrow> string option" where
  "displayImageUrl s =
    (if length (outfitHistory s) = 0 then modelImageUrl s
     else if \<not> currentOutfitIndex s < length (outfitHistory s) then modelImageUrl s
     else
       let currentLayer = outfitHistory s ! currentOutfitIndex s;
           primaryKey = compositeKey (currentPoseInstruction s) (currentEmotionInstruction s)
                          (currentBackgroundInstruction s) (currentColorInstruction s)
       in
       if truthy (map_of (generatedImages currentLayer) primaryKey)
       then map_of (generatedImages currentLayer) primaryKey
       else
         let keys = map fst (generatedImages currentLayer);
             poseEmotionBgFallback =
               find (\<lambda>key. prefix (currentPoseInstruction s @ ''_'' @ currentEmotionInstruction s
                                    @ ''_'' @ currentBackgroundInstruction s @ ''_'') key) keys
         in
         if truthy poseEmotionBgFallback
         then map_of (generatedImages currentLayer) (the poseEmotionBgFallback)
         else
           let poseEmotionFallback =
                 find (\<lambda>key. prefix (currentPoseInstruction s @ ''_''
                                      @ currentEmotionInstruction s @ ''_'') key) keys
           in
           if truthy poseEmotionFallback
           then map_of (generatedImages currentLayer) (the poseEmotionFallback)
           else
             let poseFallback = find (\<lambda>key. prefix (currentPoseInstruction s @ ''_'') key) keys
             in
             if truthy poseFallback
             then map_of (generatedImages currentLayer) (the poseFallback)
             else (case map snd (generatedImages currentLayer) of
                     [] \<Rightarrow> None
                   | v # _ \<Rightarrow> Some v))"

section \<open>Handlers\<close>

definition resetStateForNewGarment :: "app_state \<Rightarrow> app_state" where
  "resetStateForNewGarment s =
     s\<lparr>currentPoseInstruction := POSE_INSTRUCTIONS ! 0,
       currentEmotionInstruction := EMOTION_INSTRUCTIONS ! 0,
       currentBackgroundInstruction := BACKGROUND_INSTRUCTIONS ! 0,
       currentColorInstruction := COLOR_INSTRUCTIONS ! 0\<rparr>"

text \<open>
  The state of the first render. \<open>defaultWardrobe\<close> (module \<open>wardrobe\<close>) is a parameter
  here and in \<open>handleStartOver\<close>.
\<close>

definition initialState :: "WardrobeItem list \<Rightarrow> app_state" where
  "initialState defaultWardrobe =
     \<lparr>modelImageUrl = None,
      outfitHistory = [],
      currentOutfitIndex = 0,
      isLoading = False,
      loadingMessage = [],
      error = None,
      currentPoseInstruction = POSE_INSTRUCTIONS ! 0,
      currentEmotionInstruction = EMOTION_INSTRUCTIONS ! 0,
      currentBackgroundInstruction = BACKGROUND_INSTRUCTIONS ! 0,
      currentColorInstruction = COLOR_INSTRUCTIONS ! 0,
      isSheetCollapsed = False,
      wardrobe = defaultWardrobe\<rparr>"

definition handleModelFinalized :: "string \<Rightarrow> app_state \<Rightarrow> app_state" where
  "handleModelFinalized url s =
     resetStateForNewGarment
       (s\<lparr>modelImageUrl := Some url,
          outfitHistory := [\<lparr>garment = None, generatedImages = [(initialKey, url)]\<rparr>],
          currentOutfitIndex := 0\<rparr>)"

definition handleStartOver :: "WardrobeItem list \<Rightarrow> app_state \<Rightarrow> app_state" where
  "handleStartOver defaultWardrobe s =
     (resetStateForNewGarment
        (s\<lparr>modelImageUrl := None,
           outfitHistory := [],
           currentOutfitIndex := 0,
           isLoading := False,
           loadingMessage := [],
           error := None\<rparr>))
      \<lparr>isSheetCollapsed := False, wardrobe := defaultWardrobe\<rparr>"

text \<open>
  \<open>getFriendlyErrorMessage\<close> (module \<open>lib/utils\<close>) is the parameter \<open>friendly\<close>: it
  takes the thrown value and the context string.
\<close>

definition handleGarmentSelect ::
  "(string \<Rightarrow> string \<Rightarrow> string) \<Rightarrow> image_api \<Rightarrow> File \<Rightarrow> WardrobeItem \<Rightarrow> app_state
     \<Rightarrow> api_call list \<times> app_state" where
  "handleGarmentSelect friendly api garmentFile garmentInfo s =
    (if \<not> truthy (displayImageUrl s) \<or> isLoading s then ([], s)
     else
       let nextLayer =
             (if currentOutfitIndex s + 1 < length (outfitHistory s)
              then Some (outfitHistory s ! (currentOutfitIndex s + 1)) else None)
       in
       if (case nextLayer of
             None \<Rightarrow> False
           | Some l \<Rightarrow> (case garment l of
                          None \<Rightarrow> False
                        | Some g \<Rightarrow> item_id g = item_id garmentInfo))
       then ([], resetStateForNewGarment (s\<lparr>currentOutfitIndex := currentOutfitIndex s + 1\<rparr>))
       else
         let s1 = resetStateForNewGarment
                    (s\<lparr>error := None, isLoading := True,
                       loadingMessage := ''Adding '' @ item_name garmentInfo @ ''...''\<rparr>);
             call = generateVirtualTryOnImage (the (displayImageUrl s)) garmentFile
         in
         (case api call of
            Inr newImageUrl \<Rightarrow>
              let newLayer = \<lparr>garment = Some garmentInfo,
                              generatedImages = [(initialKey, newImageUrl)]\<rparr>
              in ([call],
                  s1\<lparr>outfitHistory :=
                        take (currentOutfitIndex s + 1) (outfitHistory s1) @ [newLayer],
                      currentOutfitIndex := currentOutfitIndex s1 + 1,
                      wardrobe :=
                        (if find (\<lambda>item. item_id item = item_id garmentInfo) (wardrobe s1) \<noteq> None
                         then wardrobe s1 else wardrobe s1 @ [garmentInfo]),
                      isLoading := False,
                      loadingMessage := []\<rparr>)
          | Inl err \<Rightarrow>
              ([call],
               s1\<lparr>error := Some (friendly err ''Failed to apply garment''),
                   isLoading := False,
                   loadingMessage := []\<rparr>)))"

definition handleRemoveLastGarment :: "app_state \<Rightarrow> app_state" where
  "handleRemoveLastGarment s =
     (if currentOutfitIndex s > 0
      then resetStateForNewGarment (s\<lparr>currentOutfitIndex := currentOutfitIndex s - 1\<rparr>)
      else s)"

text \<open>
  The five variation handlers. Each one returns at once when it has nothing to do, only
  switches the current instruction when the layer already holds a truthy image under the
  new composite key, and otherwise asks the image service and stores the result in the
  current layer. The updater copies the array and assigns into the layer object at
  \<open>currentOutfitIndex\<close>; every layer is an object of its own (each comes from an
  object literal), so the assignment changes this one layer.
\<close>

definition handlePoseSelect ::
  "(string \<Rightarrow> string \<Rightarrow> string) \<Rightarrow> image_api \<Rightarrow> string \<Rightarrow> app_state \<Rightarrow> handler_result" where
  "handlePoseSelect friendly api newInstruction s =
    (if isLoading s \<or> length (outfitHistory s) = 0 \<or> newInstruction = currentPoseInstruction s
     then Inr ([], s)
     else
       let imageKey = compositeKey newInstruction (currentEmotionInstruction s)
                        (currentBackgroundInstruction s) (currentColorInstruction s)
       in
       if \<not> currentOutfitIndex s < length (outfitHistory s) then Inl TypeError
       else
         let currentLayer = outfitHistory s ! currentOutfitIndex s in
         if truthy (map_of (generatedImages currentLayer) imageKey)
         then Inr ([], s\<lparr>currentPoseInstruction := newInstruction\<rparr>)
         else
           let baseImageForPoseChange = displayImageUrl s in
           if \<not> truthy baseImageForPoseChange then Inr ([], s)
           else
             let prevPoseInstruction = currentPoseInstruction s;
                 s1 = s\<lparr>error := None, isLoading := True,
                        loadingMessage := ''Changing pose...'',
                        currentPoseInstruction := newInstruction\<rparr>;
                 call = generatePoseVariation (the baseImageForPoseChange) newInstruction
             in
             (case api call of
                Inr newImageUrl \<Rightarrow>
                  Inr ([call],
                       s1\<lparr>outfitHistory :=
                             (outfitHistory s1)
                               [currentOutfitIndex s :=
                                  (outfitHistory s1 ! currentOutfitIndex s)
                                    \<lparr>generatedImages :=
                                       AList.update imageKey newImageUrl
                                         (generatedImages
                                            (outfitHistory s1 ! currentOutfitIndex s))\<rparr>],
                           isLoading := False,
                           loadingMessage := []\<rparr>)
              | Inl err \<Rightarrow>
                  Inr ([call],
                       s1\<lparr>error := Some (friendly err ''Failed to change pose''),
                           currentPoseInstruction := prevPoseInstruction,
                           isLoading := False,
                           loadingMessage := []\<rparr>)))"

definition handleEmotionSelect ::
  "(string \<Rightarrow> string \<Rightarrow> string) \<Rightarrow> image_api \<Rightarrow> string \<Rightarrow> app_state \<Rightarrow> handler_result" where
  "handleEmotionSelect friendly api newInstruction s =
    (if isLoading s \<or> length (outfitHistory s) = 0 \<or> newInstruction = currentEmotionInstruction s
     then Inr ([], s)
     else
       let imageKey = compositeKey (currentPoseInstruction s) newInstruction
                        (currentBackgroundInstruction s) (currentColorInstruction s)
       in
       if \<not> currentOutfitIndex s < length (outfitHistory s) then Inl TypeError
       else
         let currentLayer = outfitHistory s ! currentOutfitIndex s in
         if truthy (map_of (generatedImages currentLayer) imageKey)
         then Inr ([], s\<lparr>currentEmotionInstruction := newInstruction\<rparr>)
         else
           let baseImageForEmotionChange = displayImageUrl s in
           if \<not> truthy baseImageForEmotionChange then Inr ([], s)
           else
             let prevEmotionInstruction = currentEmotionInstruction s;
                 s1 = s\<lparr>error := None, isLoading := True,
                        loadingMessage := ''Changing emotion to '' @ newInstruction @ ''...'',
                        currentEmotionInstruction := newInstruction\<rparr>;
                 call = generateEmotionVariation (the baseImageForEmotionChange) newInstruction
             in
             (case api call of
                Inr newImageUrl \<Rightarrow>
                  Inr ([call],
                       s1\<lparr>outfitHistory :=
                             (outfitHistory s1)
                               [currentOutfitIndex s :=
                                  (outfitHistory s1 ! currentOutfitIndex s)
                                    \<lparr>generatedImages :=
                                       AList.update imageKey newImageUrl
                                         (generatedImages
                                            (outfitHistory s1 ! currentOutfitIndex s))\<rparr>],
                           isLoading := False,
                           loadingMessage := []\<rparr>)
              | Inl err \<Rightarrow>
                  Inr ([call],
                       s1\<lparr>error := Some (friendly err ''Failed to change emotion''),
                           currentEmotionInstruction := prevEmotionInstruction,
                           isLoading := False,
                           loadingMessage := []\<rparr>)))"

definition handleBackgroundChange ::
  "(string \<Rightarrow> string \<Rightarrow> string) \<Rightarrow> image_api \<Rightarrow> string \<Rightarrow> app_state \<Rightarrow> handler_result" where
  "handleBackgroundChange friendly api newInstruction s =
    (if isLoading s \<or> length
        (outfitHistory s) = 0 \<or> newInstruction = currentBackgroundInstruction s
     then Inr ([], s)
     else
       let imageKey = compositeKey (currentPoseInstruction s) (currentEmotionInstruction s)
                        newInstruction (currentColorInstruction s)
       in
       if \<not> currentOutfitIndex s < length (outfitHistory s) then Inl TypeError
       else
         let currentLayer = outfitHistory s ! currentOutfitIndex s in
         if truthy (map_of (generatedImages currentLayer) imageKey)
         then Inr ([], s\<lparr>currentBackgroundInstruction := newInstruction\<rparr>)
         else
           let baseImageForBackgroundChange = displayImageUrl s in
           if \<not> truthy baseImageForBackgroundChange then Inr ([], s)
           else
             let prevBackgroundInstruction = currentBackgroundInstruction s;
                 s1 = s\<lparr>error := None, isLoading := True,
                        loadingMessage := ''Changing background...'',
                        currentBackgroundInstruction := newInstruction\<rparr>;
                 call = generateBackgroundVariation
                     (the baseImageForBackgroundChange) newInstruction
             in
             (case api call of
                Inr newImageUrl \<Rightarrow>
                  Inr ([call],
                       s1\<lparr>outfitHistory :=
                             (outfitHistory s1)
                               [currentOutfitIndex s :=
                                  (outfitHistory s1 ! currentOutfitIndex s)
                                    \<lparr>generatedImages :=
                                       AList.update imageKey newImageUrl
                                         (generatedImages
                                            (outfitHistory s1 ! currentOutfitIndex s))\<rparr>],
                           isLoading := False,
                           loadingMessage := []\<rparr>)
              | Inl err \<Rightarrow>
                  Inr ([call],
                       s1\<lparr>error := Some (friendly err ''Failed to change background''),
                           currentBackgroundInstruction := prevBackgroundInstruction,
                           isLoading := False,
                           loadingMessage := []\<rparr>)))"

definition handleBackgroundUpload ::
  "(string \<Rightarrow> string \<Rightarrow> string) \<Rightarrow> image_api \<Rightarrow> File \<Rightarrow> app_state \<Rightarrow> handler_result" where
  "handleBackgroundUpload friendly api file s =
    (if isLoading s \<or> length (outfitHistory s) = 0
     then Inr ([], s)
     else
       let newInstruction = ''Uploaded: '' @ file_name file;
           imageKey = compositeKey (currentPoseInstruction s) (currentEmotionInstruction s)
                        newInstruction (currentColorInstruction s)
       in
       if \<not> currentOutfitIndex s < length (outfitHistory s) then Inl TypeError
       else
         let currentLayer = outfitHistory s ! currentOutfitIndex s in
         if truthy (map_of (generatedImages currentLayer) imageKey)
         then Inr ([], s\<lparr>currentBackgroundInstruction := newInstruction\<rparr>)
         else
           let baseImageForBackgroundChange = displayImageUrl s in
           if \<not> truthy baseImageForBackgroundChange then Inr ([], s)
           else
             let prevBackgroundInstruction = currentBackgroundInstruction s;
                 s1 = s\<lparr>error := None, isLoading := True,
                        loadingMessage := ''Applying custom background...'',
                        currentBackgroundInstruction := newInstruction\<rparr>;
                 call = generateUploadedBackgroundVariation
                     (the baseImageForBackgroundChange) file
             in
             (case api call of
                Inr newImageUrl \<Rightarrow>
                  Inr ([call],
                       s1\<lparr>outfitHistory :=
                             (outfitHistory s1)
                               [currentOutfitIndex s :=
                                  (outfitHistory s1 ! currentOutfitIndex s)
                                    \<lparr>generatedImages :=
                                       AList.update imageKey newImageUrl
                                         (generatedImages
                                            (outfitHistory s1 ! currentOutfitIndex s))\<rparr>],
                           isLoading := False,
                           loadingMessage := []\<rparr>)
              | Inl err \<Rightarrow>
                  Inr ([call],
                       s1\<lparr>error := Some (friendly err ''Failed to apply custom background''),
                           currentBackgroundInstruction := prevBackgroundInstruction,
                           isLoading := False,
                           loadingMessage := []\<rparr>)))"

definition handleColorChange ::
  "(string \<Rightarrow> string \<Rightarrow> string) \<Rightarrow> image_api \<Rightarrow> string \<Rightarrow> app_state \<Rightarrow> handler_result" where
  "handleColorChange friendly api newInstruction s =
    (if isLoading s \<or> length (outfitHistory s) = 0
        \<or> newInstruction = currentColorInstruction s \<or> currentOutfitIndex s = 0
     then Inr ([], s)
     else
       let imageKey = compositeKey (currentPoseInstruction s) (currentEmotionInstruction s)
                        (currentBackgroundInstruction s) newInstruction
       in
       if \<not> currentOutfitIndex s < length (outfitHistory s) then Inl TypeError
       else
         let currentLayer = outfitHistory s ! currentOutfitIndex s in
         if truthy (map_of (generatedImages currentLayer) imageKey)
         then Inr ([], s\<lparr>currentColorInstruction := newInstruction\<rparr>)
         else
           let originalColorKey =
                 compositeKey (currentPoseInstruction s) (currentEmotionInstruction s)
                   (currentBackgroundInstruction s) (COLOR_INSTRUCTIONS ! 0);
               baseImageForColorChange = map_of (generatedImages currentLayer) originalColorKey
           in
           if \<not> truthy baseImageForColorChange
           then Inr ([], s\<lparr>error :=
                            Some ''The original image for this outfit is missing. Cannot change color.''\<rparr>)
           else
             let prevColorInstruction = currentColorInstruction s;
                 s1 = s\<lparr>error := None, isLoading := True,
                        loadingMessage := ''Changing color to '' @ newInstruction @ ''...'',
                        currentColorInstruction := newInstruction\<rparr>;
                 call = generateColorVariation (the baseImageForColorChange) newInstruction
             in
             (case api call of
                Inr newImageUrl \<Rightarrow>
                  Inr ([call],
                       s1\<lparr>outfitHistory :=
                             (outfitHistory s1)
                               [currentOutfitIndex s :=
                                  (outfitHistory s1 ! currentOutfitIndex s)
                                    \<lparr>generatedImages :=
                                       AList.update imageKey newImageUrl
                                         (generatedImages
                                            (outfitHistory s1 ! currentOutfitIndex s))\<rparr>],
                           isLoading := False,
                           loadingMessage := []\<rparr>)
              | Inl err \<Rightarrow>
                  Inr ([call],
                       s1\<lparr>error := Some (friendly err ''Failed to change color''),
                           currentColorInstruction := prevColorInstruction,
                           isLoading := False,
                           loadingMessage := []\<rparr>)))"

section \<open>Runs of the application\<close>

text \<open>
  The states of the runs in which every handler has run to completion before the next
  one is called: the state of the first render, and every state a whole handler leaves
  behind when it is called in such a state, with any arguments and any behaviour of the
  image service. A variation handler that throws the \<open>TypeError\<close> has set no state, so
  it contributes no new state. The last rule is the button that collapses the sheet,
  the one other place where state is set. These are some of the states of the
  application, not all of them: the relation \<open>reachable\<close> below has the others, and
  lemma \<open>sequentially_reachable_reachable\<close> shows that it has these.
\<close>

inductive sequentially_reachable ::
  "WardrobeItem list \<Rightarrow> (string \<Rightarrow> string \<Rightarrow> string) \<Rightarrow> app_state \<Rightarrow> bool"
  for defaultWardrobe :: "WardrobeItem list" and friendly :: "string \<Rightarrow> string \<Rightarrow> string"
where
  initial:
    "sequentially_reachable defaultWardrobe friendly (initialState defaultWardrobe)"
| modelFinalized:
    "sequentially_reachable defaultWardrobe friendly s
     \<Longrightarrow> sequentially_reachable defaultWardrobe friendly (handleModelFinalized url s)"
| startOver:
    "sequentially_reachable defaultWardrobe friendly s
     \<Longrightarrow> sequentially_reachable defaultWardrobe friendly (handleStartOver defaultWardrobe s)"
| garmentSelect:
    "sequentially_reachable defaultWardrobe friendly s
     \<Longrightarrow> handleGarmentSelect friendly api garmentFile garmentInfo s = (calls, s')
     \<Longrightarrow> sequentially_reachable defaultWardrobe friendly s'"
| removeLastGarment:
    "sequentially_reachable defaultWardrobe friendly s
     \<Longrightarrow> sequentially_reachable defaultWardrobe friendly (handleRemoveLastGarment s)"
| poseSelect:
    "sequentially_reachable defaultWardrobe friendly s
     \<Longrightarrow> handlePoseSelect friendly api newInstruction s = Inr (calls, s')
     \<Longrightarrow> sequentially_reachable defaultWardrobe friendly s'"
| emotionSelect:
    "sequentially_reachable defaultWardrobe friendly s
     \<Longrightarrow> handleEmotionSelect friendly api newInstruction s = Inr (calls, s')
     \<Longrightarrow> sequentially_reachable defaultWardrobe friendly s'"
| backgroundChange:
    "sequentially_reachable defaultWardrobe friendly s
     \<Longrightarrow> handleBackgroundChange friendly api newInstruction s = Inr (calls, s')
     \<Longrightarrow> sequentially_reachable defaultWardrobe friendly s'"
| backgroundUpload:
    "sequentially_reachable defaultWardrobe friendly s
     \<Longrightarrow> handleBackgroundUpload friendly api file s = Inr (calls, s')
     \<Longrightarrow> sequentially_reachable defaultWardrobe friendly s'"
| colorChange:
    "sequentially_reachable defaultWardrobe friendly s
     \<Longrightarrow> handleColorChange friendly api newInstruction s = Inr (calls, s')
     \<Longrightarrow> sequentially_reachable defaultWardrobe friendly s'"
| sheetToggled:
    "sequentially_reachable defaultWardrobe friendly s
     \<Longrightarrow> sequentially_reachable defaultWardrobe friendly
         (s\<lparr>isSheetCollapsed := \<not> isSheetCollapsed s\<rparr>)"

text \<open>
  The invariant of the history: the index points into a non-empty history and is 0 for an
  empty one, every layer holds at least one image, the first layer is the base model
  layer (no garment) and every later layer has a garment.
\<close>

definition history_invariant :: "app_state \<Rightarrow> bool" where
  "history_invariant s \<longleftrightarrow>
     (if outfitHistory s = [] then currentOutfitIndex s = 0
      else 0 \<le> currentOutfitIndex s \<and> currentOutfitIndex s < length (outfitHistory s))
     \<and> list_all (\<lambda>layer. generatedImages layer \<noteq> []) (outfitHistory s)
     \<and> (case outfitHistory s of
          [] \<Rightarrow> True
        | base # upper \<Rightarrow> garment base = None \<and> list_all (\<lambda>layer. garment layer \<noteq> None) upper)"

text \<open>
  What the handlers keep true beyond that, and what the proofs about runs rest on: no
  handler is left loading, an empty history goes with no model image, and the image
  under the initial key of a layer is truthy, except possibly in the last layer when
  that layer holds nothing but an empty image under the initial key.
\<close>

definition layers_ok :: "OutfitLayer list \<Rightarrow> bool" where
  "layers_ok h \<longleftrightarrow>
     (\<forall>j < length h. generatedImages (h ! j) \<noteq> [])
     \<and> (\<forall>j < length h. (garment (h ! j) = None) = (j = 0))
     \<and> (\<forall>j < length h. truthy (map_of (generatedImages (h ! j)) initialKey)
            \<or> (Suc j = length h \<and> generatedImages (h ! j) = [(initialKey, [])]))"

definition state_ok :: "app_state \<Rightarrow> bool" where
  "state_ok s \<longleftrightarrow>
     \<not> isLoading s
     \<and> (outfitHistory s = [] \<longrightarrow> modelImageUrl s = None \<and> currentOutfitIndex s = 0)
     \<and> (outfitHistory s \<noteq> [] \<longrightarrow> currentOutfitIndex s < length (outfitHistory s))
     \<and> layers_ok (outfitHistory s)"

section \<open>The resolution order of the displayed image, as specified\<close>

text \<open>
  The first key, in enumeration order, that starts with a given string.
\<close>

definition firstKeyStartingWith :: "string \<Rightarrow> string list \<Rightarrow> string option" where
  "firstKeyStartingWith start ks =
     (case dropWhile (\<lambda>k. take (length start) k \<noteq> start) ks of
        [] \<Rightarrow> None
      | k # _ \<Rightarrow> Some k)"

text \<open>
  The fallback levels: the first key that has the current pose, emotion and background;
  else the first key that has the current pose and emotion; else the first key that has
  the current pose; else the first value of the map.
\<close>

definition fallbackImage_spec ::
  "(string \<times> string) list \<Rightarrow> string \<Rightarrow> string \<Rightarrow> string \<Rightarrow> string option" where
  "fallbackImage_spec images p e b =
     (case firstKeyStartingWith (p @ ''_'' @ e @ ''_'' @ b @ ''_'') (map fst images) of
        Some k \<Rightarrow> map_of images k
      | None \<Rightarrow>
     (case firstKeyStartingWith (p @ ''_'' @ e @ ''_'') (map fst images) of
        Some k \<Rightarrow> map_of images k
      | None \<Rightarrow>
     (case firstKeyStartingWith (p @ ''_'') (map fst images) of
        Some k \<Rightarrow> map_of images k
      | None \<Rightarrow>
     (case images of [] \<Rightarrow> None | (k, url) # _ \<Rightarrow> Some url))))"

text \<open>
  The displayed image: the model image when there is no current layer; the image under
  the composite key of the four current instructions when the layer has one that is not
  the empty string; the fallback otherwise.
\<close>

definition displayImageUrl_spec :: "app_state \<Rightarrow> string option" where
  "displayImageUrl_spec s =
     (if outfitHistory s = [] \<or> length (outfitHistory s) \<le> currentOutfitIndex s
      then modelImageUrl s
      else
        (case map_of (generatedImages (outfitHistory s ! currentOutfitIndex s))
                (compositeKey (currentPoseInstruction s) (currentEmotionInstruction s)
                   (currentBackgroundInstruction s) (currentColorInstruction s)) of
           Some url \<Rightarrow>
             if url \<noteq> [] then Some url
             else fallbackImage_spec (generatedImages (outfitHistory s ! currentOutfitIndex s))
                    (currentPoseInstruction s) (currentEmotionInstruction s)
                    (currentBackgroundInstruction s)
         | None \<Rightarrow>
             fallbackImage_spec (generatedImages (outfitHistory s ! currentOutfitIndex s))
               (currentPoseInstruction s) (currentEmotionInstruction s)
               (currentBackgroundInstruction s)))"

text \<open>
  What a successful variation leaves in the history: the layer at \<open>currentOutfitIndex\<close>
  holds the new image under the key; a key that was not in the layer is appended as one
  new entry, a key that was there (holding the empty string) keeps its place and only
  its image changes; every other entry, every other layer, every garment, the length
  of the history and the index are as before.
\<close>

definition imageStored :: "app_state \<Rightarrow> app_state \<Rightarrow> string \<Rightarrow> string \<Rightarrow> bool" where
  "imageStored s s' key url \<longleftrightarrow>
     (let i = currentOutfitIndex s;
          h = outfitHistory s;
          h' = outfitHistory s';
          images = generatedImages (h ! i);
          images' = generatedImages (h' ! i)
      in i < length h \<and> length h' = length h \<and> currentOutfitIndex s' = i
         \<and> map garment h' = map garment h
         \<and> take i h' = take i h \<and> drop (Suc i) h' = drop (Suc i) h
         \<and> filter (\<lambda>entry. fst entry \<noteq> key) images' = filter (\<lambda>entry. fst entry \<noteq> key) images
         \<and> map_of images' key = Some url
         \<and> (if key \<in> set (map fst images)
             then map_of images key = Some [] \<and> map fst images' = map fst images
             else images' = images @ [(key, url)]))"

section \<open>Handlers that await the service, in two parts\<close>

text \<open>
  The handlers above describe a handler that is left alone: the code after the \<open>await\<close>
  runs in the state that the code before it has set. The application does not wait.
  While the service is awaited, \<open>handleStartOver\<close>, \<open>handleRemoveLastGarment\<close> and
  \<open>handleModelFinalized\<close> test nothing and set state. So each handler that awaits is
  given a second time, in two parts. The first part (\<open>_begin\<close>) runs up to the \<open>await\<close>:
  it returns the state it has set and, when it awaits, the call together with what the
  code after the \<open>await\<close> uses of the values the handler captured. The second part
  (\<open>resume\<close>) is the \<open>try\<close>, \<open>catch\<close> and \<open>finally\<close> code after the \<open>await\<close>, run in the
  state the application is in by then: the functional updaters read that state, while
  the index, the key, the garment and the previous instruction are the captured ones.
\<close>

datatype variation =
    poseVariation
  | emotionVariation
  | backgroundVariation
  | uploadedBackgroundVariation
  | colorVariation

datatype continuation =
    afterTryOn nat WardrobeItem
  | afterVariation variation nat string string

type_synonym awaited = "api_call \<times> continuation"

definition handleGarmentSelect_begin ::
  "File \<Rightarrow> WardrobeItem \<Rightarrow> app_state \<Rightarrow> app_state \<times> awaited list" where
  "handleGarmentSelect_begin garmentFile garmentInfo s =
    (if \<not> truthy (displayImageUrl s) \<or> isLoading s then (s, [])
     else
       let nextLayer =
             (if currentOutfitIndex s + 1 < length (outfitHistory s)
              then Some (outfitHistory s ! (currentOutfitIndex s + 1)) else None)
       in
       if (case nextLayer of
             None \<Rightarrow> False
           | Some l \<Rightarrow> (case garment l of
                          None \<Rightarrow> False
                        | Some g \<Rightarrow> item_id g = item_id garmentInfo))
       then (resetStateForNewGarment (s\<lparr>currentOutfitIndex := currentOutfitIndex s + 1\<rparr>), [])
       else
         (resetStateForNewGarment
            (s\<lparr>error := None, isLoading := True,
               loadingMessage := ''Adding '' @ item_name garmentInfo @ ''...''\<rparr>),
          [(generateVirtualTryOnImage (the (displayImageUrl s)) garmentFile,
            afterTryOn (currentOutfitIndex s) garmentInfo)]))"

definition handlePoseSelect_begin :: "string \<Rightarrow> app_state \<Rightarrow> js_error +
    (app_state \<times> awaited list)" where
  "handlePoseSelect_begin newInstruction s =
    (if isLoading s \<or> length (outfitHistory s) = 0 \<or> newInstruction = currentPoseInstruction s
     then Inr (s, [])
     else
       let imageKey = compositeKey newInstruction (currentEmotionInstruction s)
                        (currentBackgroundInstruction s) (currentColorInstruction s)
       in
       if \<not> currentOutfitIndex s < length (outfitHistory s) then Inl TypeError
       else
         let currentLayer = outfitHistory s ! currentOutfitIndex s in
         if truthy (map_of (generatedImages currentLayer) imageKey)
         then Inr (s\<lparr>currentPoseInstruction := newInstruction\<rparr>, [])
         else
           let baseImageForPoseChange = displayImageUrl s in
           if \<not> truthy baseImageForPoseChange then Inr (s, [])
           else
             let prevPoseInstruction = currentPoseInstruction s in
             Inr (s\<lparr>error := None, isLoading := True,
                    loadingMessage := ''Changing pose...'',
                    currentPoseInstruction := newInstruction\<rparr>,
                  [(generatePoseVariation (the baseImageForPoseChange) newInstruction,
                    afterVariation poseVariation
                        (currentOutfitIndex s) imageKey prevPoseInstruction)]))"

definition handleEmotionSelect_begin :: "string \<Rightarrow> app_state \<Rightarrow> js_error +
    (app_state \<times> awaited list)" where
  "handleEmotionSelect_begin newInstruction s =
    (if isLoading s \<or> length (outfitHistory s) = 0
        \<or> newInstruction = currentEmotionInstruction s
     then Inr (s, [])
     else
       let imageKey = compositeKey (currentPoseInstruction s) newInstruction
                        (currentBackgroundInstruction s) (currentColorInstruction s)
       in
       if \<not> currentOutfitIndex s < length (outfitHistory s) then Inl TypeError
       else
         let currentLayer = outfitHistory s ! currentOutfitIndex s in
         if truthy (map_of (generatedImages currentLayer) imageKey)
         then Inr (s\<lparr>currentEmotionInstruction := newInstruction\<rparr>, [])
         else
           let baseImageForEmotionChange = displayImageUrl s in
           if \<not> truthy baseImageForEmotionChange then Inr (s, [])
           else
             let prevEmotionInstruction = currentEmotionInstruction s in
             Inr (s\<lparr>error := None, isLoading := True,
                    loadingMessage := ''Changing emotion to '' @ newInstruction @ ''...'',
                    currentEmotionInstruction := newInstruction\<rparr>,
                  [(generateEmotionVariation (the baseImageForEmotionChange) newInstruction,
                    afterVariation emotionVariation
                        (currentOutfitIndex s) imageKey prevEmotionInstruction)]))"

definition handleBackgroundChange_begin :: "string \<Rightarrow> app_state \<Rightarrow> js_error +
    (app_state \<times> awaited list)" where
  "handleBackgroundChange_begin newInstruction s =
    (if isLoading s \<or> length (outfitHistory s) = 0
        \<or> newInstruction = currentBackgroundInstruction s
     then Inr (s, [])
     else
       let imageKey = compositeKey (currentPoseInstruction s) (currentEmotionInstruction s)
                        newInstruction (currentColorInstruction s)
       in
       if \<not> currentOutfitIndex s < length (outfitHistory s) then Inl TypeError
       else
         let currentLayer = outfitHistory s ! currentOutfitIndex s in
         if truthy (map_of (generatedImages currentLayer) imageKey)
         then Inr (s\<lparr>currentBackgroundInstruction := newInstruction\<rparr>, [])
         else
           let baseImageForBackgroundChange = displayImageUrl s in
           if \<not> truthy baseImageForBackgroundChange then Inr (s, [])
           else
             let prevBackgroundInstruction = currentBackgroundInstruction s in
             Inr (s\<lparr>error := None, isLoading := True,
                    loadingMessage := ''Changing background...'',
                    currentBackgroundInstruction := newInstruction\<rparr>,
                  [(generateBackgroundVariation (the baseImageForBackgroundChange) newInstruction,
                    afterVariation backgroundVariation
                        (currentOutfitIndex s) imageKey prevBackgroundInstruction)]))"

definition handleBackgroundUpload_begin :: "File \<Rightarrow> app_state \<Rightarrow> js_error +
    (app_state \<times> awaited list)" where
  "handleBackgroundUpload_begin file s =
    (if isLoading s \<or> length (outfitHistory s) = 0
     then Inr (s, [])
     else
       let newInstruction = ''Uploaded: '' @ file_name file;
           imageKey = compositeKey (currentPoseInstruction s) (currentEmotionInstruction s)
                        newInstruction (currentColorInstruction s)
       in
       if \<not> currentOutfitIndex s < length (outfitHistory s) then Inl TypeError
       else
         let currentLayer = outfitHistory s ! currentOutfitIndex s in
         if truthy (map_of (generatedImages currentLayer) imageKey)
         then Inr (s\<lparr>currentBackgroundInstruction := newInstruction\<rparr>, [])
         else
           let baseImageForBackgroundChange = displayImageUrl s in
           if \<not> truthy baseImageForBackgroundChange then Inr (s, [])
           else
             let prevBackgroundInstruction = currentBackgroundInstruction s in
             Inr (s\<lparr>error := None, isLoading := True,
                    loadingMessage := ''Applying custom background...'',
                    currentBackgroundInstruction := newInstruction\<rparr>,
                  [(generateUploadedBackgroundVariation (the baseImageForBackgroundChange) file,
                    afterVariation uploadedBackgroundVariation
                        (currentOutfitIndex s) imageKey prevBackgroundInstruction)]))"

definition handleColorChange_begin :: "string \<Rightarrow> app_state \<Rightarrow> js_error +
    (app_state \<times> awaited list)" where
  "handleColorChange_begin newInstruction s =
    (if isLoading s \<or> length (outfitHistory s) = 0
        \<or> newInstruction = currentColorInstruction s \<or> currentOutfitIndex s = 0
     then Inr (s, [])
     else
       let imageKey = compositeKey (currentPoseInstruction s) (currentEmotionInstruction s)
                        (currentBackgroundInstruction s) newInstruction
       in
       if \<not> currentOutfitIndex s < length (outfitHistory s) then Inl TypeError
       else
         let currentLayer = outfitHistory s ! currentOutfitIndex s in
         if truthy (map_of (generatedImages currentLayer) imageKey)
         then Inr (s\<lparr>currentColorInstruction := newInstruction\<rparr>, [])
         else
           let originalColorKey =
                 compositeKey (currentPoseInstruction s) (currentEmotionInstruction s)
                   (currentBackgroundInstruction s) (COLOR_INSTRUCTIONS ! 0);
               baseImageForColorChange = map_of (generatedImages currentLayer) originalColorKey
           in
           if \<not> truthy baseImageForColorChange
           then Inr (s\<lparr>error :=
                         Some ''The original image for this outfit is missing. Cannot change color.''\<rparr>,
                     [])
           else
             let prevColorInstruction = currentColorInstruction s in
             Inr (s\<lparr>error := None, isLoading := True,
                    loadingMessage := ''Changing color to '' @ newInstruction @ ''...'',
                    currentColorInstruction := newInstruction\<rparr>,
                  [(generateColorVariation (the baseImageForColorChange) newInstruction,
                    afterVariation colorVariation
                        (currentOutfitIndex s) imageKey prevColorInstruction)]))"

text \<open>The instruction a \<open>catch\<close> block sets back, and the context of its message.\<close>

fun restoreInstruction :: "variation \<Rightarrow> string \<Rightarrow> app_state \<Rightarrow> app_state" where
  "restoreInstruction poseVariation prev s = s\<lparr>currentPoseInstruction := prev\<rparr>"
| "restoreInstruction emotionVariation prev s = s\<lparr>currentEmotionInstruction := prev\<rparr>"
| "restoreInstruction backgroundVariation prev s = s\<lparr>currentBackgroundInstruction := prev\<rparr>"
| "restoreInstruction uploadedBackgroundVariation prev s =
     s\<lparr>currentBackgroundInstruction := prev\<rparr>"
| "restoreInstruction colorVariation prev s = s\<lparr>currentColorInstruction := prev\<rparr>"

fun failureContext :: "variation \<Rightarrow> string" where
  "failureContext poseVariation = ''Failed to change pose''"
| "failureContext emotionVariation = ''Failed to change emotion''"
| "failureContext backgroundVariation = ''Failed to change background''"
| "failureContext uploadedBackgroundVariation = ''Failed to apply custom background''"
| "failureContext colorVariation = ''Failed to change color''"

text \<open>
  The code after the \<open>await\<close>. The updater of a variation assigns into
  \<open>newHistory[currentOutfitIndex]\<close> with the captured index; when the history has no
  layer there any more, the updater throws, React fails while it applies the update and
  the application is gone: there is no next state (\<open>None\<close>).
\<close>

definition resume ::
  "(string \<Rightarrow> string \<Rightarrow> string) \<Rightarrow> continuation \<Rightarrow> string + string \<Rightarrow> app_state
     \<Rightarrow> app_state option" where
  "resume friendly k outcome s =
    (case k of
       afterTryOn capturedIndex garmentInfo \<Rightarrow>
         (case outcome of
            Inr newImageUrl \<Rightarrow>
              let newLayer = \<lparr>garment = Some garmentInfo,
                              generatedImages = [(initialKey, newImageUrl)]\<rparr>
              in Some (s\<lparr>outfitHistory :=
                            take (capturedIndex + 1) (outfitHistory s) @ [newLayer],
                          currentOutfitIndex := currentOutfitIndex s + 1,
                          wardrobe :=
                            (if find (\<lambda>item. item_id item = item_id garmentInfo)
                                  (wardrobe s) \<noteq> None
                             then wardrobe s else wardrobe s @ [garmentInfo]),
                          isLoading := False,
                          loadingMessage := []\<rparr>)
          | Inl err \<Rightarrow>
              Some (s\<lparr>error := Some (friendly err ''Failed to apply garment''),
                       isLoading := False,
                       loadingMessage := []\<rparr>))
     | afterVariation v capturedIndex imageKey prevInstruction \<Rightarrow>
         (case outcome of
            Inr newImageUrl \<Rightarrow>
              if \<not> capturedIndex < length (outfitHistory s) then None
              else
                Some (s\<lparr>outfitHistory :=
                           (outfitHistory s)
                             [capturedIndex :=
                                (outfitHistory s ! capturedIndex)
                                  \<lparr>generatedImages :=
                                     AList.update imageKey newImageUrl
                                       (generatedImages (outfitHistory s ! capturedIndex))\<rparr>],
                         isLoading := False,
                         loadingMessage := []\<rparr>)
          | Inl err \<Rightarrow>
              Some ((restoreInstruction v prevInstruction
                       (s\<lparr>error := Some (friendly err (failureContext v))\<rparr>))
                      \<lparr>isLoading := False, loadingMessage := []\<rparr>)))"

section \<open>The states of the application\<close>

text \<open>
  A state of the application together with the calls it awaits. The application starts
  in the state of the first render, awaiting nothing. React renders after every event,
  so a handler is called with the values of the state the application is in. A handler that does not await
  sets the state and leaves the awaited calls alone; the first part of a handler that
  awaits may add a call; an awaited call settles, with any result or thrown value, and
  its code after the \<open>await\<close> runs. A first part that throws the \<open>TypeError\<close> and a
  second part after which the application is gone give no state.

  The parameter \<open>startOverWaits\<close> restricts the runs: when it is true,
  \<open>handleStartOver\<close> is only called while no call is awaited. With \<open>False\<close> the relation
  is every interleaving the application allows.
\<close>

inductive reachable ::
  "bool \<Rightarrow> WardrobeItem list \<Rightarrow> (string \<Rightarrow> string \<Rightarrow> string) \<Rightarrow> app_state \<times> awaited list \<Rightarrow> bool"
  for startOverWaits :: bool and defaultWardrobe :: "WardrobeItem list"
    and friendly :: "string \<Rightarrow> string \<Rightarrow> string"
where
  firstRender:
    "reachable startOverWaits defaultWardrobe friendly (initialState defaultWardrobe, [])"
| finalized:
    "reachable startOverWaits defaultWardrobe friendly (s, waiting)
     \<Longrightarrow> reachable startOverWaits defaultWardrobe friendly (handleModelFinalized url s, waiting)"
| startedOver:
    "reachable startOverWaits defaultWardrobe friendly (s, waiting)
     \<Longrightarrow> startOverWaits \<longrightarrow> waiting = []
     \<Longrightarrow> reachable startOverWaits defaultWardrobe friendly
           (handleStartOver defaultWardrobe s, waiting)"
| removed:
    "reachable startOverWaits defaultWardrobe friendly (s, waiting)
     \<Longrightarrow> reachable startOverWaits defaultWardrobe friendly (handleRemoveLastGarment s, waiting)"
| toggled:
    "reachable startOverWaits defaultWardrobe friendly (s, waiting)
     \<Longrightarrow> reachable startOverWaits defaultWardrobe friendly
           (s\<lparr>isSheetCollapsed := \<not> isSheetCollapsed s\<rparr>, waiting)"
| garmentBegun:
    "reachable startOverWaits defaultWardrobe friendly (s, waiting)
     \<Longrightarrow> handleGarmentSelect_begin garmentFile garmentInfo s = (s1, new)
     \<Longrightarrow> reachable startOverWaits defaultWardrobe friendly (s1, waiting @ new)"
| poseBegun:
    "reachable startOverWaits defaultWardrobe friendly (s, waiting)
     \<Longrightarrow> handlePoseSelect_begin newInstruction s = Inr (s1, new)
     \<Longrightarrow> reachable startOverWaits defaultWardrobe friendly (s1, waiting @ new)"
| emotionBegun:
    "reachable startOverWaits defaultWardrobe friendly (s, waiting)
     \<Longrightarrow> handleEmotionSelect_begin newInstruction s = Inr (s1, new)
     \<Longrightarrow> reachable startOverWaits defaultWardrobe friendly (s1, waiting @ new)"
| backgroundBegun:
    "reachable startOverWaits defaultWardrobe friendly (s, waiting)
     \<Longrightarrow> handleBackgroundChange_begin newInstruction s = Inr (s1, new)
     \<Longrightarrow> reachable startOverWaits defaultWardrobe friendly (s1, waiting @ new)"
| uploadBegun:
    "reachable startOverWaits defaultWardrobe friendly (s, waiting)
     \<Longrightarrow> handleBackgroundUpload_begin file s = Inr (s1, new)
     \<Longrightarrow> reachable startOverWaits defaultWardrobe friendly (s1, waiting @ new)"
| colorBegun:
    "reachable startOverWaits defaultWardrobe friendly (s, waiting)
     \<Longrightarrow> handleColorChange_begin newInstruction s = Inr (s1, new)
     \<Longrightarrow> reachable startOverWaits defaultWardrobe friendly (s1, waiting @ new)"
| settled:
    "reachable startOverWaits defaultWardrobe friendly (s, waiting)
     \<Longrightarrow> n < length waiting
     \<Longrightarrow> resume friendly (snd (waiting ! n)) outcome s = Some s'
     \<Longrightarrow> reachable startOverWaits defaultWardrobe friendly
           (s', take n waiting @ drop (Suc n) waiting)"

text \<open>
  What the runs keep true in which \<open>handleStartOver\<close> waits: at most one call is awaited,
  and then the application is loading; an empty history goes with no model image, index
  0 and no awaited call; the index points into a non-empty history; every layer holds
  an image, the first layer has no garment and the others have one; and the index has
  not passed the one an awaited garment call has captured.
\<close>

definition world_ok :: "app_state \<times> awaited list \<Rightarrow> bool" where
  "world_ok w \<longleftrightarrow>
     length (snd w) \<le> 1
     \<and> (snd w \<noteq> [] \<longrightarrow> isLoading (fst w))
     \<and> (outfitHistory (fst w) = [] \<longrightarrow>
           modelImageUrl (fst w) = None \<and> currentOutfitIndex (fst w) = 0 \<and> snd w = [])
     \<and> (outfitHistory (fst w) \<noteq> [] \<longrightarrow>
           currentOutfitIndex (fst w) < length (outfitHistory (fst w)))
     \<and> (\<forall>j < length (outfitHistory (fst w)).
           generatedImages (outfitHistory (fst w) ! j) \<noteq> [])
     \<and> (\<forall>j < length (outfitHistory (fst w)).
           (garment (outfitHistory (fst w) ! j) = None) = (j = 0))
     \<and> (\<forall>call capturedIndex garmentInfo.
           (call, afterTryOn capturedIndex garmentInfo) \<in> set (snd w) \<longrightarrow>
           currentOutfitIndex (fst w) \<le> capturedIndex)"

section \<open>Example runs\<close>

text \<open>
  Concrete values for the parameters, and states of a short session: a model image is
  finalized, a shirt is applied, poses, colours and backgrounds are varied.
\<close>

definition friendlyMessage :: "string \<Rightarrow> string \<Rightarrow> string" where
  "friendlyMessage err context = context @ '': '' @ err"

definition serviceReturns :: "string \<Rightarrow> image_api" where
  "serviceReturns url call = Inr url"

definition serviceThrows :: "string \<Rightarrow> image_api" where
  "serviceThrows err call = Inl err"

definition shirt :: WardrobeItem where
  "shirt = \<lparr>item_id = ''shirt-1'', item_name = ''Shirt'', item_url = ''shirt.png''\<rparr>"

definition shirtFile :: File where
  "shirtFile = File ''shirt.png''"

definition modelState :: app_state where
  "modelState = handleModelFinalized ''model.png'' (initialState [])"

text \<open>After the shirt has been applied to \<open>modelState\<close>, the service returning \<open>worn.png\<close>.\<close>

definition dressedState :: app_state where
  "dressedState =
     modelState
       \<lparr>outfitHistory :=
          [\<lparr>garment = None, generatedImages = [(initialKey, ''model.png'')]\<rparr>,
           \<lparr>garment = Some shirt, generatedImages = [(initialKey, ''worn.png'')]\<rparr>],
        currentOutfitIndex := 1,
        wardrobe := [shirt]\<rparr>"

text \<open>After the pose \<open>Side profile view\<close> has been generated in \<open>modelState\<close>.\<close>

definition posedState :: app_state where
  "posedState =
     modelState
       \<lparr>outfitHistory :=
          [\<lparr>garment = None,
            generatedImages =
              [(initialKey, ''model.png''),
               (compositeKey ''Side profile view'' ''Neutral'' ''Neutral studio backdrop''
                  ''Original'', ''side.png'')]\<rparr>],
        currentPoseInstruction := ''Side profile view''\<rparr>"

text \<open>
  After the colour \<open>Vibrant Red\<close> has been requested in \<open>dressedState\<close> and the service
  has returned the empty string.
\<close>

definition emptyRedState :: app_state where
  "emptyRedState =
     dressedState
       \<lparr>outfitHistory :=
          [\<lparr>garment = None, generatedImages = [(initialKey, ''model.png'')]\<rparr>,
           \<lparr>garment = Some shirt,
            generatedImages =
              [(initialKey, ''worn.png''),
               (compositeKey ''Full frontal view, hands on hips'' ''Neutral''
                  ''Neutral studio backdrop'' ''Vibrant Red'', [])]\<rparr>],
        currentColorInstruction := ''Vibrant Red''\<rparr>"

text \<open>After the cached colour \<open>Original\<close> has been selected again in \<open>emptyRedState\<close>.\<close>

definition originalAgainState :: app_state where
  "originalAgainState = emptyRedState\<lparr>currentColorInstruction := ''Original''\<rparr>"

text \<open>
  The state rendered while \<open>handleBackgroundUpload\<close> awaits the service for a file named
  \<open>beach\<close>, in a layer that already holds an image for the uploaded file \<open>beach_1.jpg\<close>.
\<close>

definition uploadingState :: app_state where
  "uploadingState =
     modelState
       \<lparr>outfitHistory :=
          [\<lparr>garment = None,
            generatedImages =
              [(initialKey, ''model.png''),
               (compositeKey ''Full frontal view, hands on hips'' ''Neutral''
                  ''Uploaded: beach_1.jpg'' ''Original'', ''beach1.png'')]\<rparr>],
        isLoading := True,
        loadingMessage := ''Applying custom background...'',
        currentBackgroundInstruction := ''Uploaded: beach''\<rparr>"

text \<open>
  After \<open>Vibrant Red\<close> has been requested once more in \<open>originalAgainState\<close> and the
  service has returned \<open>red.png\<close>.
\<close>

definition recolouredState :: app_state where
  "recolouredState =
     dressedState
       \<lparr>outfitHistory :=
          [\<lparr>garment = None, generatedImages = [(initialKey, ''model.png'')]\<rparr>,
           \<lparr>garment = Some shirt,
            generatedImages =
              [(initialKey, ''worn.png''),
               (compositeKey ''Full frontal view, hands on hips'' ''Neutral''
                  ''Neutral studio backdrop'' ''Vibrant Red'', ''red.png'')]\<rparr>],
        currentColorInstruction := ''Vibrant Red''\<rparr>"

text \<open>
  After the pose \<open>Side profile view\<close> has been generated in \<open>recolouredState\<close>: the layer
  has no image of that pose in the colour \<open>Original\<close>.
\<close>

definition redSideState :: app_state where
  "redSideState =
     dressedState
       \<lparr>outfitHistory :=
          [\<lparr>garment = None, generatedImages = [(initialKey, ''model.png'')]\<rparr>,
           \<lparr>garment = Some shirt,
            generatedImages =
              [(initialKey, ''worn.png''),
               (compositeKey ''Full frontal view, hands on hips'' ''Neutral''
                  ''Neutral studio backdrop'' ''Vibrant Red'', ''red.png''),
               (compositeKey ''Side profile view'' ''Neutral''
                  ''Neutral studio backdrop'' ''Vibrant Red'', ''side-red.png'')]\<rparr>],
        currentPoseInstruction := ''Side profile view'',
        currentColorInstruction := ''Vibrant Red''\<rparr>"

text \<open>
  The state rendered while the first part of \<open>handleGarmentSelect\<close> awaits the service for
  the shirt in \<open>modelState\<close>, and the call it awaits.
\<close>

definition addingShirtState :: app_state where
  "addingShirtState = modelState\<lparr>isLoading := True, loadingMessage := ''Adding Shirt...''\<rparr>"

definition awaitedShirt :: awaited where
  "awaitedShirt = (generateVirtualTryOnImage ''model.png'' shirtFile, afterTryOn 0 shirt)"

text \<open>
  \<open>handleStartOver\<close> is called while the shirt is awaited, and then the call succeeds: the
  history is the layer of the shirt alone, and the index is 1.
\<close>

definition racedState :: app_state where
  "racedState =
     (initialState [])
       \<lparr>outfitHistory :=
          [\<lparr>garment = Some shirt, generatedImages = [(initialKey, ''worn.png'')]\<rparr>],
        currentOutfitIndex := 1,
        wardrobe := [shirt]\<rparr>"

text \<open>
  As before, but a model with the empty string as its image is finalized after
  \<open>handleStartOver\<close> and before the call succeeds.
\<close>

definition emptyBaseState :: app_state where
  "emptyBaseState =
     (handleModelFinalized [] (initialState []))
       \<lparr>outfitHistory :=
          [\<lparr>garment = None, generatedImages = [(initialKey, [])]\<rparr>,
           \<lparr>garment = Some shirt, generatedImages = [(initialKey, ''worn.png'')]\<rparr>],
        currentOutfitIndex := 1,
        wardrobe := [shirt]\<rparr>"

text \<open>
  The state rendered while the first part of \<open>handlePoseSelect\<close> awaits the service for
  the pose \<open>Side profile view\<close> in \<open>dressedState\<close>, and the call it awaits.
\<close>

definition awaitingPoseState :: app_state where
  "awaitingPoseState =
     dressedState
       \<lparr>isLoading := True,
        loadingMessage := ''Changing pose...'',
        currentPoseInstruction := ''Side profile view''\<rparr>"

definition awaitedPose :: awaited where
  "awaitedPose =
     (generatePoseVariation ''worn.png'' ''Side profile view'',
      afterVariation poseVariation 1
        (compositeKey ''Side profile view'' ''Neutral'' ''Neutral studio backdrop'' ''Original'')
        ''Full frontal view, hands on hips'')"

text \<open>
  The shirt is removed while the pose is awaited, and then the call succeeds: the image
  is stored in the layer of the shirt, above the current layer.
\<close>

definition removedWhileAwaitingState :: app_state where
  "removedWhileAwaitingState =
     dressedState
       \<lparr>outfitHistory :=
          [\<lparr>garment = None, generatedImages = [(initialKey, ''model.png'')]\<rparr>,
           \<lparr>garment = Some shirt,
            generatedImages =
              [(initialKey, ''worn.png''),
               (compositeKey ''Side profile view'' ''Neutral'' ''Neutral studio backdrop''
                  ''Original'', ''side.png'')]\<rparr>],
        currentOutfitIndex := 0\<rparr>"

text \<open>After the shirt has been applied to \<open>modelState\<close>, the service returning the empty string.\<close>

definition emptyWornState :: app_state where
  "emptyWornState =
     modelState
       \<lparr>outfitHistory :=
          [\<lparr>garment = None, generatedImages = [(initialKey, ''model.png'')]\<rparr>,
           \<lparr>garment = Some shirt, generatedImages = [(initialKey, [])]\<rparr>],
        currentOutfitIndex := 1,
        wardrobe := [shirt]\<rparr>"

text \<open>
  After the file \<open>beach_1.jpg\<close> has been uploaded as background in \<open>modelState\<close>; from
  here the first part of \<open>handleBackgroundUpload\<close> for a file named \<open>beach\<close> leads to
  \<open>uploadingState\<close>.
\<close>

definition beachState :: app_state where
  "beachState =
     modelState
       \<lparr>outfitHistory :=
          [\<lparr>garment = None,
            generatedImages =
              [(initialKey, ''model.png''),
               (compositeKey ''Full frontal view, hands on hips'' ''Neutral''
                  ''Uploaded: beach_1.jpg'' ''Original'', ''beach1.png'')]\<rparr>],
        currentBackgroundInstruction := ''Uploaded: beach_1.jpg''\<rparr>"

section \<open>Auxiliary lemmas\<close>

text \<open>The search for a key by its beginning, in the two forms used below.\<close>

lemma take_length_eq_prefix: "(take (length start) k = start) = prefix start k"
proof
  assume "take (length start) k = start"
  then have "k = start @ drop (length start) k" by (metis append_take_drop_id)
  then show "prefix start k" by (metis prefixI)
next
  assume "prefix start k"
  then show "take (length start) k = start" by (auto simp: prefix_def)
qed

lemma firstKeyStartingWith_find:
  "firstKeyStartingWith start ks = find (\<lambda>key. prefix start key) ks"
  by (induction ks) (simp_all add: firstKeyStartingWith_def take_length_eq_prefix)

lemma find_prefix_truthy:
  "start \<noteq> [] \<Longrightarrow> truthy (find (\<lambda>key. prefix start key) ks) = (find
      (\<lambda>key. prefix start key) ks \<noteq> None)"
  by (induction ks) auto

text \<open>
  A layer that holds a single empty image shows nothing truthy, whatever the current
  instructions are.
\<close>

lemma stuck_layer_display:
  assumes "currentOutfitIndex s < length (outfitHistory s)"
    and "generatedImages (outfitHistory s ! currentOutfitIndex s) = [(k, [])]"
  shows "\<not> truthy (displayImageUrl s)"
proof -
  have "outfitHistory s \<noteq> []" using assms(1) by auto
  then show ?thesis using assms by (simp add: displayImageUrl_def Let_def)
qed

text \<open>How the layers change: a new last layer is pushed, or an image is stored in one layer.\<close>

lemma layers_ok_single:
  "layers_ok [\<lparr>garment = None, generatedImages = [(initialKey, url)]\<rparr>]"
  by (simp add: layers_ok_def)

lemma layers_ok_push:
  assumes "layers_ok h" and "i < length h"
    and "truthy (map_of (generatedImages (h ! i)) initialKey)"
  shows "layers_ok (take (Suc i) h @ [\<lparr>garment = Some g, generatedImages = [(initialKey, u)]\<rparr>])"
    (is "layers_ok ?h'")
proof -
  have len: "length ?h' = Suc (Suc i)" using assms(2) by simp
  have each: "generatedImages (?h' ! j) \<noteq> [] \<and> (garment (?h' ! j) = None) = (j = 0)
     \<and> (truthy (map_of (generatedImages (?h' ! j)) initialKey)
            \<or> (Suc j = length ?h' \<and> generatedImages (?h' ! j) = [(initialKey, [])]))"
    if j: "j < length ?h'" for j
  proof -
    consider (old) "j \<le> i" | (new) "j = Suc i" using j len by linarith
    then show ?thesis
    proof cases
      case old
      then have nth: "?h' ! j = h ! j" using assms(2) by (simp add: nth_append)
      have jl: "j < length h" using old assms(2) by simp
      have "truthy (map_of (generatedImages (h ! j)) initialKey)"
      proof (cases "j = i")
        case True then show ?thesis using assms(3) by simp
      next
        case False
        then have "Suc j \<noteq> length h" using old assms(2) by simp
        then show ?thesis using assms(1) jl by (auto simp: layers_ok_def)
      qed
      then show ?thesis using assms(1) jl nth by (auto simp: layers_ok_def)
    next
      case new
      then have nth: "?h' ! j = \<lparr>garment = Some g, generatedImages = [(initialKey, u)]\<rparr>"
        using assms(2) by (simp add: nth_append)
      show ?thesis using new len nth by (cases "u = []") auto
    qed
  qed
  show ?thesis unfolding layers_ok_def
  proof (intro conjI allI impI)
    fix j assume "j < length ?h'"
    then show "generatedImages (?h' ! j) \<noteq> []"
      by (rule each[THEN conjunct1])
  next
    fix j assume "j < length ?h'"
    then show "(garment (?h' ! j) = None) = (j = 0)"
      by (rule each[THEN conjunct2, THEN conjunct1])
  next
    fix j assume "j < length ?h'"
    then show "truthy (map_of (generatedImages (?h' ! j)) initialKey)
            \<or> (Suc j = length ?h' \<and> generatedImages (?h' ! j) = [(initialKey, [])])"
      by (rule each[THEN conjunct2, THEN conjunct2])
  qed
qed

lemma layers_ok_cache:
  assumes "layers_ok h" and "i < length h"
    and "truthy (map_of (generatedImages (h ! i)) initialKey)"
    and "\<not> truthy (map_of (generatedImages (h ! i)) key)"
  shows "layers_ok (h[i := (h ! i)\<lparr>generatedImages := AList.update key u (generatedImages
      (h ! i))\<rparr>])"
    (is "layers_ok ?h'")
proof -
  have "key \<noteq> initialKey" using assms(3,4) by auto
  then have keep: "map_of (AList.update key u (generatedImages (h ! i))) initialKey
      = map_of (generatedImages (h ! i)) initialKey"
    by (simp add: update_conv')
  have each: "generatedImages (?h' ! j) \<noteq> [] \<and> (garment (?h' ! j) = None) = (j = 0)
     \<and> (truthy (map_of (generatedImages (?h' ! j)) initialKey)
            \<or> (Suc j = length ?h' \<and> generatedImages (?h' ! j) = [(initialKey, [])]))"
    if j: "j < length ?h'" for j
  proof (cases "j = i")
    case True
    have g: "(garment (h ! i) = None) = (i = 0)" using assms(1,2) by (simp add: layers_ok_def)
    show ?thesis using True assms(2,3) keep g by simp
  next
    case False
    then have "?h' ! j = h ! j" by simp
    then show ?thesis using assms(1) j by (simp add: layers_ok_def)
  qed
  show ?thesis unfolding layers_ok_def
  proof (intro conjI allI impI)
    fix j assume "j < length ?h'"
    then show "generatedImages (?h' ! j) \<noteq> []"
      by (rule each[THEN conjunct1])
  next
    fix j assume "j < length ?h'"
    then show "(garment (?h' ! j) = None) = (j = 0)"
      by (rule each[THEN conjunct2, THEN conjunct1])
  next
    fix j assume "j < length ?h'"
    then show "truthy (map_of (generatedImages (?h' ! j)) initialKey)
            \<or> (Suc j = length ?h' \<and> generatedImages (?h' ! j) = [(initialKey, [])])"
      by (rule each[THEN conjunct2, THEN conjunct2])
  qed
qed

text \<open>
  The outcomes of each variation handler: the service answered with an image
  (\<open>generated\<close>), the service threw (\<open>failed\<close>), or no call was made (\<open>quiet\<close>).
\<close>

lemma handlePoseSelect_generated:
  assumes "handlePoseSelect friendly api newInstruction s = Inr ([c], s')" and "api c = Inr url"
  shows "currentOutfitIndex s < length (outfitHistory s)
    \<and> \<not> isLoading s
    \<and> c = generatePoseVariation (the (displayImageUrl s)) newInstruction
    \<and> truthy (displayImageUrl s)
    \<and> \<not> truthy (map_of (generatedImages (outfitHistory s ! currentOutfitIndex s))
                   (compositeKey newInstruction (currentEmotionInstruction s)
                       (currentBackgroundInstruction s) (currentColorInstruction s)))
    \<and> s' = s\<lparr>outfitHistory :=
                 (outfitHistory s)
                   [currentOutfitIndex s :=
                      (outfitHistory s ! currentOutfitIndex s)
                        \<lparr>generatedImages :=
                           AList.update (compositeKey newInstruction (currentEmotionInstruction s)
                               (currentBackgroundInstruction s) (currentColorInstruction s)) url
                             (generatedImages (outfitHistory s ! currentOutfitIndex s))\<rparr>],
               error := None, isLoading := False, loadingMessage := [],
               currentPoseInstruction := newInstruction\<rparr>"
  using assms by (auto simp: handlePoseSelect_def Let_def split: if_splits sum.splits)

lemma handlePoseSelect_failed:
  assumes "handlePoseSelect friendly api newInstruction s = Inr ([c], s')" and "api c = Inl err"
  shows "currentOutfitIndex s < length (outfitHistory s)
    \<and> \<not> isLoading s
    \<and> c = generatePoseVariation (the (displayImageUrl s)) newInstruction
    \<and> s' = s\<lparr>error := Some (friendly err ''Failed to change pose''), isLoading := False,
               loadingMessage := []\<rparr>"
  using assms by (auto simp: handlePoseSelect_def Let_def split: if_splits sum.splits)

lemma handlePoseSelect_quiet:
  assumes "handlePoseSelect friendly api newInstruction s = Inr ([], s')"
  shows "outfitHistory s' = outfitHistory s \<and> currentOutfitIndex s' = currentOutfitIndex s
    \<and> modelImageUrl s' = modelImageUrl s \<and> isLoading s' = isLoading s"
  using assms by (auto simp: handlePoseSelect_def Let_def split: if_splits sum.splits)

lemma handlePoseSelect_calls:
  assumes "handlePoseSelect friendly api newInstruction s = Inr (calls, s')"
  shows "calls = [] \<or> calls = [generatePoseVariation (the (displayImageUrl s)) newInstruction]"
  using assms by (auto simp: handlePoseSelect_def Let_def split: if_splits sum.splits)

lemma handleEmotionSelect_generated:
  assumes "handleEmotionSelect friendly api newInstruction s = Inr
      ([c], s')" and "api c = Inr url"
  shows "currentOutfitIndex s < length (outfitHistory s)
    \<and> \<not> isLoading s
    \<and> c = generateEmotionVariation (the (displayImageUrl s)) newInstruction
    \<and> truthy (displayImageUrl s)
    \<and> \<not> truthy (map_of (generatedImages (outfitHistory s ! currentOutfitIndex s))
                   (compositeKey (currentPoseInstruction s) newInstruction
                       (currentBackgroundInstruction s) (currentColorInstruction s)))
    \<and> s' = s\<lparr>outfitHistory :=
                 (outfitHistory s)
                   [currentOutfitIndex s :=
                      (outfitHistory s ! currentOutfitIndex s)
                        \<lparr>generatedImages :=
                           AList.update (compositeKey (currentPoseInstruction s) newInstruction
                               (currentBackgroundInstruction s) (currentColorInstruction s)) url
                             (generatedImages (outfitHistory s ! currentOutfitIndex s))\<rparr>],
               error := None, isLoading := False, loadingMessage := [],
               currentEmotionInstruction := newInstruction\<rparr>"
  using assms by (auto simp: handleEmotionSelect_def Let_def split: if_splits sum.splits)

lemma handleEmotionSelect_failed:
  assumes "handleEmotionSelect friendly api newInstruction s = Inr
      ([c], s')" and "api c = Inl err"
  shows "currentOutfitIndex s < length (outfitHistory s)
    \<and> \<not> isLoading s
    \<and> c = generateEmotionVariation (the (displayImageUrl s)) newInstruction
    \<and> s' = s\<lparr>error := Some (friendly err ''Failed to change emotion''), isLoading := False,
               loadingMessage := []\<rparr>"
  using assms by (auto simp: handleEmotionSelect_def Let_def split: if_splits sum.splits)

lemma handleEmotionSelect_quiet:
  assumes "handleEmotionSelect friendly api newInstruction s = Inr ([], s')"
  shows "outfitHistory s' = outfitHistory s \<and> currentOutfitIndex s' = currentOutfitIndex s
    \<and> modelImageUrl s' = modelImageUrl s \<and> isLoading s' = isLoading s"
  using assms by (auto simp: handleEmotionSelect_def Let_def split: if_splits sum.splits)

lemma handleEmotionSelect_calls:
  assumes "handleEmotionSelect friendly api newInstruction s = Inr (calls, s')"
  shows "calls = [] \<or> calls = [generateEmotionVariation (the (displayImageUrl s)) newInstruction]"
  using assms by (auto simp: handleEmotionSelect_def Let_def split: if_splits sum.splits)

lemma handleBackgroundChange_generated:
  assumes "handleBackgroundChange friendly api newInstruction s = Inr
      ([c], s')" and "api c = Inr url"
  shows "currentOutfitIndex s < length (outfitHistory s)
    \<and> \<not> isLoading s
    \<and> c = generateBackgroundVariation (the (displayImageUrl s)) newInstruction
    \<and> truthy (displayImageUrl s)
    \<and> \<not> truthy (map_of (generatedImages (outfitHistory s ! currentOutfitIndex s))
                   (compositeKey (currentPoseInstruction s)
                       (currentEmotionInstruction s) newInstruction (currentColorInstruction s)))
    \<and> s' = s\<lparr>outfitHistory :=
                 (outfitHistory s)
                   [currentOutfitIndex s :=
                      (outfitHistory s ! currentOutfitIndex s)
                        \<lparr>generatedImages :=
                           AList.update (compositeKey (currentPoseInstruction s)
                               (currentEmotionInstruction s) newInstruction
                               (currentColorInstruction s)) url
                             (generatedImages (outfitHistory s ! currentOutfitIndex s))\<rparr>],
               error := None, isLoading := False, loadingMessage := [],
               currentBackgroundInstruction := newInstruction\<rparr>"
  using assms by (auto simp: handleBackgroundChange_def Let_def split: if_splits sum.splits)

lemma handleBackgroundChange_failed:
  assumes "handleBackgroundChange friendly api newInstruction s = Inr
      ([c], s')" and "api c = Inl err"
  shows "currentOutfitIndex s < length (outfitHistory s)
    \<and> \<not> isLoading s
    \<and> c = generateBackgroundVariation (the (displayImageUrl s)) newInstruction
    \<and> s' = s\<lparr>error := Some (friendly err ''Failed to change background''), isLoading := False,
               loadingMessage := []\<rparr>"
  using assms by (auto simp: handleBackgroundChange_def Let_def split: if_splits sum.splits)

lemma handleBackgroundChange_quiet:
  assumes "handleBackgroundChange friendly api newInstruction s = Inr ([], s')"
  shows "outfitHistory s' = outfitHistory s \<and> currentOutfitIndex s' = currentOutfitIndex s
    \<and> modelImageUrl s' = modelImageUrl s \<and> isLoading s' = isLoading s"
  using assms by (auto simp: handleBackgroundChange_def Let_def split: if_splits sum.splits)

lemma handleBackgroundChange_calls:
  assumes "handleBackgroundChange friendly api newInstruction s = Inr (calls, s')"
  shows "calls = [] \<or> calls = [generateBackgroundVariation (the
      (displayImageUrl s)) newInstruction]"
  using assms by (auto simp: handleBackgroundChange_def Let_def split: if_splits sum.splits)

lemma handleBackgroundUpload_generated:
  assumes "handleBackgroundUpload friendly api file s = Inr ([c], s')" and "api c = Inr url"
  shows "currentOutfitIndex s < length (outfitHistory s)
    \<and> \<not> isLoading s
    \<and> c = generateUploadedBackgroundVariation (the (displayImageUrl s)) file
    \<and> truthy (displayImageUrl s)
    \<and> \<not> truthy (map_of (generatedImages (outfitHistory s ! currentOutfitIndex s))
                   (compositeKey (currentPoseInstruction s) (currentEmotionInstruction s)
                       (''Uploaded: '' @ file_name file) (currentColorInstruction s)))
    \<and> s' = s\<lparr>outfitHistory :=
                 (outfitHistory s)
                   [currentOutfitIndex s :=
                      (outfitHistory s ! currentOutfitIndex s)
                        \<lparr>generatedImages :=
                           AList.update (compositeKey (currentPoseInstruction s)
                               (currentEmotionInstruction s) (''Uploaded: '' @ file_name file)
                               (currentColorInstruction s)) url
                             (generatedImages (outfitHistory s ! currentOutfitIndex s))\<rparr>],
               error := None, isLoading := False, loadingMessage := [],
               currentBackgroundInstruction := (''Uploaded: '' @ file_name file)\<rparr>"
  using assms by (auto simp: handleBackgroundUpload_def Let_def split: if_splits sum.splits)

lemma handleBackgroundUpload_failed:
  assumes "handleBackgroundUpload friendly api file s = Inr ([c], s')" and "api c = Inl err"
  shows "currentOutfitIndex s < length (outfitHistory s)
    \<and> \<not> isLoading s
    \<and> c = generateUploadedBackgroundVariation (the (displayImageUrl s)) file
    \<and> s' = s\<lparr>error := Some
        (friendly err ''Failed to apply custom background''), isLoading := False,
               loadingMessage := []\<rparr>"
  using assms by (auto simp: handleBackgroundUpload_def Let_def split: if_splits sum.splits)

lemma handleBackgroundUpload_quiet:
  assumes "handleBackgroundUpload friendly api file s = Inr ([], s')"
  shows "outfitHistory s' = outfitHistory s \<and> currentOutfitIndex s' = currentOutfitIndex s
    \<and> modelImageUrl s' = modelImageUrl s \<and> isLoading s' = isLoading s"
  using assms by (auto simp: handleBackgroundUpload_def Let_def split: if_splits sum.splits)

lemma handleBackgroundUpload_calls:
  assumes "handleBackgroundUpload friendly api file s = Inr (calls, s')"
  shows "calls = [] \<or> calls = [generateUploadedBackgroundVariation (the
      (displayImageUrl s)) file]"
  using assms by (auto simp: handleBackgroundUpload_def Let_def split: if_splits sum.splits)

lemma handleColorChange_generated:
  assumes "handleColorChange friendly api newInstruction s = Inr ([c], s')" and "api c = Inr url"
  shows "currentOutfitIndex s < length (outfitHistory s)
    \<and> \<not> isLoading s
    \<and> c = generateColorVariation (the (map_of (generatedImages
        (outfitHistory s ! currentOutfitIndex s)) (compositeKey (currentPoseInstruction s)
        (currentEmotionInstruction s) (currentBackgroundInstruction s)
        (COLOR_INSTRUCTIONS ! 0)))) newInstruction
    \<and> truthy (map_of (generatedImages (outfitHistory s ! currentOutfitIndex s)) (compositeKey
        (currentPoseInstruction s) (currentEmotionInstruction s) (currentBackgroundInstruction s)
        (COLOR_INSTRUCTIONS ! 0)))
    \<and> \<not> truthy (map_of (generatedImages (outfitHistory s ! currentOutfitIndex s))
                   (compositeKey (currentPoseInstruction s) (currentEmotionInstruction s)
                       (currentBackgroundInstruction s) newInstruction))
    \<and> s' = s\<lparr>outfitHistory :=
                 (outfitHistory s)
                   [currentOutfitIndex s :=
                      (outfitHistory s ! currentOutfitIndex s)
                        \<lparr>generatedImages :=
                           AList.update (compositeKey (currentPoseInstruction s)
                               (currentEmotionInstruction s)
                               (currentBackgroundInstruction s) newInstruction) url
                             (generatedImages (outfitHistory s ! currentOutfitIndex s))\<rparr>],
               error := None, isLoading := False, loadingMessage := [],
               currentColorInstruction := newInstruction\<rparr>"
  using assms by (auto simp: handleColorChange_def Let_def split: if_splits sum.splits)

lemma handleColorChange_failed:
  assumes "handleColorChange friendly api newInstruction s = Inr ([c], s')" and "api c = Inl err"
  shows "currentOutfitIndex s < length (outfitHistory s)
    \<and> \<not> isLoading s
    \<and> c = generateColorVariation (the (map_of (generatedImages
        (outfitHistory s ! currentOutfitIndex s)) (compositeKey (currentPoseInstruction s)
        (currentEmotionInstruction s) (currentBackgroundInstruction s)
        (COLOR_INSTRUCTIONS ! 0)))) newInstruction
    \<and> s' = s\<lparr>error := Some (friendly err ''Failed to change color''), isLoading := False,
               loadingMessage := []\<rparr>"
  using assms by (auto simp: handleColorChange_def Let_def split: if_splits sum.splits)

lemma handleColorChange_quiet:
  assumes "handleColorChange friendly api newInstruction s = Inr ([], s')"
  shows "outfitHistory s' = outfitHistory s \<and> currentOutfitIndex s' = currentOutfitIndex s
    \<and> modelImageUrl s' = modelImageUrl s \<and> isLoading s' = isLoading s"
  using assms by (auto simp: handleColorChange_def Let_def split: if_splits sum.splits)

lemma handleColorChange_calls:
  assumes "handleColorChange friendly api newInstruction s = Inr (calls, s')"
  shows "calls = [] \<or> calls = [generateColorVariation (the (map_of (generatedImages
      (outfitHistory s ! currentOutfitIndex s)) (compositeKey (currentPoseInstruction s)
      (currentEmotionInstruction s) (currentBackgroundInstruction s)
      (COLOR_INSTRUCTIONS ! 0)))) newInstruction]"
  using assms by (auto simp: handleColorChange_def Let_def split: if_splits sum.splits)

text \<open>Every handler keeps \<open>state_ok\<close>.\<close>

lemma layers_ok_truthy_initial:
  assumes "layers_ok h" and "i < length h" and "generatedImages (h ! i) \<noteq> [(initialKey, [])]"
  shows "truthy (map_of (generatedImages (h ! i)) initialKey)"
  using assms by (auto simp: layers_ok_def)

lemma display_truthy_initial:
  assumes "layers_ok (outfitHistory s)" and "currentOutfitIndex s < length (outfitHistory s)"
    and "truthy (displayImageUrl s)"
  shows "truthy (map_of (generatedImages (outfitHistory s ! currentOutfitIndex s)) initialKey)"
proof -
  have "generatedImages (outfitHistory s ! currentOutfitIndex s) \<noteq> [(initialKey, [])]"
    using stuck_layer_display[OF assms(2)] assms(3) by blast
  then show ?thesis using assms(1,2) by (rule layers_ok_truthy_initial[rotated 2])
qed

lemma entry_truthy_initial:
  assumes "layers_ok h" and "i < length h" and "truthy (map_of (generatedImages (h ! i)) k)"
  shows "truthy (map_of (generatedImages (h ! i)) initialKey)"
proof -
  have "generatedImages (h ! i) \<noteq> [(initialKey, [])]"
    using assms(3) by (auto split: if_splits)
  then show ?thesis using assms(1,2) by (rule layers_ok_truthy_initial[rotated 2])
qed

lemma state_ok_initialState: "state_ok (initialState dw)"
  by (simp add: state_ok_def initialState_def layers_ok_def)

lemma state_ok_handleModelFinalized: "state_ok s \<Longrightarrow> state_ok (handleModelFinalized url s)"
  by (simp add: state_ok_def handleModelFinalized_def resetStateForNewGarment_def layers_ok_single)

lemma state_ok_handleStartOver: "state_ok (handleStartOver dw s)"
  by (simp add: state_ok_def handleStartOver_def resetStateForNewGarment_def layers_ok_def)

lemma state_ok_handleRemoveLastGarment: "state_ok s \<Longrightarrow> state_ok (handleRemoveLastGarment s)"
  by (auto simp: state_ok_def handleRemoveLastGarment_def resetStateForNewGarment_def)

lemma handleGarmentSelect_calls:
  assumes "handleGarmentSelect friendly api garmentFile garmentInfo s = (calls, s')"
  shows "calls = [] \<or> calls = [generateVirtualTryOnImage (the (displayImageUrl s)) garmentFile]"
  using assms
  by (auto simp: handleGarmentSelect_def Let_def split: if_splits sum.splits option.splits)

lemma handleGarmentSelect_generated:
  assumes "handleGarmentSelect friendly api garmentFile garmentInfo s = ([c], s')"
    and "api c = Inr url"
  shows "truthy (displayImageUrl s) \<and> \<not> isLoading s
    \<and> c = generateVirtualTryOnImage (the (displayImageUrl s)) garmentFile
    \<and> outfitHistory s' =
          take (currentOutfitIndex s + 1) (outfitHistory s)
            @ [\<lparr>garment = Some garmentInfo, generatedImages = [(initialKey, url)]\<rparr>]
    \<and> currentOutfitIndex s' = currentOutfitIndex s + 1
    \<and> currentPoseInstruction s' = POSE_INSTRUCTIONS ! 0
    \<and> currentEmotionInstruction s' = EMOTION_INSTRUCTIONS ! 0
    \<and> currentBackgroundInstruction s' = BACKGROUND_INSTRUCTIONS ! 0
    \<and> currentColorInstruction s' = COLOR_INSTRUCTIONS ! 0
    \<and> modelImageUrl s' = modelImageUrl s \<and> \<not> isLoading s'"
  using assms
  by (auto simp: handleGarmentSelect_def resetStateForNewGarment_def Let_def
           split: if_splits sum.splits option.splits)

lemma handleGarmentSelect_failed:
  assumes "handleGarmentSelect friendly api garmentFile garmentInfo s = ([c], s')"
    and "api c = Inl err"
  shows "outfitHistory s' = outfitHistory s \<and> currentOutfitIndex s' = currentOutfitIndex s
    \<and> modelImageUrl s' = modelImageUrl s \<and> \<not> isLoading s'
    \<and> error s' = Some (friendly err ''Failed to apply garment'')"
  using assms
  by (auto simp: handleGarmentSelect_def resetStateForNewGarment_def Let_def
           split: if_splits sum.splits option.splits)

lemma handleGarmentSelect_quiet:
  assumes "handleGarmentSelect friendly api garmentFile garmentInfo s = ([], s')"
  shows "s' = s \<or>
     (currentOutfitIndex s + 1 < length (outfitHistory s)
      \<and> s' = resetStateForNewGarment (s\<lparr>currentOutfitIndex := currentOutfitIndex s + 1\<rparr>))"
  using assms
  by (auto simp: handleGarmentSelect_def Let_def split: if_splits sum.splits option.splits)

lemma state_ok_handleGarmentSelect:
  assumes ok: "state_ok s"
    and run: "handleGarmentSelect friendly api garmentFile garmentInfo s = (calls, s')"
  shows "state_ok s'"
proof -
  consider (quiet) "calls = []"
    | (called) "calls = [generateVirtualTryOnImage (the (displayImageUrl s)) garmentFile]"
    using handleGarmentSelect_calls[OF run] by blast
  then show ?thesis
  proof cases
    case quiet
    then show ?thesis
      using handleGarmentSelect_quiet[of friendly api garmentFile garmentInfo s s'] run ok
      by (auto simp: state_ok_def resetStateForNewGarment_def)
  next
    case called
    let ?c = "generateVirtualTryOnImage (the (displayImageUrl s)) garmentFile"
    from run called
    have run1: "handleGarmentSelect friendly api garmentFile garmentInfo s = ([?c], s')" by simp
    show ?thesis
    proof (cases "api ?c")
      case (Inl err)
      from handleGarmentSelect_failed[OF run1 Inl] ok show ?thesis
        by (simp add: state_ok_def)
    next
      case (Inr url)
      note g = handleGarmentSelect_generated[OF run1 Inr]
      have shown: "truthy (displayImageUrl s)" using g by simp
      have ne: "outfitHistory s \<noteq> []"
      proof
        assume "outfitHistory s = []"
        then have "displayImageUrl s = None" using ok by
            (simp add: displayImageUrl_def state_ok_def)
        then show False using shown by simp
      qed
      then have i: "currentOutfitIndex s < length (outfitHistory s)"
        using ok by (simp add: state_ok_def)
      have lo: "layers_ok (outfitHistory s)" using ok by (simp add: state_ok_def)
      have "layers_ok (outfitHistory s')"
        using layers_ok_push[OF lo i display_truthy_initial[OF lo i shown]] g by simp
      then show ?thesis using g i by (simp add: state_ok_def)
    qed
  qed
qed

lemma state_ok_handlePoseSelect:
  assumes ok: "state_ok s"
    and run: "handlePoseSelect friendly api newInstruction s = Inr (calls, s')"
  shows "state_ok s'"
proof -
  let ?c = "generatePoseVariation (the (displayImageUrl s)) newInstruction"
  consider (quiet) "calls = []" | (called) "calls = [?c]"
    using handlePoseSelect_calls[OF run] by blast
  then show ?thesis
  proof cases
    case quiet
    then show ?thesis using handlePoseSelect_quiet[of friendly api newInstruction s s'] run ok
      by (simp add: state_ok_def)
  next
    case called
    with run have run1: "handlePoseSelect friendly api newInstruction s = Inr ([?c], s')" by simp
    show ?thesis
    proof (cases "api ?c")
      case (Inl err)
      from handlePoseSelect_failed[OF run1 Inl] ok show ?thesis by (simp add: state_ok_def)
    next
      case (Inr url)
      note g = handlePoseSelect_generated[OF run1 Inr]
      have i: "currentOutfitIndex s < length (outfitHistory s)" using g by simp
      have lo: "layers_ok (outfitHistory s)" using ok by (simp add: state_ok_def)
      have "truthy (map_of (generatedImages (outfitHistory s ! currentOutfitIndex s)) initialKey)"
        using g by (intro display_truthy_initial[OF lo i]) simp
      moreover have "\<not> truthy (map_of (generatedImages (outfitHistory s ! currentOutfitIndex s))
                     (compositeKey newInstruction (currentEmotionInstruction s)
                         (currentBackgroundInstruction s) (currentColorInstruction s)))"
        using g by simp
      ultimately have "layers_ok (outfitHistory s')"
        using layers_ok_cache[OF lo i] g by simp
      then show ?thesis using g ok by (simp add: state_ok_def)
    qed
  qed
qed

lemma state_ok_handleEmotionSelect:
  assumes ok: "state_ok s"
    and run: "handleEmotionSelect friendly api newInstruction s = Inr (calls, s')"
  shows "state_ok s'"
proof -
  let ?c = "generateEmotionVariation (the (displayImageUrl s)) newInstruction"
  consider (quiet) "calls = []" | (called) "calls = [?c]"
    using handleEmotionSelect_calls[OF run] by blast
  then show ?thesis
  proof cases
    case quiet
    then show ?thesis using handleEmotionSelect_quiet[of friendly api newInstruction s s'] run ok
      by (simp add: state_ok_def)
  next
    case called
    with run have run1: "handleEmotionSelect friendly api newInstruction s = Inr
        ([?c], s')" by simp
    show ?thesis
    proof (cases "api ?c")
      case (Inl err)
      from handleEmotionSelect_failed[OF run1 Inl] ok show ?thesis by (simp add: state_ok_def)
    next
      case (Inr url)
      note g = handleEmotionSelect_generated[OF run1 Inr]
      have i: "currentOutfitIndex s < length (outfitHistory s)" using g by simp
      have lo: "layers_ok (outfitHistory s)" using ok by (simp add: state_ok_def)
      have "truthy (map_of (generatedImages (outfitHistory s ! currentOutfitIndex s)) initialKey)"
        using g by (intro display_truthy_initial[OF lo i]) simp
      moreover have "\<not> truthy (map_of (generatedImages (outfitHistory s ! currentOutfitIndex s))
                     (compositeKey (currentPoseInstruction s) newInstruction
                         (currentBackgroundInstruction s) (currentColorInstruction s)))"
        using g by simp
      ultimately have "layers_ok (outfitHistory s')"
        using layers_ok_cache[OF lo i] g by simp
      then show ?thesis using g ok by (simp add: state_ok_def)
    qed
  qed
qed

lemma state_ok_handleBackgroundChange:
  assumes ok: "state_ok s"
    and run: "handleBackgroundChange friendly api newInstruction s = Inr (calls, s')"
  shows "state_ok s'"
proof -
  let ?c = "generateBackgroundVariation (the (displayImageUrl s)) newInstruction"
  consider (quiet) "calls = []" | (called) "calls = [?c]"
    using handleBackgroundChange_calls[OF run] by blast
  then show ?thesis
  proof cases
    case quiet
    then show ?thesis using handleBackgroundChange_quiet[of friendly api newInstruction s s'] run ok
      by (simp add: state_ok_def)
  next
    case called
    with run have run1: "handleBackgroundChange friendly api newInstruction s = Inr
        ([?c], s')" by simp
    show ?thesis
    proof (cases "api ?c")
      case (Inl err)
      from handleBackgroundChange_failed[OF run1 Inl] ok show ?thesis by (simp add: state_ok_def)
    next
      case (Inr url)
      note g = handleBackgroundChange_generated[OF run1 Inr]
      have i: "currentOutfitIndex s < length (outfitHistory s)" using g by simp
      have lo: "layers_ok (outfitHistory s)" using ok by (simp add: state_ok_def)
      have "truthy (map_of (generatedImages (outfitHistory s ! currentOutfitIndex s)) initialKey)"
        using g by (intro display_truthy_initial[OF lo i]) simp
      moreover have "\<not> truthy (map_of (generatedImages (outfitHistory s ! currentOutfitIndex s))
                     (compositeKey (currentPoseInstruction s)
                         (currentEmotionInstruction s) newInstruction
                         (currentColorInstruction s)))"
        using g by simp
      ultimately have "layers_ok (outfitHistory s')"
        using layers_ok_cache[OF lo i] g by simp
      then show ?thesis using g ok by (simp add: state_ok_def)
    qed
  qed
qed

lemma state_ok_handleBackgroundUpload:
  assumes ok: "state_ok s"
    and run: "handleBackgroundUpload friendly api file s = Inr (calls, s')"
  shows "state_ok s'"
proof -
  let ?c = "generateUploadedBackgroundVariation (the (displayImageUrl s)) file"
  consider (quiet) "calls = []" | (called) "calls = [?c]"
    using handleBackgroundUpload_calls[OF run] by blast
  then show ?thesis
  proof cases
    case quiet
    then show ?thesis using handleBackgroundUpload_quiet[of friendly api "file" s s'] run ok
      by (simp add: state_ok_def)
  next
    case called
    with run have run1: "handleBackgroundUpload friendly api file s = Inr ([?c], s')" by simp
    show ?thesis
    proof (cases "api ?c")
      case (Inl err)
      from handleBackgroundUpload_failed[OF run1 Inl] ok show ?thesis by (simp add: state_ok_def)
    next
      case (Inr url)
      note g = handleBackgroundUpload_generated[OF run1 Inr]
      have i: "currentOutfitIndex s < length (outfitHistory s)" using g by simp
      have lo: "layers_ok (outfitHistory s)" using ok by (simp add: state_ok_def)
      have "truthy (map_of (generatedImages (outfitHistory s ! currentOutfitIndex s)) initialKey)"
        using g by (intro display_truthy_initial[OF lo i]) simp
      moreover have "\<not> truthy (map_of (generatedImages (outfitHistory s ! currentOutfitIndex s))
                     (compositeKey (currentPoseInstruction s) (currentEmotionInstruction s)
                         (''Uploaded: '' @ file_name file) (currentColorInstruction s)))"
        using g by simp
      ultimately have "layers_ok (outfitHistory s')"
        using layers_ok_cache[OF lo i] g by simp
      then show ?thesis using g ok by (simp add: state_ok_def)
    qed
  qed
qed

lemma state_ok_handleColorChange:
  assumes ok: "state_ok s"
    and run: "handleColorChange friendly api newInstruction s = Inr (calls, s')"
  shows "state_ok s'"
proof -
  let ?c = "generateColorVariation (the (map_of (generatedImages
      (outfitHistory s ! currentOutfitIndex s)) (compositeKey (currentPoseInstruction s)
      (currentEmotionInstruction s) (currentBackgroundInstruction s)
      (COLOR_INSTRUCTIONS ! 0)))) newInstruction"
  consider (quiet) "calls = []" | (called) "calls = [?c]"
    using handleColorChange_calls[OF run] by blast
  then show ?thesis
  proof cases
    case quiet
    then show ?thesis using handleColorChange_quiet[of friendly api newInstruction s s'] run ok
      by (simp add: state_ok_def)
  next
    case called
    with run have run1: "handleColorChange friendly api newInstruction s = Inr ([?c], s')" by simp
    show ?thesis
    proof (cases "api ?c")
      case (Inl err)
      from handleColorChange_failed[OF run1 Inl] ok show ?thesis by (simp add: state_ok_def)
    next
      case (Inr url)
      note g = handleColorChange_generated[OF run1 Inr]
      have i: "currentOutfitIndex s < length (outfitHistory s)" using g by simp
      have lo: "layers_ok (outfitHistory s)" using ok by (simp add: state_ok_def)
      have "truthy (map_of (generatedImages (outfitHistory s ! currentOutfitIndex s)) initialKey)"
        by (rule entry_truthy_initial[OF lo i, of "compositeKey (currentPoseInstruction s)
            (currentEmotionInstruction s) (currentBackgroundInstruction s)
            (COLOR_INSTRUCTIONS ! 0)"]) (use g in simp)
      moreover have "\<not> truthy (map_of (generatedImages (outfitHistory s ! currentOutfitIndex s))
                     (compositeKey (currentPoseInstruction s) (currentEmotionInstruction s)
                         (currentBackgroundInstruction s) newInstruction))"
        using g by simp
      ultimately have "layers_ok (outfitHistory s')"
        using layers_ok_cache[OF lo i] g by simp
      then show ?thesis using g ok by (simp add: state_ok_def)
    qed
  qed
qed

lemma sequential_state_ok:
  assumes "sequentially_reachable defaultWardrobe friendly s"
  shows "state_ok s"
  using assms
proof (induction rule: sequentially_reachable.induct)
  case initial
  show ?case by (rule state_ok_initialState)
next
  case (modelFinalized s url)
  then show ?case by (simp add: state_ok_handleModelFinalized)
next
  case (startOver s)
  show ?case by (rule state_ok_handleStartOver)
next
  case (garmentSelect s api garmentFile garmentInfo calls s')
  then show ?case by (blast intro: state_ok_handleGarmentSelect)
next
  case (removeLastGarment s)
  then show ?case by (simp add: state_ok_handleRemoveLastGarment)
next
  case (poseSelect s api newInstruction calls s')
  then show ?case by (blast intro: state_ok_handlePoseSelect)
next
  case (emotionSelect s api newInstruction calls s')
  then show ?case by (blast intro: state_ok_handleEmotionSelect)
next
  case (backgroundChange s api newInstruction calls s')
  then show ?case by (blast intro: state_ok_handleBackgroundChange)
next
  case (backgroundUpload s api upload calls s')
  then show ?case by (blast intro: state_ok_handleBackgroundUpload)
next
  case (colorChange s api newInstruction calls s')
  then show ?case by (blast intro: state_ok_handleColorChange)
next
  case (sheetToggled s)
  then show ?case by (simp add: state_ok_def)
qed

lemma state_ok_history_invariant:
  assumes "state_ok s"
  shows "history_invariant s"
proof -
  let ?h = "outfitHistory s"
  have lo: "layers_ok ?h" using assms by (simp add: state_ok_def)
  have a: "list_all (\<lambda>layer. generatedImages layer \<noteq> []) ?h"
    using lo by (simp add: layers_ok_def list_all_length)
  have g: "\<forall>j < length ?h. (garment (?h ! j) = None) = (j = 0)"
    using lo by (simp add: layers_ok_def)
  have b: "(case ?h of [] \<Rightarrow> True
        | base # upper \<Rightarrow> garment base = None \<and> list_all (\<lambda>layer. garment layer \<noteq> None) upper)"
  proof (cases ?h)
    case Nil
    then show ?thesis by simp
  next
    case (Cons base upper)
    have "garment base = None" using g Cons by (auto dest: spec[of _ 0])
    moreover have "garment (upper ! j) \<noteq> None" if "j < length upper" for j
      using g Cons that by (auto dest!: spec[of _ "Suc j"])
    ultimately show ?thesis using Cons by (simp add: list_all_length)
  qed
  show ?thesis using assms a b by (auto simp: history_invariant_def state_ok_def)
qed

text \<open>Storing an image under a key, entry by entry.\<close>

lemma update_filter_other:
  "filter (\<lambda>entry. fst entry \<noteq> k) (AList.update k v al) = filter (\<lambda>entry. fst entry \<noteq> k) al"
  by (induction al) auto

lemma update_fresh: "k \<notin> fst ` set al \<Longrightarrow> AList.update k v al = al @ [(k, v)]"
  by (induction al) auto

lemma falsy_present_empty:
  assumes "\<not> truthy (map_of al k)" and "k \<in> fst ` set al"
  shows "map_of al k = Some []"
proof (cases "map_of al k")
  case None
  then show ?thesis using assms(2) by (simp add: map_of_eq_None_iff)
next
  case (Some v)
  then show ?thesis using assms(1) by simp
qed

lemma map_garment_update:
  "i < length h \<Longrightarrow> map garment (h[i := (h ! i)\<lparr>generatedImages := m\<rparr>]) = map garment h"
  by (simp add: map_update list_update_same_conv)

lemma imageStored_update:
  assumes i: "currentOutfitIndex s < length (outfitHistory s)"
    and miss: "\<not> truthy (map_of (generatedImages (outfitHistory s ! currentOutfitIndex s)) key)"
    and h': "outfitHistory s' =
               (outfitHistory s)
                 [currentOutfitIndex s :=
                    (outfitHistory s ! currentOutfitIndex s)
                      \<lparr>generatedImages :=
                         AList.update key url
                           (generatedImages (outfitHistory s ! currentOutfitIndex s))\<rparr>]"
    and idx: "currentOutfitIndex s' = currentOutfitIndex s"
  shows "imageStored s s' key url"
proof -
  let ?i = "currentOutfitIndex s" and ?h = "outfitHistory s"
  let ?m = "generatedImages (?h ! ?i)"
  have m': "generatedImages (outfitHistory s' ! ?i) = AList.update key url ?m"
    using i h' by simp
  have a: "length (outfitHistory s') = length ?h" using h' by simp
  have b: "map garment (outfitHistory s') = map garment ?h"
    using h' i by (simp add: map_garment_update)
  have c: "take ?i (outfitHistory s') = take ?i ?h" "drop (Suc ?i) (outfitHistory s') = drop
      (Suc ?i) ?h"
    using h' by simp_all
  have d: "map_of (AList.update key url ?m) key = Some url" by (simp add: update_conv')
  have e: "map_of ?m key = Some [] \<and> map fst (AList.update key url ?m) = map fst ?m"
    if "key \<in> set (map fst ?m)"
    using that falsy_present_empty[OF miss] by (simp add: update_keys)
  have f: "AList.update key url ?m = ?m @ [(key, url)]" if "key \<notin> set (map fst ?m)"
    using that by (simp add: update_fresh)
  show ?thesis
    unfolding imageStored_def Let_def m'
    using i a b c d e f idx by (simp add: update_filter_other)
qed

text \<open>The example states are the states the handlers produce.\<close>

lemmas instruction_defs =
  POSE_INSTRUCTIONS_def EMOTION_INSTRUCTIONS_def BACKGROUND_INSTRUCTIONS_def
  COLOR_INSTRUCTIONS_def

lemmas example_defs =
  modelState_def dressedState_def posedState_def emptyRedState_def originalAgainState_def
  uploadingState_def recolouredState_def redSideState_def handleModelFinalized_def
  resetStateForNewGarment_def initialState_def
  serviceReturns_def serviceThrows_def shirt_def shirtFile_def friendlyMessage_def
  initialKey_def compositeKey_def instruction_defs

lemma display_modelState: "displayImageUrl modelState = Some ''model.png''"
  by (simp add: displayImageUrl_def example_defs Let_def)

lemma dressedState_run:
  "handleGarmentSelect friendlyMessage (serviceReturns ''worn.png'') shirtFile shirt modelState
     = ([generateVirtualTryOnImage ''model.png'' shirtFile], dressedState)"
  by (simp add: handleGarmentSelect_def displayImageUrl_def example_defs Let_def)

lemma display_emptyRed: "displayImageUrl emptyRedState = Some ''worn.png''"
  by (simp add: displayImageUrl_def example_defs Let_def)

lemma display_uploading: "displayImageUrl uploadingState = Some ''beach1.png''"
  by (simp add: displayImageUrl_def example_defs Let_def)

lemma posedState_run:
  "handlePoseSelect friendlyMessage (serviceReturns ''side.png'') ''Side profile view'' modelState
     = Inr ([generatePoseVariation ''model.png'' ''Side profile view''], posedState)"
  by (simp add: handlePoseSelect_def displayImageUrl_def example_defs Let_def)

lemma emptyRedState_run:
  "handleColorChange friendlyMessage (serviceReturns []) ''Vibrant Red'' dressedState
     = Inr ([generateColorVariation ''worn.png'' ''Vibrant Red''], emptyRedState)"
  by (simp add: handleColorChange_def displayImageUrl_def example_defs Let_def)

lemma originalAgainState_run:
  "handleColorChange friendlyMessage (serviceReturns ''unused.png'') ''Original'' emptyRedState
     = Inr ([], originalAgainState)"
  by (simp add: handleColorChange_def displayImageUrl_def example_defs Let_def)

lemma recolouredState_run:
  "handleColorChange friendlyMessage
      (serviceReturns ''red.png'') ''Vibrant Red'' originalAgainState
     = Inr ([generateColorVariation ''worn.png'' ''Vibrant Red''], recolouredState)"
  by (simp add: handleColorChange_def displayImageUrl_def example_defs Let_def)

lemma redSideState_run:
  "handlePoseSelect friendlyMessage (serviceReturns ''side-red.png'') ''Side profile view''
     recolouredState
     = Inr ([generatePoseVariation ''red.png'' ''Side profile view''], redSideState)"
  by (simp add: handlePoseSelect_def displayImageUrl_def example_defs Let_def)

text \<open>The example states are states of runs.\<close>

lemma sequential_modelState: "sequentially_reachable [] friendlyMessage modelState"
  unfolding modelState_def by
      (intro sequentially_reachable.modelFinalized sequentially_reachable.initial)

lemma sequential_dressedState: "sequentially_reachable [] friendlyMessage dressedState"
  by (rule sequentially_reachable.garmentSelect[OF sequential_modelState dressedState_run])

lemma sequential_posedState: "sequentially_reachable [] friendlyMessage posedState"
  by (rule sequentially_reachable.poseSelect[OF sequential_modelState posedState_run])

lemma sequential_emptyRedState: "sequentially_reachable [] friendlyMessage emptyRedState"
  by (rule sequentially_reachable.colorChange[OF sequential_dressedState emptyRedState_run])

lemma sequential_originalAgainState: "sequentially_reachable [] friendlyMessage originalAgainState"
  by (rule sequentially_reachable.colorChange[OF sequential_emptyRedState originalAgainState_run])

text \<open>After a garment has been removed, the layer below shows a truthy image.\<close>

lemma lower_layer_display:
  assumes ok: "state_ok s" and pos: "0 < currentOutfitIndex s"
  shows "truthy (displayImageUrl (handleRemoveLastGarment s))"
proof -
  let ?h = "outfitHistory s" and ?i = "currentOutfitIndex s"
  have ne: "?h \<noteq> []" using ok pos by (auto simp: state_ok_def)
  then have i: "?i < length ?h" using ok by (simp add: state_ok_def)
  have lo: "layers_ok ?h" using ok by (simp add: state_ok_def)
  have below: "?i - 1 < length ?h" using i by simp
  have "Suc (?i - 1) \<noteq> length ?h" using i pos by simp
  then have t: "truthy (map_of (generatedImages (?h ! (?i - 1))) initialKey)"
    using lo below by (auto simp: layers_ok_def)
  show ?thesis
    using t below ne pos
    by (simp add: handleRemoveLastGarment_def resetStateForNewGarment_def displayImageUrl_def
          initialKey_def Let_def)
qed

text \<open>The five handlers with a service that throws.\<close>

lemma quota_throws: "serviceThrows ''quota'' c = Inl ''quota''"
  by (simp add: serviceThrows_def)

lemma failing_runs:
  "handlePoseSelect friendlyMessage (serviceThrows ''quota'') ''Side profile view'' modelState
     = Inr ([generatePoseVariation ''model.png'' ''Side profile view''],
            modelState\<lparr>error := Some ''Failed to change pose: quota''\<rparr>)"
  "handleEmotionSelect friendlyMessage (serviceThrows ''quota'') ''Happy'' modelState
     = Inr ([generateEmotionVariation ''model.png'' ''Happy''],
            modelState\<lparr>error := Some ''Failed to change emotion: quota''\<rparr>)"
  "handleBackgroundChange friendlyMessage (serviceThrows ''quota'') ''City street at night''
     modelState
     = Inr ([generateBackgroundVariation ''model.png'' ''City street at night''],
            modelState\<lparr>error := Some ''Failed to change background: quota''\<rparr>)"
  "handleBackgroundUpload friendlyMessage (serviceThrows ''quota'') (File ''beach_1.jpg'')
     modelState
     = Inr ([generateUploadedBackgroundVariation ''model.png'' (File ''beach_1.jpg'')],
            modelState\<lparr>error := Some ''Failed to apply custom background: quota''\<rparr>)"
  "handleColorChange friendlyMessage (serviceThrows ''quota'') ''Vibrant Red'' dressedState
     = Inr ([generateColorVariation ''worn.png'' ''Vibrant Red''],
            dressedState\<lparr>error := Some ''Failed to change color: quota''\<rparr>)"
  by (simp_all add: handlePoseSelect_def handleEmotionSelect_def handleBackgroundChange_def
        handleBackgroundUpload_def handleColorChange_def displayImageUrl_def example_defs Let_def)

text \<open>The handlers with a service that answers.\<close>

lemma returns: "serviceReturns url c = Inr url"
  by (simp add: serviceReturns_def)

lemma other_runs:
  "handleEmotionSelect friendlyMessage (serviceReturns ''happy.png'') ''Happy'' modelState
     = Inr ([generateEmotionVariation ''model.png'' ''Happy''],
            modelState
              \<lparr>outfitHistory :=
                 [\<lparr>garment = None,
                   generatedImages =
                     [(initialKey, ''model.png''),
                      (compositeKey ''Full frontal view, hands on hips'' ''Happy''
                         ''Neutral studio backdrop'' ''Original'', ''happy.png'')]\<rparr>],
               currentEmotionInstruction := ''Happy''\<rparr>)"
  "handleBackgroundChange friendlyMessage (serviceReturns ''city.png'') ''City street at night''
     modelState
     = Inr ([generateBackgroundVariation ''model.png'' ''City street at night''],
            modelState
              \<lparr>outfitHistory :=
                 [\<lparr>garment = None,
                   generatedImages =
                     [(initialKey, ''model.png''),
                      (compositeKey ''Full frontal view, hands on hips'' ''Neutral''
                         ''City street at night'' ''Original'', ''city.png'')]\<rparr>],
               currentBackgroundInstruction := ''City street at night''\<rparr>)"
  "handleBackgroundUpload friendlyMessage (serviceReturns ''beach1.png'') (File ''beach_1.jpg'')
     modelState
     = Inr ([generateUploadedBackgroundVariation ''model.png'' (File ''beach_1.jpg'')],
            modelState
              \<lparr>outfitHistory :=
                 [\<lparr>garment = None,
                   generatedImages =
                     [(initialKey, ''model.png''),
                      (compositeKey ''Full frontal view, hands on hips'' ''Neutral''
                         ''Uploaded: beach_1.jpg'' ''Original'', ''beach1.png'')]\<rparr>],
               currentBackgroundInstruction := ''Uploaded: beach_1.jpg''\<rparr>)"
  by (simp_all add: handleEmotionSelect_def handleBackgroundChange_def
        handleBackgroundUpload_def displayImageUrl_def example_defs Let_def)

text \<open>\<open>firstKeyStartingWith\<close> is the first key of the enumeration with that beginning.\<close>

lemma firstKeyStartingWith_Some_iff:
  "firstKeyStartingWith start ks = Some k \<longleftrightarrow>
     (\<exists>n < length ks. ks ! n = k \<and> prefix start k \<and> (\<forall>j < n. \<not> prefix start (ks ! j)))"
  by (auto simp: firstKeyStartingWith_find find_Some_iff)

lemma firstKeyStartingWith_None_iff:
  "firstKeyStartingWith start ks = None \<longleftrightarrow> (\<forall>k \<in> set ks. \<not> prefix start k)"
  by (auto simp: firstKeyStartingWith_find find_None_iff)

text \<open>
  A whole handler is its first part followed at once by its second part.
\<close>

lemma handleGarmentSelect_two_parts:
  assumes "handleGarmentSelect friendly api garmentFile garmentInfo s = (calls, s')"
  shows "(calls = [] \<and> handleGarmentSelect_begin garmentFile garmentInfo s = (s', []))
       \<or> (\<exists>s1 call k. calls = [call]
              \<and> handleGarmentSelect_begin garmentFile garmentInfo s = (s1, [(call, k)])
              \<and> resume friendly k (api call) s1 = Some s')"
  using assms
  by (auto simp: handleGarmentSelect_def handleGarmentSelect_begin_def resume_def
             resetStateForNewGarment_def Let_def
           split: if_splits sum.splits option.splits)

lemma handlePoseSelect_two_parts:
  assumes "handlePoseSelect friendly api newInstruction s = Inr (calls, s')"
  shows "(calls = [] \<and> handlePoseSelect_begin newInstruction s = Inr (s', []))
       \<or> (\<exists>s1 call k. calls = [call] \<and> handlePoseSelect_begin newInstruction s = Inr
           (s1, [(call, k)])
              \<and> resume friendly k (api call) s1 = Some s')"
  using assms
  by (auto simp: handlePoseSelect_def handlePoseSelect_begin_def resume_def Let_def
           split: if_splits sum.splits)

lemma handleEmotionSelect_two_parts:
  assumes "handleEmotionSelect friendly api newInstruction s = Inr (calls, s')"
  shows "(calls = [] \<and> handleEmotionSelect_begin newInstruction s = Inr (s', []))
       \<or> (\<exists>s1 call k. calls = [call] \<and> handleEmotionSelect_begin newInstruction s = Inr
           (s1, [(call, k)])
              \<and> resume friendly k (api call) s1 = Some s')"
  using assms
  by (auto simp: handleEmotionSelect_def handleEmotionSelect_begin_def resume_def Let_def
           split: if_splits sum.splits)

lemma handleBackgroundChange_two_parts:
  assumes "handleBackgroundChange friendly api newInstruction s = Inr (calls, s')"
  shows "(calls = [] \<and> handleBackgroundChange_begin newInstruction s = Inr (s', []))
       \<or> (\<exists>s1 call k. calls = [call] \<and> handleBackgroundChange_begin newInstruction s = Inr
           (s1, [(call, k)])
              \<and> resume friendly k (api call) s1 = Some s')"
  using assms
  by (auto simp: handleBackgroundChange_def handleBackgroundChange_begin_def resume_def Let_def
           split: if_splits sum.splits)

lemma handleBackgroundUpload_two_parts:
  assumes "handleBackgroundUpload friendly api file s = Inr (calls, s')"
  shows "(calls = [] \<and> handleBackgroundUpload_begin file s = Inr (s', []))
       \<or> (\<exists>s1 call k. calls = [call] \<and> handleBackgroundUpload_begin file s = Inr (s1, [(call, k)])
              \<and> resume friendly k (api call) s1 = Some s')"
  using assms
  by (auto simp: handleBackgroundUpload_def handleBackgroundUpload_begin_def resume_def Let_def
           split: if_splits sum.splits)

lemma handleColorChange_two_parts:
  assumes "handleColorChange friendly api newInstruction s = Inr (calls, s')"
  shows "(calls = [] \<and> handleColorChange_begin newInstruction s = Inr (s', []))
       \<or> (\<exists>s1 call k. calls = [call] \<and> handleColorChange_begin newInstruction s = Inr
           (s1, [(call, k)])
              \<and> resume friendly k (api call) s1 = Some s')"
  using assms
  by (auto simp: handleColorChange_def handleColorChange_begin_def resume_def Let_def
           split: if_splits sum.splits)

text \<open>
  So a state of a run of whole handlers is a state of the application that awaits
  nothing, and it is reached without calling \<open>handleStartOver\<close> during a call.
\<close>

lemma settled_single:
  assumes "reachable startOverWaits defaultWardrobe friendly (s1, [(call, k)])"
    and "resume friendly k outcome s1 = Some s'"
  shows "reachable startOverWaits defaultWardrobe friendly (s', [])"
  using reachable.settled[OF assms(1), of 0 outcome s'] assms(2) by simp

lemma sequentially_reachable_reachable:
  assumes "sequentially_reachable defaultWardrobe friendly s"
  shows "reachable True defaultWardrobe friendly (s, [])"
  using assms
proof (induction rule: sequentially_reachable.induct)
  case initial
  show ?case by (rule reachable.firstRender)
next
  case (modelFinalized s url)
  then show ?case by (intro reachable.finalized)
next
  case (startOver s)
  then show ?case by (intro reachable.startedOver) simp_all
next
  case (garmentSelect s api garmentFile garmentInfo calls s')
  from handleGarmentSelect_two_parts[OF garmentSelect.hyps(2)]
  show ?case
  proof (elim disjE exE conjE)
    assume "handleGarmentSelect_begin garmentFile garmentInfo s = (s', [])"
    from reachable.garmentBegun[OF garmentSelect.IH this] show ?thesis by simp
  next
    fix s1 call k
    assume b: "handleGarmentSelect_begin garmentFile garmentInfo s = (s1, [(call, k)])"
      and r: "resume friendly k (api call) s1 = Some s'"
    from reachable.garmentBegun[OF garmentSelect.IH b]
    have "reachable True defaultWardrobe friendly (s1, [(call, k)])" by simp
    then show ?thesis using r by (rule settled_single)
  qed
next
  case (removeLastGarment s)
  then show ?case by (intro reachable.removed)
next
  case (poseSelect s api newInstruction calls s')
  from handlePoseSelect_two_parts[OF poseSelect.hyps(2)]
  show ?case
  proof (elim disjE exE conjE)
    assume "handlePoseSelect_begin newInstruction s = Inr (s', [])"
    from reachable.poseBegun[OF poseSelect.IH this] show ?thesis by simp
  next
    fix s1 call k
    assume b: "handlePoseSelect_begin newInstruction s = Inr (s1, [(call, k)])"
      and r: "resume friendly k (api call) s1 = Some s'"
    from reachable.poseBegun[OF poseSelect.IH b]
    have "reachable True defaultWardrobe friendly (s1, [(call, k)])" by simp
    then show ?thesis using r by (rule settled_single)
  qed
next
  case (emotionSelect s api newInstruction calls s')
  from handleEmotionSelect_two_parts[OF emotionSelect.hyps(2)]
  show ?case
  proof (elim disjE exE conjE)
    assume "handleEmotionSelect_begin newInstruction s = Inr (s', [])"
    from reachable.emotionBegun[OF emotionSelect.IH this] show ?thesis by simp
  next
    fix s1 call k
    assume b: "handleEmotionSelect_begin newInstruction s = Inr (s1, [(call, k)])"
      and r: "resume friendly k (api call) s1 = Some s'"
    from reachable.emotionBegun[OF emotionSelect.IH b]
    have "reachable True defaultWardrobe friendly (s1, [(call, k)])" by simp
    then show ?thesis using r by (rule settled_single)
  qed
next
  case (backgroundChange s api newInstruction calls s')
  from handleBackgroundChange_two_parts[OF backgroundChange.hyps(2)]
  show ?case
  proof (elim disjE exE conjE)
    assume "handleBackgroundChange_begin newInstruction s = Inr (s', [])"
    from reachable.backgroundBegun[OF backgroundChange.IH this] show ?thesis by simp
  next
    fix s1 call k
    assume b: "handleBackgroundChange_begin newInstruction s = Inr (s1, [(call, k)])"
      and r: "resume friendly k (api call) s1 = Some s'"
    from reachable.backgroundBegun[OF backgroundChange.IH b]
    have "reachable True defaultWardrobe friendly (s1, [(call, k)])" by simp
    then show ?thesis using r by (rule settled_single)
  qed
next
  case (backgroundUpload s api upload calls s')
  from handleBackgroundUpload_two_parts[OF backgroundUpload.hyps(2)]
  show ?case
  proof (elim disjE exE conjE)
    assume "handleBackgroundUpload_begin upload s = Inr (s', [])"
    from reachable.uploadBegun[OF backgroundUpload.IH this] show ?thesis by simp
  next
    fix s1 call k
    assume b: "handleBackgroundUpload_begin upload s = Inr (s1, [(call, k)])"
      and r: "resume friendly k (api call) s1 = Some s'"
    from reachable.uploadBegun[OF backgroundUpload.IH b]
    have "reachable True defaultWardrobe friendly (s1, [(call, k)])" by simp
    then show ?thesis using r by (rule settled_single)
  qed
next
  case (colorChange s api newInstruction calls s')
  from handleColorChange_two_parts[OF colorChange.hyps(2)]
  show ?case
  proof (elim disjE exE conjE)
    assume "handleColorChange_begin newInstruction s = Inr (s', [])"
    from reachable.colorBegun[OF colorChange.IH this] show ?thesis by simp
  next
    fix s1 call k
    assume b: "handleColorChange_begin newInstruction s = Inr (s1, [(call, k)])"
      and r: "resume friendly k (api call) s1 = Some s'"
    from reachable.colorBegun[OF colorChange.IH b]
    have "reachable True defaultWardrobe friendly (s1, [(call, k)])" by simp
    then show ?thesis using r by (rule settled_single)
  qed
next
  case (sheetToggled s)
  then show ?case by (intro reachable.toggled)
qed

lemma reachable_unrestricted:
  assumes "reachable True defaultWardrobe friendly w"
  shows "reachable False defaultWardrobe friendly w"
  using assms
proof (induction rule: reachable.induct)
  case firstRender
  show ?case by (rule reachable.firstRender)
next
  case (finalized s waiting url)
  then show ?case by (intro reachable.finalized)
next
  case (startedOver s waiting)
  then show ?case by (intro reachable.startedOver) simp_all
next
  case (removed s waiting)
  then show ?case by (intro reachable.removed)
next
  case (toggled s waiting)
  then show ?case by (intro reachable.toggled)
next
  case (garmentBegun s waiting garmentFile garmentInfo s1 new)
  then show ?case by (intro reachable.garmentBegun)
next
  case (poseBegun s waiting newInstruction s1 new)
  then show ?case by (intro reachable.poseBegun)
next
  case (emotionBegun s waiting newInstruction s1 new)
  then show ?case by (intro reachable.emotionBegun)
next
  case (backgroundBegun s waiting newInstruction s1 new)
  then show ?case by (intro reachable.backgroundBegun)
next
  case (uploadBegun s waiting upload s1 new)
  then show ?case by (intro reachable.uploadBegun)
next
  case (colorBegun s waiting newInstruction s1 new)
  then show ?case by (intro reachable.colorBegun)
next
  case (settled s waiting n outcome s')
  then show ?case by (intro reachable.settled)
qed

text \<open>The runs in which \<open>handleStartOver\<close> waits keep \<open>world_ok\<close>.\<close>

lemma world_ok_parts:
  assumes "world_ok (s, waiting)"
  shows "length waiting \<le> 1"
    and "waiting \<noteq> [] \<Longrightarrow> isLoading s"
    and "outfitHistory s = [] \<Longrightarrow> modelImageUrl s = None \<and> currentOutfitIndex s = 0 \<and> waiting = []"
    and "outfitHistory s \<noteq> [] \<Longrightarrow> currentOutfitIndex s < length (outfitHistory s)"
    and "\<forall>j < length (outfitHistory s). generatedImages (outfitHistory s ! j) \<noteq> []"
    and "\<forall>j < length (outfitHistory s). (garment (outfitHistory s ! j) = None) = (j = 0)"
  using assms unfolding world_ok_def fst_conv snd_conv by simp_all

lemma world_ok_captured:
  assumes "world_ok (s, waiting)" and "(call, afterTryOn i g) \<in> set waiting"
  shows "currentOutfitIndex s \<le> i"
proof -
  from assms(1) have "\<forall>call capturedIndex garmentInfo.
           (call, afterTryOn capturedIndex garmentInfo) \<in> set waiting \<longrightarrow>
           currentOutfitIndex s \<le> capturedIndex"
    unfolding world_ok_def fst_conv snd_conv by (elim conjE)
  then show ?thesis using assms(2) by (elim allE) (erule mp)
qed

lemma world_ok_idleI:
  assumes "\<not> isLoading s'"
    and "outfitHistory s' \<noteq> []"
    and "currentOutfitIndex s' < length (outfitHistory s')"
    and "\<forall>j < length (outfitHistory s').
           generatedImages (outfitHistory s' ! j) \<noteq> []
           \<and> (garment (outfitHistory s' ! j) = None) = (j = 0)"
  shows "world_ok (s', [])"
  using assms unfolding world_ok_def fst_conv snd_conv by simp

lemma world_ok_firstRender: "world_ok (initialState defaultWardrobe, [])"
  by (simp add: world_ok_def initialState_def)

lemma world_ok_finalized:
  assumes "world_ok (s, waiting)"
  shows "world_ok (handleModelFinalized url s, waiting)"
  using assms
  by (simp add: world_ok_def handleModelFinalized_def resetStateForNewGarment_def)

lemma world_ok_startedOver: "world_ok (handleStartOver defaultWardrobe s, [])"
  by (simp add: world_ok_def handleStartOver_def resetStateForNewGarment_def)

lemma world_ok_removed:
  assumes "world_ok (s, waiting)"
  shows "world_ok (handleRemoveLastGarment s, waiting)"
proof (cases "0 < currentOutfitIndex s")
  case True
  then show ?thesis
    using assms
    by (fastforce simp: world_ok_def handleRemoveLastGarment_def resetStateForNewGarment_def)
next
  case False
  then show ?thesis using assms by (simp add: handleRemoveLastGarment_def)
qed

lemma world_ok_toggled:
  assumes "world_ok (s, waiting)"
  shows "world_ok (s\<lparr>isSheetCollapsed := \<not> isSheetCollapsed s\<rparr>, waiting)"
  using assms by (simp add: world_ok_def)

lemma world_ok_idle:
  assumes "world_ok (s, waiting)" and "\<not> isLoading s"
  shows "waiting = []"
  using assms by (auto simp: world_ok_def)

lemma world_ok_garmentBegun:
  assumes ok: "world_ok (s, waiting)"
    and run: "handleGarmentSelect_begin garmentFile garmentInfo s = (s1, new)"
  shows "world_ok (s1, waiting @ new)"
proof (cases "\<not> truthy (displayImageUrl s) \<or> isLoading s")
  case True
  with run have "s1 = s" "new = []" by (simp_all add: handleGarmentSelect_begin_def)
  then show ?thesis using ok by simp
next
  case False
  then have idle: "waiting = []" using ok by (simp add: world_ok_idle)
  have ne: "outfitHistory s \<noteq> []"
  proof
    assume "outfitHistory s = []"
    then have "displayImageUrl s = None" using ok by (simp add: displayImageUrl_def world_ok_def)
    then show False using False by simp
  qed
  show ?thesis
    using run False ok ne unfolding idle
    by (auto simp: handleGarmentSelect_begin_def world_ok_def resetStateForNewGarment_def Let_def
             split: if_splits option.splits)
qed

lemma world_ok_poseBegun:
  assumes ok: "world_ok (s, waiting)"
    and run: "handlePoseSelect_begin newInstruction s = Inr (s1, new)"
  shows "world_ok (s1, waiting @ new)"
proof (cases "isLoading s")
  case True
  with run have "s1 = s" "new = []" by (simp_all add: handlePoseSelect_begin_def)
  then show ?thesis using ok by simp
next
  case False
  then have idle: "waiting = []" using ok by (simp add: world_ok_idle)
  show ?thesis
    using run False ok unfolding idle
    by (auto simp: handlePoseSelect_begin_def world_ok_def Let_def split: if_splits)
qed

lemma world_ok_emotionBegun:
  assumes ok: "world_ok (s, waiting)"
    and run: "handleEmotionSelect_begin newInstruction s = Inr (s1, new)"
  shows "world_ok (s1, waiting @ new)"
proof (cases "isLoading s")
  case True
  with run have "s1 = s" "new = []" by (simp_all add: handleEmotionSelect_begin_def)
  then show ?thesis using ok by simp
next
  case False
  then have idle: "waiting = []" using ok by (simp add: world_ok_idle)
  show ?thesis
    using run False ok unfolding idle
    by (auto simp: handleEmotionSelect_begin_def world_ok_def Let_def split: if_splits)
qed

lemma world_ok_backgroundBegun:
  assumes ok: "world_ok (s, waiting)"
    and run: "handleBackgroundChange_begin newInstruction s = Inr (s1, new)"
  shows "world_ok (s1, waiting @ new)"
proof (cases "isLoading s")
  case True
  with run have "s1 = s" "new = []" by (simp_all add: handleBackgroundChange_begin_def)
  then show ?thesis using ok by simp
next
  case False
  then have idle: "waiting = []" using ok by (simp add: world_ok_idle)
  show ?thesis
    using run False ok unfolding idle
    by (auto simp: handleBackgroundChange_begin_def world_ok_def Let_def split: if_splits)
qed

lemma world_ok_uploadBegun:
  assumes ok: "world_ok (s, waiting)"
    and run: "handleBackgroundUpload_begin file s = Inr (s1, new)"
  shows "world_ok (s1, waiting @ new)"
proof (cases "isLoading s")
  case True
  with run have "s1 = s" "new = []" by (simp_all add: handleBackgroundUpload_begin_def)
  then show ?thesis using ok by simp
next
  case False
  then have idle: "waiting = []" using ok by (simp add: world_ok_idle)
  show ?thesis
    using run False ok unfolding idle
    by (auto simp: handleBackgroundUpload_begin_def world_ok_def Let_def split: if_splits)
qed

lemma world_ok_colorBegun:
  assumes ok: "world_ok (s, waiting)"
    and run: "handleColorChange_begin newInstruction s = Inr (s1, new)"
  shows "world_ok (s1, waiting @ new)"
proof (cases "isLoading s")
  case True
  with run have "s1 = s" "new = []" by (simp_all add: handleColorChange_begin_def)
  then show ?thesis using ok by simp
next
  case False
  then have idle: "waiting = []" using ok by (simp add: world_ok_idle)
  show ?thesis
    using run False ok unfolding idle
    by (auto simp: handleColorChange_begin_def world_ok_def Let_def split: if_splits)
qed

lemma push_layer_shape:
  assumes images: "\<forall>j < length h. generatedImages (h ! j) \<noteq> []"
    and garments: "\<forall>j < length h. (garment (h ! j) = None) = (j = 0)"
    and "h \<noteq> []"
  shows "\<forall>j < length (take (Suc i) h @ [\<lparr>garment = Some g, generatedImages = [(k, u)]\<rparr>]).
           generatedImages ((take
               (Suc i) h @ [\<lparr>garment = Some g, generatedImages = [(k, u)]\<rparr>]) ! j) \<noteq> []
           \<and> (garment ((take
               (Suc i) h @ [\<lparr>garment = Some g, generatedImages = [(k, u)]\<rparr>]) ! j) = None)
               = (j = 0)"
proof (intro allI impI)
  fix j
  let ?t = "take (Suc i) h"
  let ?h' = "?t @ [\<lparr>garment = Some g, generatedImages = [(k, u)]\<rparr>]"
  assume "j < length ?h'"
  then consider (old) "j < length ?t" | (new) "j = length ?t" by fastforce
  then show "generatedImages (?h' ! j) \<noteq> [] \<and> (garment (?h' ! j) = None) = (j = 0)"
  proof cases
    case old
    then have "?h' ! j = h ! j" and "j < length h" by (simp_all add: nth_append)
    then show ?thesis using images garments by simp
  next
    case new
    have "0 < length ?t" using \<open>h \<noteq> []\<close> by simp
    then show ?thesis using new by (simp add: nth_append)
  qed
qed

lemma store_image_shape:
  assumes images: "\<forall>j < length h. generatedImages (h ! j) \<noteq> []"
    and garments: "\<forall>j < length h. (garment (h ! j) = None) = (j = 0)"
    and "i < length h"
  shows "\<forall>j < length h.
           generatedImages
             (h[i := (h ! i)\<lparr>generatedImages := AList.update k u (generatedImages (h ! i))\<rparr>] ! j)
             \<noteq> []
           \<and> (garment
                (h[i := (h ! i)\<lparr>generatedImages := AList.update k u (generatedImages
                    (h ! i))\<rparr>] ! j)
                = None) = (j = 0)"
proof (intro allI impI)
  fix j
  assume "j < length h"
  then show "generatedImages
             (h[i := (h ! i)\<lparr>generatedImages := AList.update k u (generatedImages (h ! i))\<rparr>] ! j)
             \<noteq> []
           \<and> (garment
                (h[i := (h ! i)\<lparr>generatedImages := AList.update k u (generatedImages
                    (h ! i))\<rparr>] ! j)
                = None) = (j = 0)"
    using images garments by (cases "j = i") simp_all
qed

lemma world_ok_settled:
  assumes ok: "world_ok (s, waiting)"
    and n: "n < length waiting"
    and run: "resume friendly (snd (waiting ! n)) outcome s = Some s'"
  shows "world_ok (s', take n waiting @ drop (Suc n) waiting)"
proof -
  note parts = world_ok_parts[OF ok]
  from parts(1) n obtain call k where w: "waiting = [(call, k)]" and n0: "n = 0"
    by (cases waiting) auto
  have loading: "isLoading s" using parts(2) w by simp
  have ne: "outfitHistory s \<noteq> []" using parts(3) w by auto
  then have idx: "currentOutfitIndex s < length (outfitHistory s)" using parts(4) by simp
  note images = parts(5) and garments = parts(6)
  have both: "\<forall>j < length (outfitHistory s).
           generatedImages (outfitHistory s ! j) \<noteq> []
           \<and> (garment (outfitHistory s ! j) = None) = (j = 0)"
    using images garments by simp
  from run w n0 have run: "resume friendly k outcome s = Some s'" by simp
  have "world_ok (s', [])"
  proof (cases k)
    case (afterTryOn i g)
    have le: "currentOutfitIndex s \<le> i"
      by (rule world_ok_captured[OF ok, of call i g]) (simp add: w afterTryOn)
    show ?thesis
    proof (cases outcome)
      case (Inl err)
      with run afterTryOn have "s' = s\<lparr>error := Some (friendly err ''Failed to apply garment''),
          isLoading := False, loadingMessage := []\<rparr>"
        by (simp add: resume_def)
      then show ?thesis using ne idx both by (intro world_ok_idleI) simp_all
    next
      case (Inr url)
      with run afterTryOn have s': "outfitHistory s' =
            take (Suc i)
                (outfitHistory s) @ [\<lparr>garment = Some g, generatedImages = [(initialKey, url)]\<rparr>]"
        "currentOutfitIndex s' = Suc (currentOutfitIndex s)" "\<not> isLoading s'"
        by (auto simp: resume_def Let_def)
      have "Suc (currentOutfitIndex s) < length (outfitHistory s')"
        using idx le by (simp add: s')
      then show ?thesis
        using push_layer_shape[OF images garments ne, of i g initialKey url] s'
        by (intro world_ok_idleI) simp_all
    qed
  next
    case (afterVariation v i key prev)
    show ?thesis
    proof (cases outcome)
      case (Inl err)
      with run afterVariation
      have "outfitHistory s' = outfitHistory s \<and> currentOutfitIndex s' = currentOutfitIndex s
        \<and> \<not> isLoading s'"
        by (cases v) (auto simp: resume_def)
      then show ?thesis using ne idx both by (intro world_ok_idleI) simp_all
    next
      case (Inr url)
      with run afterVariation have i: "i < length (outfitHistory s)"
        by (auto simp: resume_def split: if_splits)
      with run afterVariation Inr have s': "outfitHistory s' =
            (outfitHistory s)
              [i := (outfitHistory s ! i)
                      \<lparr>generatedImages := AList.update key url (generatedImages
                          (outfitHistory s ! i))\<rparr>]"
        "currentOutfitIndex s' = currentOutfitIndex s" "\<not> isLoading s'"
        by (auto simp: resume_def)
      show ?thesis
        using store_image_shape[OF images garments i, of key url] s' idx ne
        by (intro world_ok_idleI) simp_all
    qed
  qed
  then show ?thesis by (simp add: w n0)
qed

lemma reachable_world_ok:
  assumes "reachable True defaultWardrobe friendly w"
  shows "world_ok w"
  using assms
proof (induction rule: reachable.induct)
  case firstRender
  show ?case by (rule world_ok_firstRender)
next
  case (finalized s waiting url)
  then show ?case by (intro world_ok_finalized)
next
  case (startedOver s waiting)
  then show ?case by (simp add: world_ok_startedOver)
next
  case (removed s waiting)
  then show ?case by (intro world_ok_removed)
next
  case (toggled s waiting)
  then show ?case by (intro world_ok_toggled)
next
  case (garmentBegun s waiting garmentFile garmentInfo s1 new)
  then show ?case by (intro world_ok_garmentBegun)
next
  case (poseBegun s waiting newInstruction s1 new)
  then show ?case by (intro world_ok_poseBegun)
next
  case (emotionBegun s waiting newInstruction s1 new)
  then show ?case by (intro world_ok_emotionBegun)
next
  case (backgroundBegun s waiting newInstruction s1 new)
  then show ?case by (intro world_ok_backgroundBegun)
next
  case (uploadBegun s waiting upload s1 new)
  then show ?case by (intro world_ok_uploadBegun)
next
  case (colorBegun s waiting newInstruction s1 new)
  then show ?case by (intro world_ok_colorBegun)
next
  case (settled s waiting n outcome s')
  then show ?case by (intro world_ok_settled)
qed

lemma world_ok_history_invariant:
  assumes "world_ok w"
  shows "history_invariant (fst w)"
proof -
  let ?h = "outfitHistory (fst w)"
  have a: "list_all (\<lambda>layer. generatedImages layer \<noteq> []) ?h"
    using assms by (simp add: world_ok_def list_all_length)
  have g: "\<forall>j < length ?h. (garment (?h ! j) = None) = (j = 0)"
    using assms by (simp add: world_ok_def)
  have b: "(case ?h of [] \<Rightarrow> True
        | base # upper \<Rightarrow> garment base = None \<and> list_all (\<lambda>layer. garment layer \<noteq> None) upper)"
  proof (cases ?h)
    case Nil
    then show ?thesis by simp
  next
    case (Cons base upper)
    have "garment base = None" using g Cons by (auto dest: spec[of _ 0])
    moreover have "garment (upper ! j) \<noteq> None" if "j < length upper" for j
      using g Cons that by (auto dest!: spec[of _ "Suc j"])
    ultimately show ?thesis using Cons by (simp add: list_all_length)
  qed
  show ?thesis using assms a b by (auto simp: history_invariant_def world_ok_def)
qed

lemma sequential_history_invariant:
  assumes "sequentially_reachable defaultWardrobe friendly s"
  shows "history_invariant s"
  using world_ok_history_invariant[OF reachable_world_ok[OF sequentially_reachable_reachable[OF assms]]]
  by simp

text \<open>
  In a run of whole handlers the garment that was removed can always be applied again.
\<close>

lemma sequential_round_trip:
  assumes "sequentially_reachable defaultWardrobe friendly s"
  shows "(0 < currentOutfitIndex s
            \<and> garment (outfitHistory s ! currentOutfitIndex s) = Some g
            \<and> item_id garmentInfo = item_id g \<longrightarrow>
              currentOutfitIndex (handleRemoveLastGarment s) = currentOutfitIndex s - 1
            \<and> outfitHistory (handleRemoveLastGarment s) = outfitHistory s
            \<and> (\<exists>s'. handleGarmentSelect friendly api garmentFile garmentInfo
                       (handleRemoveLastGarment s) = ([], s')
                    \<and> currentOutfitIndex s' = currentOutfitIndex s
                    \<and> outfitHistory s' = outfitHistory s))
       \<and> (currentOutfitIndex s = 0 \<longrightarrow> handleRemoveLastGarment s = s)"
proof (intro conjI impI)
  assume "currentOutfitIndex s = 0"
  then show "handleRemoveLastGarment s = s" by (simp add: handleRemoveLastGarment_def)
next
  assume a: "0 < currentOutfitIndex s
            \<and> garment (outfitHistory s ! currentOutfitIndex s) = Some g
            \<and> item_id garmentInfo = item_id g"
  have ok: "state_ok s" using assms by (rule sequential_state_ok)
  let ?r = "handleRemoveLastGarment s"
  have r: "?r = resetStateForNewGarment (s\<lparr>currentOutfitIndex := currentOutfitIndex s - 1\<rparr>)"
    using a by (simp add: handleRemoveLastGarment_def)
  show "currentOutfitIndex ?r = currentOutfitIndex s - 1"
    and "outfitHistory ?r = outfitHistory s"
    by (simp_all add: r resetStateForNewGarment_def)
  have shown: "truthy (displayImageUrl ?r)" using ok a by (simp add: lower_layer_display)
  have idle: "\<not> isLoading ?r" using ok by (simp add: r resetStateForNewGarment_def state_ok_def)
  have "outfitHistory s \<noteq> []" using ok a by (auto simp: state_ok_def)
  then have i: "currentOutfitIndex s < length (outfitHistory s)"
    using ok by (simp add: state_ok_def)
  have fields: "currentOutfitIndex ?r + 1 = currentOutfitIndex s"
    "outfitHistory ?r = outfitHistory s"
    using a by (simp_all add: r resetStateForNewGarment_def)
  have "handleGarmentSelect friendly api garmentFile garmentInfo ?r
          = ([], resetStateForNewGarment (?r\<lparr>currentOutfitIndex := currentOutfitIndex ?r + 1\<rparr>))"
    using shown idle i a unfolding handleGarmentSelect_def Let_def fields by simp
  then show "\<exists>s'. handleGarmentSelect friendly api garmentFile garmentInfo ?r = ([], s')
                    \<and> currentOutfitIndex s' = currentOutfitIndex s
                    \<and> outfitHistory s' = outfitHistory s"
    using fields by (simp add: resetStateForNewGarment_def)
qed

text \<open>The example states of interleaved runs are reached as described.\<close>

lemmas race_defs =
  addingShirtState_def awaitedShirt_def racedState_def emptyBaseState_def awaitingPoseState_def
  awaitedPose_def removedWhileAwaitingState_def emptyWornState_def beachState_def

lemma addingShirt_begun:
  "handleGarmentSelect_begin shirtFile shirt modelState = (addingShirtState, [awaitedShirt])"
  by (simp add: handleGarmentSelect_begin_def displayImageUrl_def race_defs example_defs Let_def)

lemma reachable_addingShirtState: "reachable True [] friendlyMessage
    (addingShirtState, [awaitedShirt])"
proof -
  have "reachable True [] friendlyMessage (modelState, [])"
    unfolding modelState_def by (intro reachable.finalized reachable.firstRender)
  from reachable.garmentBegun[OF this addingShirt_begun] show ?thesis by simp
qed

lemma startOver_addingShirt: "handleStartOver [] addingShirtState = initialState []"
  by (simp add: handleStartOver_def race_defs example_defs)

lemma raced_settled:
  "resume friendlyMessage (snd awaitedShirt) (Inr ''worn.png'')
      (initialState []) = Some racedState"
  by (simp add: resume_def race_defs example_defs Let_def)

lemma reachable_racedState: "reachable False [] friendlyMessage (racedState, [])"
proof -
  have "reachable False [] friendlyMessage (addingShirtState, [awaitedShirt])"
    by (rule reachable_unrestricted[OF reachable_addingShirtState])
  then have "reachable False [] friendlyMessage
      (handleStartOver [] addingShirtState, [awaitedShirt])"
    by (rule reachable.startedOver) simp
  then have "reachable False [] friendlyMessage (initialState [], [awaitedShirt])"
    by (simp add: startOver_addingShirt)
  from reachable.settled[OF this, of 0 "Inr ''worn.png''" racedState] raced_settled
  show ?thesis by simp
qed

lemma emptyBase_settled:
  "resume friendlyMessage (snd awaitedShirt) (Inr ''worn.png'')
     (handleModelFinalized [] (initialState [])) = Some emptyBaseState"
  by (simp add: resume_def race_defs example_defs Let_def)

lemma reachable_emptyBaseState: "reachable False [] friendlyMessage (emptyBaseState, [])"
proof -
  have "reachable False [] friendlyMessage (addingShirtState, [awaitedShirt])"
    by (rule reachable_unrestricted[OF reachable_addingShirtState])
  then have "reachable False [] friendlyMessage
      (handleStartOver [] addingShirtState, [awaitedShirt])"
    by (rule reachable.startedOver) simp
  then have "reachable False [] friendlyMessage (initialState [], [awaitedShirt])"
    by (simp add: startOver_addingShirt)
  then have "reachable False [] friendlyMessage
      (handleModelFinalized [] (initialState []), [awaitedShirt])"
    by (rule reachable.finalized)
  from reachable.settled[OF this, of 0 "Inr ''worn.png''" emptyBaseState] emptyBase_settled
  show ?thesis by simp
qed

lemma awaitingPose_begun:
  "handlePoseSelect_begin ''Side profile view'' dressedState = Inr
      (awaitingPoseState, [awaitedPose])"
  by (simp add: handlePoseSelect_begin_def displayImageUrl_def race_defs example_defs Let_def)

lemma reachable_awaitingPoseState:
  "reachable True [] friendlyMessage (awaitingPoseState, [awaitedPose])"
proof -
  have "reachable True [] friendlyMessage (dressedState, [])"
    by (rule sequentially_reachable_reachable[OF sequential_dressedState])
  from reachable.poseBegun[OF this awaitingPose_begun] show ?thesis by simp
qed

lemma removedWhileAwaiting_settled:
  "resume friendlyMessage (snd awaitedPose) (Inr ''side.png'')
     (handleRemoveLastGarment awaitingPoseState) = Some removedWhileAwaitingState"
  by (simp add: resume_def handleRemoveLastGarment_def race_defs example_defs Let_def)

lemma reachable_removedWhileAwaitingState:
  "reachable True [] friendlyMessage (removedWhileAwaitingState, [])"
proof -
  have "reachable True [] friendlyMessage
      (handleRemoveLastGarment awaitingPoseState, [awaitedPose])"
    by (rule reachable.removed[OF reachable_awaitingPoseState])
  from reachable.settled[OF this, of 0 "Inr ''side.png''" removedWhileAwaitingState]
    removedWhileAwaiting_settled
  show ?thesis by simp
qed

lemma emptyWornState_run:
  "handleGarmentSelect friendlyMessage (serviceReturns []) shirtFile shirt modelState
     = ([generateVirtualTryOnImage ''model.png'' shirtFile], emptyWornState)"
  by (simp add: handleGarmentSelect_def displayImageUrl_def race_defs example_defs Let_def)

lemma sequential_emptyWornState: "sequentially_reachable [] friendlyMessage emptyWornState"
  by (rule sequentially_reachable.garmentSelect[OF sequential_modelState emptyWornState_run])

lemma beachState_run:
  "handleBackgroundUpload friendlyMessage (serviceReturns ''beach1.png'') (File ''beach_1.jpg'')
     modelState
     = Inr ([generateUploadedBackgroundVariation ''model.png''
         (File ''beach_1.jpg'')], beachState)"
  by (simp add: handleBackgroundUpload_def displayImageUrl_def race_defs example_defs Let_def)

lemma uploading_begun:
  "handleBackgroundUpload_begin (File ''beach'') beachState
     = Inr (uploadingState,
            [(generateUploadedBackgroundVariation ''beach1.png'' (File ''beach''),
              afterVariation uploadedBackgroundVariation 0
                (compositeKey ''Full frontal view, hands on hips'' ''Neutral''
                   ''Uploaded: beach'' ''Original'')
                ''Uploaded: beach_1.jpg'')])"
  by (simp add: handleBackgroundUpload_begin_def displayImageUrl_def race_defs example_defs Let_def)

lemma reachable_uploadingState:
  "reachable True [] friendlyMessage
     (uploadingState,
      [(generateUploadedBackgroundVariation ''beach1.png'' (File ''beach''),
        afterVariation uploadedBackgroundVariation 0
          (compositeKey ''Full frontal view, hands on hips'' ''Neutral''
             ''Uploaded: beach'' ''Original'')
          ''Uploaded: beach_1.jpg'')])"
proof -
  have "sequentially_reachable [] friendlyMessage beachState"
    by (rule sequentially_reachable.backgroundUpload[OF sequential_modelState beachState_run])
  then have "reachable True [] friendlyMessage (beachState, [])"
    by (rule sequentially_reachable_reachable)
  from reachable.uploadBegun[OF this uploading_begun] show ?thesis by simp
qed

section \<open>The claims\<close>

subsection \<open>The resolution order of the displayed image\<close>

text \<open>
  C1, with the one change the code forces. The displayed image is \<open>modelImageUrl\<close> when
  \<open>outfitHistory\<close> is empty or has no layer at \<open>currentOutfitIndex\<close>. Otherwise it is
  resolved from the \<open>generatedImages\<close> of the current layer in this order: the image
  under the composite key of the four current instructions, when the layer holds one
  and it is not the empty string; otherwise the image of the first key, in enumeration
  order, that starts with \<open>pose_emotion_background_\<close>; otherwise that of the first key that
  starts with \<open>pose_emotion_\<close>; otherwise that of the first key that starts with
  \<open>pose_\<close>; otherwise the first value of the map. The claim lets every entry under the
  composite key win; the code tests the entry for truthiness, so an entry that holds
  the empty string is passed over and the fallback search decides.
\<close>

theorem displayImageUrl_resolution:
  "displayImageUrl s = displayImageUrl_spec s"
  unfolding displayImageUrl_def displayImageUrl_spec_def fallbackImage_spec_def Let_def
  by (simp add: firstKeyStartingWith_find find_prefix_truthy split: option.splits list.splits)

text \<open>
  Three states: the fallback passes over an empty image, the fallback finds a key by its
  beginning, and a state without layers shows the (absent) model image.
\<close>

theorem displayImageUrl_resolution_witness:
  "displayImageUrl_spec emptyRedState = Some ''worn.png''
   \<and> displayImageUrl_spec uploadingState = Some ''beach1.png''
   \<and> displayImageUrl_spec (initialState []) = None"
proof -
  have "displayImageUrl (initialState []) = None"
    by (simp add: displayImageUrl_def initialState_def)
  then show ?thesis
    using displayImageUrl_resolution[of emptyRedState]
      displayImageUrl_resolution[of uploadingState]
      displayImageUrl_resolution[of "initialState []"]
    by (simp add: display_emptyRed display_uploading)
qed

text \<open>
  \<open>emptyRedState\<close> is a state of a run. There is a current layer and it has an
  entry under the composite key of the four current instructions, holding the empty
  string; the displayed image is not that entry but \<open>worn.png\<close>, the image of the
  first key that starts with the current pose, emotion and background.
\<close>

theorem displayImageUrl_empty_entry_counterexample:
  "sequentially_reachable [] friendlyMessage emptyRedState
   \<and> outfitHistory emptyRedState \<noteq> []
   \<and> currentOutfitIndex emptyRedState < length (outfitHistory emptyRedState)
   \<and> map_of (generatedImages (outfitHistory emptyRedState ! currentOutfitIndex emptyRedState))
        (compositeKey (currentPoseInstruction emptyRedState)
           (currentEmotionInstruction emptyRedState)
           (currentBackgroundInstruction emptyRedState)
           (currentColorInstruction emptyRedState)) = Some []
   \<and> displayImageUrl emptyRedState = Some ''worn.png''
   \<and> displayImageUrl emptyRedState
       \<noteq> map_of (generatedImages
                    (outfitHistory emptyRedState ! currentOutfitIndex emptyRedState))
             (compositeKey (currentPoseInstruction emptyRedState)
                (currentEmotionInstruction emptyRedState)
                (currentBackgroundInstruction emptyRedState)
                (currentColorInstruction emptyRedState))"
  using sequential_emptyRedState by (simp add: displayImageUrl_def example_defs Let_def)

subsection \<open>Keys that start alike\<close>

text \<open>
  C2 says that a key the fallback search selects at a level agrees with the current
  instructions on the axes of that level, for arbitrary instruction strings. The
  comments of the code say the same (level 1: match pose, emotion, background). The
  search compares beginnings of the joined key, and an instruction may itself contain
  the separator. In \<open>uploadingState\<close> the current background is
  \<open>Uploaded: beach\<close>; the level 1 search selects the key that was stored for the
  background \<open>Uploaded: beach_1.jpg\<close>, and its image is displayed.
\<close>

theorem prefix_fallback_other_background:
  "generatedImages (outfitHistory uploadingState ! currentOutfitIndex uploadingState) =
     [(compositeKey ''Full frontal view, hands on hips'' ''Neutral'' ''Neutral studio backdrop''
         ''Original'', ''model.png''),
      (compositeKey ''Full frontal view, hands on hips'' ''Neutral'' ''Uploaded: beach_1.jpg''
         ''Original'', ''beach1.png'')]
   \<and> currentPoseInstruction uploadingState = ''Full frontal view, hands on hips''
   \<and> currentEmotionInstruction uploadingState = ''Neutral''
   \<and> currentBackgroundInstruction uploadingState = ''Uploaded: beach''
   \<and> find (prefix (currentPoseInstruction uploadingState @ ''_''
                     @ currentEmotionInstruction uploadingState @ ''_''
                     @ currentBackgroundInstruction uploadingState @ ''_''))
        (map fst (generatedImages
                    (outfitHistory uploadingState ! currentOutfitIndex uploadingState)))
       = Some (compositeKey ''Full frontal view, hands on hips'' ''Neutral''
                 ''Uploaded: beach_1.jpg'' ''Original'')
   \<and> displayImageUrl uploadingState = Some ''beach1.png''
   \<and> ''Uploaded: beach_1.jpg'' \<noteq> currentBackgroundInstruction uploadingState"
  by (simp add: displayImageUrl_def example_defs Let_def)

text \<open>
  When no instruction contains the separator, the beginning of a key decides its leading
  axes, so the three levels of the search do select by pose, emotion and background.
\<close>

lemma separator_prefix:
  assumes "x \<notin> set a" and "x \<notin> set a'"
  shows "prefix (a @ x # u) (a' @ x # v) \<longleftrightarrow> a = a' \<and> prefix u v"
  using assms
proof (induction a arbitrary: a')
  case Nil
  then show ?case by (cases a') auto
next
  case (Cons y a)
  then show ?case by (cases a') auto
qed

lemma level1_agrees:
  assumes "CHR ''_'' \<notin> set p" and "CHR ''_'' \<notin> set p'"
    and "CHR ''_'' \<notin> set e" and "CHR ''_'' \<notin> set e'"
    and "CHR ''_'' \<notin> set b" and "CHR ''_'' \<notin> set b'"
  shows "prefix (p @ ''_'' @ e @ ''_'' @ b @ ''_'') (compositeKey p' e' b' c')
           \<longleftrightarrow> p = p' \<and> e = e' \<and> b = b'"
  using separator_prefix[OF assms(1,2)] separator_prefix[OF assms(3,4)]
    separator_prefix[OF assms(5,6), of "[]"]
  by (simp add: compositeKey_def)

lemma level2_agrees:
  assumes "CHR ''_'' \<notin> set p" and "CHR ''_'' \<notin> set p'"
    and "CHR ''_'' \<notin> set e" and "CHR ''_'' \<notin> set e'"
  shows "prefix (p @ ''_'' @ e @ ''_'') (compositeKey p' e' b' c') \<longleftrightarrow> p = p' \<and> e = e'"
  using separator_prefix[OF assms(1,2)] separator_prefix[OF assms(3,4), of "[]"]
  by (simp add: compositeKey_def)

lemma level3_agrees:
  assumes "CHR ''_'' \<notin> set p" and "CHR ''_'' \<notin> set p'"
  shows "prefix (p @ ''_'') (compositeKey p' e' b' c') \<longleftrightarrow> p = p'"
  using separator_prefix[OF assms, of "[]"] by (simp add: compositeKey_def)

subsection \<open>Applying a garment\<close>



subsection \<open>The invariant of the history\<close>

text \<open>
  C4, as far as the code has it. Every state reached from the initial state by
  \<open>handleModelFinalized\<close>, \<open>handleStartOver\<close>, \<open>handleGarmentSelect\<close>,
  \<open>handleRemoveLastGarment\<close> and the pose, emotion, background, upload and colour
  handlers, in any order and with the handlers that do not await called also while a
  call to the service is awaited, except that \<open>handleStartOver\<close> is not called while a
  call is awaited, satisfies: \<open>currentOutfitIndex\<close> is 0 when \<open>outfitHistory\<close> is empty and
  is a valid index otherwise; the \<open>generatedImages\<close> of every layer is non-empty; the
  layer at index 0 has no garment and every later layer has one. The claim has this for
  every sequence of the operations; \<open>handleStartOver\<close> tests nothing, and the code after
  an \<open>await\<close> does not look whether the history it extends is still the one it started
  from.
\<close>

theorem history_invariant_when_start_over_waits:
  assumes "reachable True defaultWardrobe friendly (s, waiting)"
  shows "history_invariant s"
  using world_ok_history_invariant[OF reachable_world_ok[OF assms]] by simp

text \<open>
  A run in which the shirt is removed while a pose is awaited; the image arrives in the
  layer above the current one.
\<close>

theorem history_invariant_when_start_over_waits_witness:
  "reachable True [] friendlyMessage (removedWhileAwaitingState, [])
   \<and> history_invariant removedWhileAwaitingState"
  using history_invariant_when_start_over_waits[OF reachable_removedWhileAwaitingState]
    reachable_removedWhileAwaitingState
  by simp

text \<open>
  A model is finalized, the shirt is selected, \<open>handleStartOver\<close> is called while the
  service is awaited, and the call succeeds: the updaters put the layer of the shirt
  after the first layers of the empty history and add 1 to the index 0. The history has
  one layer, which has a garment, and the index 1 points past it.
\<close>

theorem start_over_while_awaiting_counterexample:
  "reachable False [] friendlyMessage (racedState, [])
   \<and> outfitHistory racedState \<noteq> []
   \<and> \<not> currentOutfitIndex racedState < length (outfitHistory racedState)
   \<and> garment (outfitHistory racedState ! 0) \<noteq> None
   \<and> \<not> history_invariant racedState"
  using reachable_racedState by (simp add: history_invariant_def race_defs example_defs)

subsection \<open>When a variation calls the service\<close>

text \<open>
  C5, as the code has it. A pose, emotion, background or colour handler is called with
  an instruction different from the current one, while \<open>isLoading\<close> is false,
  \<open>outfitHistory\<close> is non-empty and holds a layer at \<open>currentOutfitIndex\<close> (and, for
  colour, \<open>currentOutfitIndex > 0\<close>). When the current layer holds a truthy image under
  the composite key of the new instruction, the handler calls nothing and only
  switches the current instruction. Otherwise, when the base image is not truthy, it
  calls nothing and changes nothing (the colour handler sets its error message); the
  base image is \<open>displayImageUrl\<close>, and for colour the image of the layer under the
  current pose, emotion and background with the first colour. Otherwise it calls the
  corresponding \<open>generate...Variation\<close> function, once, with the base image and the new
  instruction, and leaves the state of a success or of a failure, as the service
  answers. The claim has the call made for every such adjustment.
\<close>

theorem variation_delegates_unless_cached:
  "(\<not> isLoading s \<and> outfitHistory s \<noteq> [] \<and> newInstruction \<noteq> currentPoseInstruction s
      \<and> currentOutfitIndex s < length (outfitHistory s) \<longrightarrow>
      handlePoseSelect friendly api newInstruction s =
        Inr (if truthy (map_of (generatedImages (outfitHistory s ! currentOutfitIndex s))
                      (compositeKey newInstruction (currentEmotionInstruction s)
                          (currentBackgroundInstruction s) (currentColorInstruction s)))
             then ([], s\<lparr>currentPoseInstruction := newInstruction\<rparr>)
             else if \<not> truthy (displayImageUrl s)
             then ([], s)
             else
               ([generatePoseVariation (the (displayImageUrl s)) newInstruction],
                case api (generatePoseVariation (the (displayImageUrl s)) newInstruction) of
                  Inr newImageUrl \<Rightarrow>
                    s\<lparr>outfitHistory :=
                        (outfitHistory s)
                          [currentOutfitIndex s :=
                             (outfitHistory s ! currentOutfitIndex s)
                               \<lparr>generatedImages :=
                                  AList.update
                                    (compositeKey newInstruction (currentEmotionInstruction s)
                                        (currentBackgroundInstruction s)
                                        (currentColorInstruction s))
                                    newImageUrl
                                    (generatedImages (outfitHistory s ! currentOutfitIndex s))\<rparr>],
                      error := None, isLoading := False, loadingMessage := [],
                      currentPoseInstruction := newInstruction\<rparr>
                | Inl err \<Rightarrow>
                    s\<lparr>error := Some (friendly err ''Failed to change pose''), isLoading := False,
                      loadingMessage := []\<rparr>)))
   \<and> (\<not> isLoading s \<and> outfitHistory s \<noteq> [] \<and> newInstruction \<noteq> currentEmotionInstruction s
      \<and> currentOutfitIndex s < length (outfitHistory s) \<longrightarrow>
      handleEmotionSelect friendly api newInstruction s =
        Inr (if truthy (map_of (generatedImages (outfitHistory s ! currentOutfitIndex s))
                      (compositeKey (currentPoseInstruction s) newInstruction
                          (currentBackgroundInstruction s) (currentColorInstruction s)))
             then ([], s\<lparr>currentEmotionInstruction := newInstruction\<rparr>)
             else if \<not> truthy (displayImageUrl s)
             then ([], s)
             else
               ([generateEmotionVariation (the (displayImageUrl s)) newInstruction],
                case api (generateEmotionVariation (the (displayImageUrl s)) newInstruction) of
                  Inr newImageUrl \<Rightarrow>
                    s\<lparr>outfitHistory :=
                        (outfitHistory s)
                          [currentOutfitIndex s :=
                             (outfitHistory s ! currentOutfitIndex s)
                               \<lparr>generatedImages :=
                                  AList.update
                                    (compositeKey (currentPoseInstruction s) newInstruction
                                        (currentBackgroundInstruction s)
                                        (currentColorInstruction s))
                                    newImageUrl
                                    (generatedImages (outfitHistory s ! currentOutfitIndex s))\<rparr>],
                      error := None, isLoading := False, loadingMessage := [],
                      currentEmotionInstruction := newInstruction\<rparr>
                | Inl err \<Rightarrow>
                    s\<lparr>error := Some
                        (friendly err ''Failed to change emotion''), isLoading := False,
                      loadingMessage := []\<rparr>)))
   \<and> (\<not> isLoading s \<and> outfitHistory s \<noteq> [] \<and> newInstruction \<noteq> currentBackgroundInstruction s
      \<and> currentOutfitIndex s < length (outfitHistory s) \<longrightarrow>
      handleBackgroundChange friendly api newInstruction s =
        Inr (if truthy (map_of (generatedImages (outfitHistory s ! currentOutfitIndex s))
                      (compositeKey (currentPoseInstruction s)
                          (currentEmotionInstruction s) newInstruction
                          (currentColorInstruction s)))
             then ([], s\<lparr>currentBackgroundInstruction := newInstruction\<rparr>)
             else if \<not> truthy (displayImageUrl s)
             then ([], s)
             else
               ([generateBackgroundVariation (the (displayImageUrl s)) newInstruction],
                case api (generateBackgroundVariation (the (displayImageUrl s)) newInstruction) of
                  Inr newImageUrl \<Rightarrow>
                    s\<lparr>outfitHistory :=
                        (outfitHistory s)
                          [currentOutfitIndex s :=
                             (outfitHistory s ! currentOutfitIndex s)
                               \<lparr>generatedImages :=
                                  AList.update
                                    (compositeKey (currentPoseInstruction s)
                                        (currentEmotionInstruction s) newInstruction
                                        (currentColorInstruction s))
                                    newImageUrl
                                    (generatedImages (outfitHistory s ! currentOutfitIndex s))\<rparr>],
                      error := None, isLoading := False, loadingMessage := [],
                      currentBackgroundInstruction := newInstruction\<rparr>
                | Inl err \<Rightarrow>
                    s\<lparr>error := Some
                        (friendly err ''Failed to change background''), isLoading := False,
                      loadingMessage := []\<rparr>)))
   \<and> (\<not> isLoading s \<and> outfitHistory s \<noteq> [] \<and> newInstruction \<noteq> currentColorInstruction s
      \<and> 0 < currentOutfitIndex s
      \<and> currentOutfitIndex s < length (outfitHistory s) \<longrightarrow>
      handleColorChange friendly api newInstruction s =
        Inr (if truthy (map_of (generatedImages (outfitHistory s ! currentOutfitIndex s))
                      (compositeKey (currentPoseInstruction s) (currentEmotionInstruction s)
                          (currentBackgroundInstruction s) newInstruction))
             then ([], s\<lparr>currentColorInstruction := newInstruction\<rparr>)
             else if \<not> truthy (map_of (generatedImages (outfitHistory s ! currentOutfitIndex s))
                 (compositeKey (currentPoseInstruction s) (currentEmotionInstruction s)
                 (currentBackgroundInstruction s) (COLOR_INSTRUCTIONS ! 0)))
             then ([], s\<lparr>error := Some ''The original image for this outfit is missing. Cannot change color.''\<rparr>)
             else
               ([generateColorVariation (the (map_of (generatedImages
                   (outfitHistory s ! currentOutfitIndex s)) (compositeKey
                   (currentPoseInstruction s) (currentEmotionInstruction s)
                   (currentBackgroundInstruction s) (COLOR_INSTRUCTIONS ! 0)))) newInstruction],
                case api (generateColorVariation (the (map_of (generatedImages
                    (outfitHistory s ! currentOutfitIndex s)) (compositeKey
                    (currentPoseInstruction s) (currentEmotionInstruction s)
                    (currentBackgroundInstruction s)
                    (COLOR_INSTRUCTIONS ! 0)))) newInstruction) of
                  Inr newImageUrl \<Rightarrow>
                    s\<lparr>outfitHistory :=
                        (outfitHistory s)
                          [currentOutfitIndex s :=
                             (outfitHistory s ! currentOutfitIndex s)
                               \<lparr>generatedImages :=
                                  AList.update
                                    (compositeKey (currentPoseInstruction s)
                                        (currentEmotionInstruction s)
                                        (currentBackgroundInstruction s) newInstruction)
                                    newImageUrl
                                    (generatedImages (outfitHistory s ! currentOutfitIndex s))\<rparr>],
                      error := None, isLoading := False, loadingMessage := [],
                      currentColorInstruction := newInstruction\<rparr>
                | Inl err \<Rightarrow>
                    s\<lparr>error := Some (friendly err ''Failed to change color''), isLoading := False,
                      loadingMessage := []\<rparr>)))"
  by (auto simp: handlePoseSelect_def handleEmotionSelect_def handleBackgroundChange_def
        handleColorChange_def Let_def split: sum.splits)

text \<open>
  Adjustments that call the service, with a result and with a thrown value; the
  adjustment of the counterexample below, which only switches the pose; and a colour
  without base image.
\<close>

theorem variation_delegates_unless_cached_witness:
  "(\<not> isLoading modelState \<and> outfitHistory modelState \<noteq> []
      \<and> ''Side profile view'' \<noteq> currentPoseInstruction modelState
      \<and> currentOutfitIndex modelState < length (outfitHistory modelState))
   \<and> handlePoseSelect friendlyMessage (serviceReturns ''side.png'') ''Side profile view''
        modelState
       = Inr ([generatePoseVariation ''model.png'' ''Side profile view''], posedState)
   \<and> handleEmotionSelect friendlyMessage (serviceThrows ''quota'') ''Happy'' modelState
       = Inr ([generateEmotionVariation ''model.png'' ''Happy''],
              modelState\<lparr>error := Some ''Failed to change emotion: quota''\<rparr>)
   \<and> handleBackgroundChange friendlyMessage (serviceThrows ''quota'') ''City street at night''
        modelState
       = Inr ([generateBackgroundVariation ''model.png'' ''City street at night''],
              modelState\<lparr>error := Some ''Failed to change background: quota''\<rparr>)
   \<and> (\<not> isLoading dressedState \<and> outfitHistory dressedState \<noteq> []
      \<and> ''Vibrant Red'' \<noteq> currentColorInstruction dressedState
      \<and> 0 < currentOutfitIndex dressedState
      \<and> currentOutfitIndex dressedState < length (outfitHistory dressedState))
   \<and> handleColorChange friendlyMessage (serviceReturns ''red.png'') ''Vibrant Red'' dressedState
       = Inr ([generateColorVariation ''worn.png'' ''Vibrant Red''], recolouredState)
   \<and> handlePoseSelect friendlyMessage (serviceReturns ''new.png'')
        ''Full frontal view, hands on hips'' posedState
       = Inr ([], posedState\<lparr>currentPoseInstruction := ''Full frontal view, hands on hips''\<rparr>)
   \<and> handleColorChange friendlyMessage (serviceReturns ''blue.png'') ''Deep Blue'' redSideState
       = Inr ([], redSideState
                    \<lparr>error :=
                       Some ''The original image for this outfit is missing. Cannot change color.''\<rparr>)"
proof -
  have m: "\<not> isLoading modelState \<and> outfitHistory modelState \<noteq> []
      \<and> ''Side profile view'' \<noteq> currentPoseInstruction modelState
      \<and> currentOutfitIndex modelState < length (outfitHistory modelState)"
    and m2: "\<not> isLoading modelState \<and> outfitHistory modelState \<noteq> []
      \<and> ''Happy'' \<noteq> currentEmotionInstruction modelState
      \<and> currentOutfitIndex modelState < length (outfitHistory modelState)"
    and m3: "\<not> isLoading modelState \<and> outfitHistory modelState \<noteq> []
      \<and> ''City street at night'' \<noteq> currentBackgroundInstruction modelState
      \<and> currentOutfitIndex modelState < length (outfitHistory modelState)"
    by (simp_all add: example_defs)
  have d: "\<not> isLoading dressedState \<and> outfitHistory dressedState \<noteq> []
      \<and> ''Vibrant Red'' \<noteq> currentColorInstruction dressedState
      \<and> 0 < currentOutfitIndex dressedState
      \<and> currentOutfitIndex dressedState < length (outfitHistory dressedState)"
    by (simp add: example_defs)
  have p: "\<not> isLoading posedState \<and> outfitHistory posedState \<noteq> []
      \<and> ''Full frontal view, hands on hips'' \<noteq> currentPoseInstruction posedState
      \<and> currentOutfitIndex posedState < length (outfitHistory posedState)"
    by (simp add: example_defs)
  have r: "\<not> isLoading redSideState \<and> outfitHistory redSideState \<noteq> []
      \<and> ''Deep Blue'' \<noteq> currentColorInstruction redSideState
      \<and> 0 < currentOutfitIndex redSideState
      \<and> currentOutfitIndex redSideState < length (outfitHistory redSideState)"
    by (simp add: example_defs)
  note t = variation_delegates_unless_cached
  note pose = t[where s = modelState and friendly = friendlyMessage
        and api = "serviceReturns ''side.png''" and newInstruction = "''Side profile view''",
        THEN conjunct1, rule_format, OF m]
  note emotion = t[where s = modelState and friendly = friendlyMessage
        and api = "serviceThrows ''quota''" and newInstruction = "''Happy''",
        THEN conjunct2, THEN conjunct1, rule_format, OF m2]
  note background = t[where s = modelState and friendly = friendlyMessage
        and api = "serviceThrows ''quota''" and newInstruction = "''City street at night''",
        THEN conjunct2, THEN conjunct2, THEN conjunct1, rule_format, OF m3]
  note color = t[where s = dressedState and friendly = friendlyMessage
        and api = "serviceReturns ''red.png''" and newInstruction = "''Vibrant Red''",
        THEN conjunct2, THEN conjunct2, THEN conjunct2, rule_format, OF d]
  note cached = t[where s = posedState and friendly = friendlyMessage
        and api = "serviceReturns ''new.png''"
        and newInstruction = "''Full frontal view, hands on hips''",
        THEN conjunct1, rule_format, OF p]
  note missing = t[where s = redSideState and friendly = friendlyMessage
        and api = "serviceReturns ''blue.png''" and newInstruction = "''Deep Blue''",
        THEN conjunct2, THEN conjunct2, THEN conjunct2, rule_format, OF r]
  have "handlePoseSelect friendlyMessage (serviceReturns ''side.png'') ''Side profile view''
        modelState
       = Inr ([generatePoseVariation ''model.png'' ''Side profile view''], posedState)"
    unfolding pose by (simp add: displayImageUrl_def example_defs Let_def)
  moreover have "handleEmotionSelect friendlyMessage
      (serviceThrows ''quota'') ''Happy'' modelState
       = Inr ([generateEmotionVariation ''model.png'' ''Happy''],
              modelState\<lparr>error := Some ''Failed to change emotion: quota''\<rparr>)"
    unfolding emotion by (simp add: displayImageUrl_def example_defs Let_def)
  moreover have "handleBackgroundChange friendlyMessage (serviceThrows ''quota'')
        ''City street at night'' modelState
       = Inr ([generateBackgroundVariation ''model.png'' ''City street at night''],
              modelState\<lparr>error := Some ''Failed to change background: quota''\<rparr>)"
    unfolding background by (simp add: displayImageUrl_def example_defs Let_def)
  moreover have "handleColorChange friendlyMessage (serviceReturns ''red.png'') ''Vibrant Red''
        dressedState
       = Inr ([generateColorVariation ''worn.png'' ''Vibrant Red''], recolouredState)"
    unfolding color by (simp add: example_defs Let_def)
  moreover have "handlePoseSelect friendlyMessage (serviceReturns ''new.png'')
        ''Full frontal view, hands on hips'' posedState
       = Inr ([], posedState\<lparr>currentPoseInstruction := ''Full frontal view, hands on hips''\<rparr>)"
    unfolding cached by (simp add: example_defs Let_def)
  moreover have "handleColorChange friendlyMessage (serviceReturns ''blue.png'') ''Deep Blue''
        redSideState
       = Inr ([], redSideState
                    \<lparr>error :=
                       Some ''The original image for this outfit is missing. Cannot change color.''\<rparr>)"
    unfolding missing by (simp add: example_defs Let_def)
  ultimately show ?thesis using m d by blast
qed

text \<open>
  \<open>posedState\<close> is a state of a run, and its layer holds the image of the first
  pose. Selecting that pose is an adjustment with an instruction different from the
  current one, nothing is loading and the history is non-empty; the handler switches
  the pose and makes no call.
\<close>

theorem cached_pose_counterexample:
  "sequentially_reachable [] friendlyMessage posedState
   \<and> \<not> isLoading posedState \<and> outfitHistory posedState \<noteq> []
   \<and> POSE_INSTRUCTIONS ! 0 \<noteq> currentPoseInstruction posedState
   \<and> handlePoseSelect friendlyMessage (serviceReturns ''new.png'') (POSE_INSTRUCTIONS ! 0)
        posedState
       = Inr ([], posedState\<lparr>currentPoseInstruction := POSE_INSTRUCTIONS ! 0\<rparr>)"
  using sequential_posedState
  by (simp add: handlePoseSelect_def displayImageUrl_def example_defs Let_def)

subsection \<open>A variation whose call throws\<close>

text \<open>
  C6. For each of \<open>handlePoseSelect\<close>, \<open>handleEmotionSelect\<close>,
  \<open>handleBackgroundChange\<close>, \<open>handleBackgroundUpload\<close> and \<open>handleColorChange\<close>: if
  the call to the service throws, then after the handler the corresponding current
  instruction is what it was before the call, \<open>outfitHistory\<close> is unchanged, \<open>error\<close>
  is the message made from the thrown value, and \<open>isLoading\<close> is false.
\<close>

theorem variation_failure_restores:
  assumes "api c = Inl err"
  shows "(handlePoseSelect friendly api newInstruction s = Inr ([c], s') \<longrightarrow>
            currentPoseInstruction s' = currentPoseInstruction s
          \<and> outfitHistory s' = outfitHistory s
          \<and> error s' = Some (friendly err ''Failed to change pose'')
          \<and> \<not> isLoading s')
       \<and> (handleEmotionSelect friendly api newInstruction s = Inr ([c], s') \<longrightarrow>
            currentEmotionInstruction s' = currentEmotionInstruction s
          \<and> outfitHistory s' = outfitHistory s
          \<and> error s' = Some (friendly err ''Failed to change emotion'')
          \<and> \<not> isLoading s')
       \<and> (handleBackgroundChange friendly api newInstruction s = Inr ([c], s') \<longrightarrow>
            currentBackgroundInstruction s' = currentBackgroundInstruction s
          \<and> outfitHistory s' = outfitHistory s
          \<and> error s' = Some (friendly err ''Failed to change background'')
          \<and> \<not> isLoading s')
       \<and> (handleBackgroundUpload friendly api file s = Inr ([c], s') \<longrightarrow>
            currentBackgroundInstruction s' = currentBackgroundInstruction s
          \<and> outfitHistory s' = outfitHistory s
          \<and> error s' = Some (friendly err ''Failed to apply custom background'')
          \<and> \<not> isLoading s')
       \<and> (handleColorChange friendly api newInstruction s = Inr ([c], s') \<longrightarrow>
            currentColorInstruction s' = currentColorInstruction s
          \<and> outfitHistory s' = outfitHistory s
          \<and> error s' = Some (friendly err ''Failed to change color'')
          \<and> \<not> isLoading s')"
proof (intro conjI impI)
  assume "handlePoseSelect friendly api newInstruction s = Inr ([c], s')"
  from handlePoseSelect_failed[OF this assms]
  show "currentPoseInstruction s' = currentPoseInstruction s" "outfitHistory s' = outfitHistory s"
    "error s' = Some (friendly err ''Failed to change pose'')" "\<not> isLoading s'"
    by simp_all
next
  assume "handleEmotionSelect friendly api newInstruction s = Inr ([c], s')"
  from handleEmotionSelect_failed[OF this assms]
  show "currentEmotionInstruction s' = currentEmotionInstruction s"
    "outfitHistory s' = outfitHistory s"
    "error s' = Some (friendly err ''Failed to change emotion'')" "\<not> isLoading s'"
    by simp_all
next
  assume "handleBackgroundChange friendly api newInstruction s = Inr ([c], s')"
  from handleBackgroundChange_failed[OF this assms]
  show "currentBackgroundInstruction s' = currentBackgroundInstruction s"
    "outfitHistory s' = outfitHistory s"
    "error s' = Some (friendly err ''Failed to change background'')" "\<not> isLoading s'"
    by simp_all
next
  assume "handleBackgroundUpload friendly api file s = Inr ([c], s')"
  from handleBackgroundUpload_failed[OF this assms]
  show "currentBackgroundInstruction s' = currentBackgroundInstruction s"
    "outfitHistory s' = outfitHistory s"
    "error s' = Some (friendly err ''Failed to apply custom background'')" "\<not> isLoading s'"
    by simp_all
next
  assume "handleColorChange friendly api newInstruction s = Inr ([c], s')"
  from handleColorChange_failed[OF this assms]
  show "currentColorInstruction s' = currentColorInstruction s"
    "outfitHistory s' = outfitHistory s"
    "error s' = Some (friendly err ''Failed to change color'')" "\<not> isLoading s'"
    by simp_all
qed

text \<open>Each of the five handlers, with a service that throws.\<close>

theorem variation_failure_restores_witness:
  "handlePoseSelect friendlyMessage (serviceThrows ''quota'') ''Side profile view'' modelState
     = Inr ([generatePoseVariation ''model.png'' ''Side profile view''],
            modelState\<lparr>error := Some ''Failed to change pose: quota''\<rparr>)
   \<and> serviceThrows ''quota'' (generatePoseVariation ''model.png'' ''Side profile view'')
       = Inl ''quota''
   \<and> currentPoseInstruction (modelState\<lparr>error := Some ''Failed to change pose: quota''\<rparr>)
       = currentPoseInstruction modelState
   \<and> outfitHistory (modelState\<lparr>error := Some ''Failed to change emotion: quota''\<rparr>)
       = outfitHistory modelState
   \<and> error (modelState\<lparr>error := Some ''Failed to change background: quota''\<rparr>)
       = Some (friendlyMessage ''quota'' ''Failed to change background'')
   \<and> \<not> isLoading (modelState\<lparr>error := Some ''Failed to apply custom background: quota''\<rparr>)
   \<and> currentColorInstruction (dressedState\<lparr>error := Some ''Failed to change color: quota''\<rparr>)
       = currentColorInstruction dressedState"
  using failing_runs(1) quota_throws
    variation_failure_restores[OF quota_throws, THEN conjunct1, rule_format, OF failing_runs(1)]
    variation_failure_restores[OF quota_throws, THEN conjunct2, THEN conjunct1, rule_format,
      OF failing_runs(2)]
    variation_failure_restores[OF quota_throws, THEN conjunct2, THEN conjunct2, THEN conjunct1,
      rule_format, OF failing_runs(3)]
    variation_failure_restores[OF quota_throws, THEN conjunct2, THEN conjunct2, THEN conjunct2,
      THEN conjunct1, rule_format, OF failing_runs(4)]
    variation_failure_restores[OF quota_throws, THEN conjunct2, THEN conjunct2, THEN conjunct2,
      THEN conjunct2, rule_format, OF failing_runs(5)]
  by blast

subsection \<open>A variation whose call succeeds\<close>

text \<open>
  C7, with the one change the code forces. For each of the five variation handlers: if
  the call to the service succeeds, the layer at \<open>currentOutfitIndex\<close> holds the new
  image under the composite key of the new instruction and the three unchanged current
  instructions. When the layer had no entry under that key, exactly one new entry is
  added, after the others; when it had one (holding the empty string, or the handler
  would not have called the service), that entry keeps its place, its image is
  replaced and no entry is added. Everything else is unchanged: \<open>outfitHistory\<close> keeps
  its length, every other layer and every garment are as before, every entry of the
  current layer under another key is preserved, and \<open>currentOutfitIndex\<close> is unchanged;
  the adjusted instruction is the new one and the other three are unchanged. The claim
  has a new entry added in every case.
\<close>

theorem variation_success_stores_image:
  assumes "api c = Inr url"
  shows "(handlePoseSelect friendly api newInstruction s = Inr ([c], s') \<longrightarrow>
            imageStored s s'
              (compositeKey newInstruction (currentEmotionInstruction s)
                  (currentBackgroundInstruction s) (currentColorInstruction s))
              url
          \<and> currentPoseInstruction s' = newInstruction
          \<and> currentEmotionInstruction s' = currentEmotionInstruction s
          \<and> currentBackgroundInstruction s' = currentBackgroundInstruction s
          \<and> currentColorInstruction s' = currentColorInstruction s)
       \<and> (handleEmotionSelect friendly api newInstruction s = Inr ([c], s') \<longrightarrow>
            imageStored s s'
              (compositeKey (currentPoseInstruction s) newInstruction
                  (currentBackgroundInstruction s) (currentColorInstruction s))
              url
          \<and> currentEmotionInstruction s' = newInstruction
          \<and> currentPoseInstruction s' = currentPoseInstruction s
          \<and> currentBackgroundInstruction s' = currentBackgroundInstruction s
          \<and> currentColorInstruction s' = currentColorInstruction s)
       \<and> (handleBackgroundChange friendly api newInstruction s = Inr ([c], s') \<longrightarrow>
            imageStored s s'
              (compositeKey (currentPoseInstruction s)
                  (currentEmotionInstruction s) newInstruction (currentColorInstruction s))
              url
          \<and> currentBackgroundInstruction s' = newInstruction
          \<and> currentPoseInstruction s' = currentPoseInstruction s
          \<and> currentEmotionInstruction s' = currentEmotionInstruction s
          \<and> currentColorInstruction s' = currentColorInstruction s)
       \<and> (handleBackgroundUpload friendly api file s = Inr ([c], s') \<longrightarrow>
            imageStored s s'
              (compositeKey (currentPoseInstruction s) (currentEmotionInstruction s)
                  (''Uploaded: '' @ file_name file) (currentColorInstruction s))
              url
          \<and> currentBackgroundInstruction s' = (''Uploaded: '' @ file_name file)
          \<and> currentPoseInstruction s' = currentPoseInstruction s
          \<and> currentEmotionInstruction s' = currentEmotionInstruction s
          \<and> currentColorInstruction s' = currentColorInstruction s)
       \<and> (handleColorChange friendly api newInstruction s = Inr ([c], s') \<longrightarrow>
            imageStored s s'
              (compositeKey (currentPoseInstruction s) (currentEmotionInstruction s)
                  (currentBackgroundInstruction s) newInstruction)
              url
          \<and> currentColorInstruction s' = newInstruction
          \<and> currentPoseInstruction s' = currentPoseInstruction s
          \<and> currentEmotionInstruction s' = currentEmotionInstruction s
          \<and> currentBackgroundInstruction s' = currentBackgroundInstruction s)"
proof -
  have "imageStored s s'
          (compositeKey newInstruction (currentEmotionInstruction s)
              (currentBackgroundInstruction s) (currentColorInstruction s))
          url
        \<and> currentPoseInstruction s' = newInstruction
        \<and> currentEmotionInstruction s' = currentEmotionInstruction s
        \<and> currentBackgroundInstruction s' = currentBackgroundInstruction s
        \<and> currentColorInstruction s' = currentColorInstruction s"
    if run: "handlePoseSelect friendly api newInstruction s = Inr ([c], s')"
  proof -
    note g = handlePoseSelect_generated[OF run assms]
    have "imageStored s s'
            (compositeKey newInstruction (currentEmotionInstruction s)
                (currentBackgroundInstruction s) (currentColorInstruction s))
            url"
      by (rule imageStored_update) (use g in simp_all)
    then show ?thesis using g by simp
  qed
  moreover
  have "imageStored s s'
          (compositeKey (currentPoseInstruction s) newInstruction (currentBackgroundInstruction s)
              (currentColorInstruction s))
          url
        \<and> currentEmotionInstruction s' = newInstruction
        \<and> currentPoseInstruction s' = currentPoseInstruction s
        \<and> currentBackgroundInstruction s' = currentBackgroundInstruction s
        \<and> currentColorInstruction s' = currentColorInstruction s"
    if run: "handleEmotionSelect friendly api newInstruction s = Inr ([c], s')"
  proof -
    note g = handleEmotionSelect_generated[OF run assms]
    have "imageStored s s'
            (compositeKey (currentPoseInstruction s) newInstruction
                (currentBackgroundInstruction s) (currentColorInstruction s))
            url"
      by (rule imageStored_update) (use g in simp_all)
    then show ?thesis using g by simp
  qed
  moreover
  have "imageStored s s'
          (compositeKey (currentPoseInstruction s) (currentEmotionInstruction s) newInstruction
              (currentColorInstruction s))
          url
        \<and> currentBackgroundInstruction s' = newInstruction
        \<and> currentPoseInstruction s' = currentPoseInstruction s
        \<and> currentEmotionInstruction s' = currentEmotionInstruction s
        \<and> currentColorInstruction s' = currentColorInstruction s"
    if run: "handleBackgroundChange friendly api newInstruction s = Inr ([c], s')"
  proof -
    note g = handleBackgroundChange_generated[OF run assms]
    have "imageStored s s'
            (compositeKey (currentPoseInstruction s) (currentEmotionInstruction s) newInstruction
                (currentColorInstruction s))
            url"
      by (rule imageStored_update) (use g in simp_all)
    then show ?thesis using g by simp
  qed
  moreover
  have "imageStored s s'
          (compositeKey (currentPoseInstruction s) (currentEmotionInstruction s)
              (''Uploaded: '' @ file_name file) (currentColorInstruction s))
          url
        \<and> currentBackgroundInstruction s' = (''Uploaded: '' @ file_name file)
        \<and> currentPoseInstruction s' = currentPoseInstruction s
        \<and> currentEmotionInstruction s' = currentEmotionInstruction s
        \<and> currentColorInstruction s' = currentColorInstruction s"
    if run: "handleBackgroundUpload friendly api file s = Inr ([c], s')"
  proof -
    note g = handleBackgroundUpload_generated[OF run assms]
    have "imageStored s s'
            (compositeKey (currentPoseInstruction s) (currentEmotionInstruction s)
                (''Uploaded: '' @ file_name file) (currentColorInstruction s))
            url"
      by (rule imageStored_update) (use g in simp_all)
    then show ?thesis using g by simp
  qed
  moreover
  have "imageStored s s'
          (compositeKey (currentPoseInstruction s) (currentEmotionInstruction s)
              (currentBackgroundInstruction s) newInstruction)
          url
        \<and> currentColorInstruction s' = newInstruction
        \<and> currentPoseInstruction s' = currentPoseInstruction s
        \<and> currentEmotionInstruction s' = currentEmotionInstruction s
        \<and> currentBackgroundInstruction s' = currentBackgroundInstruction s"
    if run: "handleColorChange friendly api newInstruction s = Inr ([c], s')"
  proof -
    note g = handleColorChange_generated[OF run assms]
    have "imageStored s s'
            (compositeKey (currentPoseInstruction s) (currentEmotionInstruction s)
                (currentBackgroundInstruction s) newInstruction)
            url"
      by (rule imageStored_update) (use g in simp_all)
    then show ?thesis using g by simp
  qed
  ultimately show ?thesis by blast
qed

text \<open>
  A pose that adds an entry to the base layer, and a colour that replaces an empty image.
\<close>

theorem variation_success_stores_image_witness:
  "handlePoseSelect friendlyMessage (serviceReturns ''side.png'') ''Side profile view'' modelState
     = Inr ([generatePoseVariation ''model.png'' ''Side profile view''], posedState)
   \<and> serviceReturns ''side.png'' (generatePoseVariation ''model.png'' ''Side profile view'')
       = Inr ''side.png''
   \<and> imageStored modelState posedState
        (compositeKey ''Side profile view'' (currentEmotionInstruction modelState)
           (currentBackgroundInstruction modelState) (currentColorInstruction modelState))
        ''side.png''
   \<and> generatedImages (outfitHistory posedState ! 0)
       = generatedImages (outfitHistory modelState ! 0)
         @ [(''Side profile view_Neutral_Neutral studio backdrop_Original'', ''side.png'')]
   \<and> currentPoseInstruction posedState = ''Side profile view''
   \<and> currentEmotionInstruction posedState = currentEmotionInstruction modelState
   \<and> imageStored originalAgainState recolouredState
        (compositeKey (currentPoseInstruction originalAgainState)
           (currentEmotionInstruction originalAgainState)
           (currentBackgroundInstruction originalAgainState) ''Vibrant Red'')
        ''red.png''
   \<and> currentColorInstruction recolouredState = ''Vibrant Red''"
proof -
  note pose = variation_success_stores_image[OF returns, THEN conjunct1, rule_format,
      OF posedState_run]
  note emotion = variation_success_stores_image[OF returns, THEN conjunct2, THEN conjunct1,
      rule_format, OF other_runs(1)]
  note background = variation_success_stores_image[OF returns, THEN conjunct2, THEN conjunct2,
      THEN conjunct1, rule_format, OF other_runs(2)]
  note upload = variation_success_stores_image[OF returns, THEN conjunct2, THEN conjunct2,
      THEN conjunct2, THEN conjunct1, rule_format, OF other_runs(3)]
  note color = variation_success_stores_image[OF returns, THEN conjunct2, THEN conjunct2,
      THEN conjunct2, THEN conjunct2, rule_format, OF recolouredState_run]
  have entries: "generatedImages (outfitHistory posedState ! 0)
       = generatedImages (outfitHistory modelState ! 0)
         @ [(''Side profile view_Neutral_Neutral studio backdrop_Original'', ''side.png'')]"
    by (simp add: example_defs)
  show ?thesis
    using pose emotion background upload color posedState_run returns entries
    by simp
qed

text \<open>
  \<open>originalAgainState\<close> is a state of a run; its layer holds the empty string under
  the key of \<open>Vibrant Red\<close>. The colour is requested, the call succeeds, and the layer
  has as many entries as before: the entry that held the empty string is gone and none
  was added.
\<close>

theorem overwritten_empty_image_counterexample:
  "sequentially_reachable [] friendlyMessage originalAgainState
   \<and> handleColorChange friendlyMessage
       (serviceReturns ''red.png'') ''Vibrant Red'' originalAgainState
     = Inr ([generateColorVariation ''worn.png'' ''Vibrant Red''], recolouredState)
   \<and> serviceReturns ''red.png'' (generateColorVariation ''worn.png'' ''Vibrant Red'')
       = Inr ''red.png''
   \<and> length (generatedImages
       (outfitHistory recolouredState ! currentOutfitIndex originalAgainState))
       = length (generatedImages
                   (outfitHistory originalAgainState ! currentOutfitIndex originalAgainState))
   \<and> (compositeKey ''Full frontal view, hands on hips'' ''Neutral'' ''Neutral studio backdrop''
         ''Vibrant Red'', [])
       \<in> set (generatedImages
                (outfitHistory originalAgainState ! currentOutfitIndex originalAgainState))
   \<and> (compositeKey ''Full frontal view, hands on hips'' ''Neutral'' ''Neutral studio backdrop''
         ''Vibrant Red'', [])
       \<notin> set (generatedImages
                (outfitHistory recolouredState ! currentOutfitIndex originalAgainState))"
  using sequential_originalAgainState
  by (simp add: handleColorChange_def displayImageUrl_def example_defs Let_def)

subsection \<open>Removing the last garment and applying it again\<close>

text \<open>
  C8, as the code has it. In every state with \<open>currentOutfitIndex > 0\<close>,
  \<open>handleRemoveLastGarment\<close> lowers \<open>currentOutfitIndex\<close> by one and leaves
  \<open>outfitHistory\<close> unchanged. If moreover \<open>isLoading\<close> is false and the image displayed
  after the removal is not empty, then \<open>handleGarmentSelect\<close>, called next with a garment
  that has the id of the garment of the layer that was left, makes no call to the
  service, brings \<open>currentOutfitIndex\<close> back to its value and leaves \<open>outfitHistory\<close>, and
  so the images of the layer, unchanged. When \<open>currentOutfitIndex\<close> is 0,
  \<open>handleRemoveLastGarment\<close> changes nothing. The claim has the second step succeed in
  every state; \<open>handleGarmentSelect\<close> returns at once while \<open>isLoading\<close> is true or
  nothing is displayed, and \<open>handleRemoveLastGarment\<close> tests neither.
\<close>

theorem undo_redo_round_trip:
  "(0 < currentOutfitIndex s \<longrightarrow>
      currentOutfitIndex (handleRemoveLastGarment s) = currentOutfitIndex s - 1
      \<and> outfitHistory (handleRemoveLastGarment s) = outfitHistory s)
   \<and> (0 < currentOutfitIndex s
        \<and> currentOutfitIndex s < length (outfitHistory s)
        \<and> garment (outfitHistory s ! currentOutfitIndex s) = Some g
        \<and> item_id garmentInfo = item_id g
        \<and> \<not> isLoading s
        \<and> truthy (displayImageUrl (handleRemoveLastGarment s)) \<longrightarrow>
          handleGarmentSelect friendly api garmentFile garmentInfo (handleRemoveLastGarment s)
            = ([], resetStateForNewGarment s)
          \<and> currentOutfitIndex (resetStateForNewGarment s) = currentOutfitIndex s
          \<and> outfitHistory (resetStateForNewGarment s) = outfitHistory s)
   \<and> (currentOutfitIndex s = 0 \<longrightarrow> handleRemoveLastGarment s = s)"
proof (intro conjI impI)
  assume "currentOutfitIndex s = 0"
  then show "handleRemoveLastGarment s = s" by (simp add: handleRemoveLastGarment_def)
next
  assume "0 < currentOutfitIndex s"
  then show "currentOutfitIndex (handleRemoveLastGarment s) = currentOutfitIndex s - 1"
    and "outfitHistory (handleRemoveLastGarment s) = outfitHistory s"
    by (simp_all add: handleRemoveLastGarment_def resetStateForNewGarment_def)
next
  show "currentOutfitIndex (resetStateForNewGarment s) = currentOutfitIndex s"
    and "outfitHistory (resetStateForNewGarment s) = outfitHistory s"
    by (simp_all add: resetStateForNewGarment_def)
next
  assume a: "0 < currentOutfitIndex s
        \<and> currentOutfitIndex s < length (outfitHistory s)
        \<and> garment (outfitHistory s ! currentOutfitIndex s) = Some g
        \<and> item_id garmentInfo = item_id g
        \<and> \<not> isLoading s
        \<and> truthy (displayImageUrl (handleRemoveLastGarment s))"
  let ?r = "handleRemoveLastGarment s"
  have r: "?r = resetStateForNewGarment (s\<lparr>currentOutfitIndex := currentOutfitIndex s - 1\<rparr>)"
    using a by (simp add: handleRemoveLastGarment_def)
  have fields: "currentOutfitIndex ?r + 1 = currentOutfitIndex s"
    "outfitHistory ?r = outfitHistory s" "\<not> isLoading ?r"
    using a by (simp_all add: r resetStateForNewGarment_def)
  have undone: "resetStateForNewGarment (?r\<lparr>currentOutfitIndex := currentOutfitIndex s\<rparr>)
      = resetStateForNewGarment s"
    by (simp add: r resetStateForNewGarment_def)
  have "handleGarmentSelect friendly api garmentFile garmentInfo ?r
          = ([], resetStateForNewGarment (?r\<lparr>currentOutfitIndex := currentOutfitIndex ?r + 1\<rparr>))"
    using a fields(3) unfolding handleGarmentSelect_def Let_def fields(1,2) by simp
  then show "handleGarmentSelect friendly api garmentFile garmentInfo ?r
      = ([], resetStateForNewGarment s)"
    unfolding fields(1) undone .
qed

text \<open>The shirt is removed and applied again; in the model state nothing is removed.\<close>

theorem undo_redo_round_trip_witness:
  "0 < currentOutfitIndex dressedState
   \<and> currentOutfitIndex dressedState < length (outfitHistory dressedState)
   \<and> garment (outfitHistory dressedState ! currentOutfitIndex dressedState) = Some shirt
   \<and> \<not> isLoading dressedState
   \<and> truthy (displayImageUrl (handleRemoveLastGarment dressedState))
   \<and> currentOutfitIndex (handleRemoveLastGarment dressedState) = 0
   \<and> outfitHistory (handleRemoveLastGarment dressedState) = outfitHistory dressedState
   \<and> handleGarmentSelect friendlyMessage (serviceThrows ''unused'') shirtFile shirt
        (handleRemoveLastGarment dressedState) = ([], dressedState)
   \<and> currentOutfitIndex modelState = 0
   \<and> handleRemoveLastGarment modelState = modelState"
proof -
  have hyp: "0 < currentOutfitIndex dressedState
     \<and> currentOutfitIndex dressedState < length (outfitHistory dressedState)
     \<and> garment (outfitHistory dressedState ! currentOutfitIndex dressedState) = Some shirt
     \<and> item_id shirt = item_id shirt
     \<and> \<not> isLoading dressedState
     \<and> truthy (displayImageUrl (handleRemoveLastGarment dressedState))"
    by (simp add: handleRemoveLastGarment_def displayImageUrl_def example_defs Let_def)
  have pos: "0 < currentOutfitIndex dressedState" and zero: "currentOutfitIndex modelState = 0"
    and same: "resetStateForNewGarment dressedState = dressedState"
    by (simp_all add: example_defs)
  note t = undo_redo_round_trip
  from t[where s = dressedState, THEN conjunct1, rule_format, OF pos]
    t[where s = dressedState and g = shirt and garmentInfo = shirt
        and friendly = friendlyMessage and api = "serviceThrows ''unused''"
        and garmentFile = shirtFile,
      THEN conjunct2, THEN conjunct1, rule_format, OF hyp]
    t[where s = modelState, THEN conjunct2, THEN conjunct2, rule_format, OF zero]
    hyp zero same
  show ?thesis by (simp add: example_defs)
qed

text \<open>
  Two states of the application in which the garment that was removed is not applied
  again. In \<open>awaitingPoseState\<close> a pose is awaited: the shirt is removed, and
  \<open>handleGarmentSelect\<close> returns at once because \<open>isLoading\<close> is true. In
  \<open>emptyBaseState\<close> nothing is awaited, but the layer below the shirt shows the empty
  string, and \<open>handleGarmentSelect\<close> returns at once because nothing is displayed. In
  both the index stays at 0.
\<close>

theorem round_trip_blocked_counterexample:
  "reachable False [] friendlyMessage (awaitingPoseState, [awaitedPose])
   \<and> 0 < currentOutfitIndex awaitingPoseState
   \<and> garment (outfitHistory awaitingPoseState ! currentOutfitIndex awaitingPoseState) = Some shirt
   \<and> handleGarmentSelect friendlyMessage (serviceReturns ''unused.png'') shirtFile shirt
        (handleRemoveLastGarment awaitingPoseState)
       = ([], handleRemoveLastGarment awaitingPoseState)
   \<and> currentOutfitIndex (handleRemoveLastGarment awaitingPoseState)
       \<noteq> currentOutfitIndex awaitingPoseState
   \<and> reachable False [] friendlyMessage (emptyBaseState, [])
   \<and> 0 < currentOutfitIndex emptyBaseState
   \<and> \<not> isLoading emptyBaseState
   \<and> garment (outfitHistory emptyBaseState ! currentOutfitIndex emptyBaseState) = Some shirt
   \<and> handleGarmentSelect friendlyMessage (serviceReturns ''unused.png'') shirtFile shirt
        (handleRemoveLastGarment emptyBaseState)
       = ([], handleRemoveLastGarment emptyBaseState)
   \<and> currentOutfitIndex (handleRemoveLastGarment emptyBaseState)
       \<noteq> currentOutfitIndex emptyBaseState"
  using reachable_unrestricted[OF reachable_awaitingPoseState] reachable_emptyBaseState
  by (simp add: handleGarmentSelect_def handleRemoveLastGarment_def displayImageUrl_def
        race_defs example_defs Let_def)

subsection \<open>Finalizing the model\<close>

text \<open>
  C9. After \<open>handleModelFinalized url\<close>, \<open>outfitHistory\<close> is exactly one layer without
  garment whose \<open>generatedImages\<close> is the single entry from the default composite key
  (first pose, first emotion, first background, first colour) to \<open>url\<close>;
  \<open>currentOutfitIndex\<close> is 0; the four current instructions are the defaults; and the
  displayed image is \<open>url\<close>.
\<close>

theorem handleModelFinalized_result:
  "outfitHistory (handleModelFinalized url s) =
     [\<lparr>garment = None,
       generatedImages =
         [(compositeKey (POSE_INSTRUCTIONS ! 0) (EMOTION_INSTRUCTIONS ! 0)
             (BACKGROUND_INSTRUCTIONS ! 0) (COLOR_INSTRUCTIONS ! 0), url)]\<rparr>]
   \<and> currentOutfitIndex (handleModelFinalized url s) = 0
   \<and> currentPoseInstruction (handleModelFinalized url s) = POSE_INSTRUCTIONS ! 0
   \<and> currentEmotionInstruction (handleModelFinalized url s) = EMOTION_INSTRUCTIONS ! 0
   \<and> currentBackgroundInstruction (handleModelFinalized url s) = BACKGROUND_INSTRUCTIONS ! 0
   \<and> currentColorInstruction (handleModelFinalized url s) = COLOR_INSTRUCTIONS ! 0
   \<and> displayImageUrl (handleModelFinalized url s) = Some url"
  by (simp add: handleModelFinalized_def resetStateForNewGarment_def displayImageUrl_def
        initialKey_def compositeKey_def Let_def)

text \<open>The model state, with the key written out.\<close>

theorem handleModelFinalized_result_witness:
  "outfitHistory modelState =
     [\<lparr>garment = None,
       generatedImages =
         [(''Full frontal view, hands on hips_Neutral_Neutral studio backdrop_Original'',
           ''model.png'')]\<rparr>]
   \<and> currentOutfitIndex modelState = 0
   \<and> currentPoseInstruction modelState = ''Full frontal view, hands on hips''
   \<and> currentEmotionInstruction modelState = ''Neutral''
   \<and> currentBackgroundInstruction modelState = ''Neutral studio backdrop''
   \<and> currentColorInstruction modelState = ''Original''
   \<and> displayImageUrl modelState = Some ''model.png''"
  using handleModelFinalized_result[of "''model.png''" "initialState []"]
  by (simp add: modelState_def compositeKey_def instruction_defs)

subsection \<open>The base image of a colour change\<close>

text \<open>
  C10, with the one change the code forces. \<open>handleColorChange\<close> does nothing on the
  base model layer (\<open>currentOutfitIndex = 0\<close>). Whenever it calls the service, the base
  image of the call is the image the current layer holds under the key of the current
  pose, emotion and background with the first colour (\<open>Original\<close>), and that image is
  not the empty string. On a garment layer, when the requested colour is not in the
  layer: if the entry of the first colour is absent or holds the empty string, the
  handler sets the error message and changes nothing else, without calling the
  service; if the entry is there and not empty, the handler calls the service with it
  and leaves the state of a success or of a failure. The claim has the error only for
  an absent entry; the code tests the entry for truthiness.
\<close>

theorem handleColorChange_base_image:
  "(currentOutfitIndex s = 0 \<longrightarrow> handleColorChange friendly api newInstruction s = Inr ([], s))
   \<and> (handleColorChange friendly api newInstruction s = Inr (calls, s') \<longrightarrow>
        calls = []
        \<or> (\<exists>base. map_of (generatedImages (outfitHistory s ! currentOutfitIndex s))
                      (compositeKey (currentPoseInstruction s) (currentEmotionInstruction s)
                         (currentBackgroundInstruction s) (COLOR_INSTRUCTIONS ! 0)) = Some base
                  \<and> base \<noteq> []
                  \<and> calls = [generateColorVariation base newInstruction]))
   \<and> (\<not> isLoading s \<and> newInstruction \<noteq> currentColorInstruction s
        \<and> 0 < currentOutfitIndex s \<and> currentOutfitIndex s < length (outfitHistory s)
        \<and> \<not> truthy (map_of (generatedImages (outfitHistory s ! currentOutfitIndex s))
                        (compositeKey (currentPoseInstruction s) (currentEmotionInstruction s)
                           (currentBackgroundInstruction s) newInstruction)) \<longrightarrow>
        (\<not> truthy (map_of (generatedImages (outfitHistory s ! currentOutfitIndex s))
                     (compositeKey (currentPoseInstruction s) (currentEmotionInstruction s)
                        (currentBackgroundInstruction s) (COLOR_INSTRUCTIONS ! 0))) \<longrightarrow>
           handleColorChange friendly api newInstruction s =
             Inr ([], s\<lparr>error :=
                          Some ''The original image for this outfit is missing. Cannot change color.''\<rparr>))
        \<and> (\<forall>base. map_of (generatedImages (outfitHistory s ! currentOutfitIndex s))
                     (compositeKey (currentPoseInstruction s) (currentEmotionInstruction s)
                        (currentBackgroundInstruction s) (COLOR_INSTRUCTIONS ! 0)) = Some base
                   \<and> base \<noteq> [] \<longrightarrow>
             handleColorChange friendly api newInstruction s =
               Inr ([generateColorVariation base newInstruction],
                    case api (generateColorVariation base newInstruction) of
                      Inr newImageUrl \<Rightarrow>
                        s\<lparr>outfitHistory :=
                            (outfitHistory s)
                              [currentOutfitIndex s :=
                                 (outfitHistory s ! currentOutfitIndex s)
                                   \<lparr>generatedImages :=
                                      AList.update
                                        (compositeKey (currentPoseInstruction s)
                                           (currentEmotionInstruction s)
                                           (currentBackgroundInstruction s) newInstruction)
                                        newImageUrl
                                        (generatedImages
                                           (outfitHistory s ! currentOutfitIndex s))\<rparr>],
                          error := None, isLoading := False, loadingMessage := [],
                          currentColorInstruction := newInstruction\<rparr>
                    | Inl err \<Rightarrow>
                        s\<lparr>error := Some (friendly err ''Failed to change color''),
                          isLoading := False, loadingMessage := []\<rparr>)))"
proof (intro conjI impI allI)
  assume "currentOutfitIndex s = 0"
  then show "handleColorChange friendly api newInstruction s = Inr ([], s)"
    by (simp add: handleColorChange_def)
next
  assume run: "handleColorChange friendly api newInstruction s = Inr (calls, s')"
  show "calls = []
        \<or> (\<exists>base. map_of (generatedImages (outfitHistory s ! currentOutfitIndex s))
                      (compositeKey (currentPoseInstruction s) (currentEmotionInstruction s)
                         (currentBackgroundInstruction s) (COLOR_INSTRUCTIONS ! 0)) = Some base
                  \<and> base \<noteq> []
                  \<and> calls = [generateColorVariation base newInstruction])"
  proof (cases "map_of (generatedImages (outfitHistory s ! currentOutfitIndex s))
                  (compositeKey (currentPoseInstruction s) (currentEmotionInstruction s)
                     (currentBackgroundInstruction s) (COLOR_INSTRUCTIONS ! 0))")
    case None
    with run show ?thesis
      by (auto simp: handleColorChange_def Let_def split: if_splits)
  next
    case (Some base)
    with run show ?thesis
      by (auto simp: handleColorChange_def Let_def split: if_splits sum.splits)
  qed
next
  assume "\<not> isLoading s \<and> newInstruction \<noteq> currentColorInstruction s
        \<and> 0 < currentOutfitIndex s \<and> currentOutfitIndex s < length (outfitHistory s)
        \<and> \<not> truthy (map_of (generatedImages (outfitHistory s ! currentOutfitIndex s))
                        (compositeKey (currentPoseInstruction s) (currentEmotionInstruction s)
                           (currentBackgroundInstruction s) newInstruction))"
    and "\<not> truthy (map_of (generatedImages (outfitHistory s ! currentOutfitIndex s))
                     (compositeKey (currentPoseInstruction s) (currentEmotionInstruction s)
                        (currentBackgroundInstruction s) (COLOR_INSTRUCTIONS ! 0)))"
  then show "handleColorChange friendly api newInstruction s =
             Inr ([], s\<lparr>error :=
                          Some ''The original image for this outfit is missing. Cannot change color.''\<rparr>)"
    by (auto simp: handleColorChange_def Let_def)
next
  fix base
  assume "\<not> isLoading s \<and> newInstruction \<noteq> currentColorInstruction s
        \<and> 0 < currentOutfitIndex s \<and> currentOutfitIndex s < length (outfitHistory s)
        \<and> \<not> truthy (map_of (generatedImages (outfitHistory s ! currentOutfitIndex s))
                        (compositeKey (currentPoseInstruction s) (currentEmotionInstruction s)
                           (currentBackgroundInstruction s) newInstruction))"
    and "map_of (generatedImages (outfitHistory s ! currentOutfitIndex s))
           (compositeKey (currentPoseInstruction s) (currentEmotionInstruction s)
              (currentBackgroundInstruction s) (COLOR_INSTRUCTIONS ! 0)) = Some base
                   \<and> base \<noteq> []"
  then show "handleColorChange friendly api newInstruction s =
               Inr ([generateColorVariation base newInstruction],
                    case api (generateColorVariation base newInstruction) of
                      Inr newImageUrl \<Rightarrow>
                        s\<lparr>outfitHistory :=
                            (outfitHistory s)
                              [currentOutfitIndex s :=
                                 (outfitHistory s ! currentOutfitIndex s)
                                   \<lparr>generatedImages :=
                                      AList.update
                                        (compositeKey (currentPoseInstruction s)
                                           (currentEmotionInstruction s)
                                           (currentBackgroundInstruction s) newInstruction)
                                        newImageUrl
                                        (generatedImages
                                           (outfitHistory s ! currentOutfitIndex s))\<rparr>],
                          error := None, isLoading := False, loadingMessage := [],
                          currentColorInstruction := newInstruction\<rparr>
                    | Inl err \<Rightarrow>
                        s\<lparr>error := Some (friendly err ''Failed to change color''),
                          isLoading := False, loadingMessage := []\<rparr>)"
    by (auto simp: handleColorChange_def Let_def split: sum.splits)
qed

text \<open>
  The base layer; a layer without an image of the current pose in the first colour; a
  layer with one.
\<close>

theorem handleColorChange_base_image_witness:
  "currentOutfitIndex modelState = 0
   \<and> handleColorChange friendlyMessage (serviceReturns ''red.png'') ''Vibrant Red'' modelState
       = Inr ([], modelState)
   \<and> \<not> truthy (map_of (generatedImages
       (outfitHistory redSideState ! currentOutfitIndex redSideState))
        (compositeKey (currentPoseInstruction redSideState)
           (currentEmotionInstruction redSideState)
           (currentBackgroundInstruction redSideState) (COLOR_INSTRUCTIONS ! 0)))
   \<and> handleColorChange friendlyMessage (serviceReturns ''blue.png'') ''Deep Blue'' redSideState
       = Inr ([], redSideState
                    \<lparr>error :=
                       Some ''The original image for this outfit is missing. Cannot change color.''\<rparr>)
   \<and> map_of (generatedImages (outfitHistory dressedState ! currentOutfitIndex dressedState))
        (compositeKey (currentPoseInstruction dressedState)
           (currentEmotionInstruction dressedState)
           (currentBackgroundInstruction dressedState)
               (COLOR_INSTRUCTIONS ! 0)) = Some ''worn.png''
   \<and> handleColorChange friendlyMessage (serviceReturns ''red.png'') ''Vibrant Red'' dressedState
       = Inr ([generateColorVariation ''worn.png'' ''Vibrant Red''], recolouredState)"
proof -
  have zero: "currentOutfitIndex modelState = 0" by (simp add: example_defs)
  have side: "\<not> isLoading redSideState
        \<and> ''Deep Blue'' \<noteq> currentColorInstruction redSideState
        \<and> 0 < currentOutfitIndex redSideState
        \<and> currentOutfitIndex redSideState < length (outfitHistory redSideState)
        \<and> \<not> truthy (map_of (generatedImages
            (outfitHistory redSideState ! currentOutfitIndex redSideState))
                        (compositeKey (currentPoseInstruction redSideState)
                           (currentEmotionInstruction redSideState)
                           (currentBackgroundInstruction redSideState) ''Deep Blue''))"
    and absent: "\<not> truthy (map_of (generatedImages
        (outfitHistory redSideState ! currentOutfitIndex redSideState))
        (compositeKey (currentPoseInstruction redSideState)
           (currentEmotionInstruction redSideState)
           (currentBackgroundInstruction redSideState) (COLOR_INSTRUCTIONS ! 0)))"
    by (simp_all add: example_defs)
  have dressed: "\<not> isLoading dressedState
        \<and> ''Vibrant Red'' \<noteq> currentColorInstruction dressedState
        \<and> 0 < currentOutfitIndex dressedState
        \<and> currentOutfitIndex dressedState < length (outfitHistory dressedState)
        \<and> \<not> truthy (map_of (generatedImages
            (outfitHistory dressedState ! currentOutfitIndex dressedState))
                        (compositeKey (currentPoseInstruction dressedState)
                           (currentEmotionInstruction dressedState)
                           (currentBackgroundInstruction dressedState) ''Vibrant Red''))"
    and present: "map_of (generatedImages
        (outfitHistory dressedState ! currentOutfitIndex dressedState))
        (compositeKey (currentPoseInstruction dressedState)
           (currentEmotionInstruction dressedState)
           (currentBackgroundInstruction dressedState)
               (COLOR_INSTRUCTIONS ! 0)) = Some ''worn.png''
        \<and> ''worn.png'' \<noteq> []"
    by (simp_all add: example_defs)
  note t = handleColorChange_base_image
  note base = t[where s = modelState and friendly = friendlyMessage
      and api = "serviceReturns ''red.png''" and newInstruction = "''Vibrant Red''",
      THEN conjunct1, rule_format, OF zero]
  note missing = t[where s = redSideState and friendly = friendlyMessage
      and api = "serviceReturns ''blue.png''" and newInstruction = "''Deep Blue''",
      THEN conjunct2, THEN conjunct2, rule_format, OF side, THEN conjunct1, rule_format, OF absent]
  note generated = t[where s = dressedState and friendly = friendlyMessage
      and api = "serviceReturns ''red.png''" and newInstruction = "''Vibrant Red''",
      THEN conjunct2, THEN conjunct2, rule_format, OF dressed, THEN conjunct2, rule_format,
      OF present]
  have "handleColorChange friendlyMessage
      (serviceReturns ''red.png'') ''Vibrant Red'' dressedState
       = Inr ([generateColorVariation ''worn.png'' ''Vibrant Red''], recolouredState)"
    unfolding generated by (simp add: example_defs)
  then show ?thesis using base missing zero absent present by blast
qed

text \<open>
  \<open>emptyWornState\<close> is a state of a run: the shirt was applied and the service returned
  the empty string. The layer of the shirt has an entry under the key of the first
  colour, and the requested colour is not in the layer; the handler sets the error
  message and makes no call.
\<close>

theorem empty_original_entry_counterexample:
  "sequentially_reachable [] friendlyMessage emptyWornState
   \<and> 0 < currentOutfitIndex emptyWornState
   \<and> \<not> isLoading emptyWornState
   \<and> ''Vibrant Red'' \<noteq> currentColorInstruction emptyWornState
   \<and> map_of (generatedImages (outfitHistory emptyWornState ! currentOutfitIndex emptyWornState))
        (compositeKey (currentPoseInstruction emptyWornState)
           (currentEmotionInstruction emptyWornState)
           (currentBackgroundInstruction emptyWornState) ''Vibrant Red'') = None
   \<and> map_of (generatedImages (outfitHistory emptyWornState ! currentOutfitIndex emptyWornState))
        (compositeKey (currentPoseInstruction emptyWornState)
           (currentEmotionInstruction emptyWornState)
           (currentBackgroundInstruction emptyWornState) (COLOR_INSTRUCTIONS ! 0)) = Some []
   \<and> handleColorChange friendlyMessage (serviceReturns ''red.png'') ''Vibrant Red'' emptyWornState
       = Inr ([], emptyWornState
                    \<lparr>error :=
                       Some ''The original image for this outfit is missing. Cannot change color.''\<rparr>)"
  using sequential_emptyWornState
  by (simp add: handleColorChange_def race_defs example_defs Let_def)

end
